theory Spec2Isabelle
  imports Complex_Main "HOL-Library.AList" "HOL-Library.Log_Nat"
begin

section \<open>Common data: settings, errors, Python dictionaries\<close>

text \<open>
  The fields of \<open>Settings\<close> (config.py) that the modelled helpers read.
\<close>

record settings =
  s3_bucket_name :: string
  personalize_dataset_group_name :: string
  personalize_solution_name :: string
  personalize_campaign_name :: string

text \<open>
  botocore's \<open>ClientError\<close>: \<open>err_code\<close> is \<open>e.response['Error']['Code']\<close>, \<open>err_text\<close> is
  what \<open>str(e)\<close> (the \<open>{e}\<close> of an f-string) prints.
\<close>

datatype client_error = ClientError (err_code: string) (err_text: string)

text \<open>
  The exceptions the helpers and the route raise themselves, and botocore's
  \<open>ParamValidationError\<close>, which the client raises for a call whose parameters it rejects
  before anything is sent; it is not a \<open>ClientError\<close>.
\<close>

datatype py_exception =
    Exception string
  | ValueError string
  | TypeError string
  | ZeroDivisionError string
  | HTTPException nat string
  | ParamValidationError string

text \<open>A \<open>Dict[str, str]\<close> result, in insertion order.\<close>

type_synonym str_dict = "(string \<times> string) list"

section \<open>Recommendation-service adapter (personalize_helper.py)\<close>

subsection \<open>The managed service, as the adapter's calls see it\<close>

text \<open>
  The service is not code of the repository.  It is a state of listed resources; a call
  first consumes one entry of \<open>pz_faults\<close> (\<open>Some e\<close>: the call raises \<open>ClientError e\<close>,
  \<open>None\<close> or an exhausted schedule: the call goes through), a create call refuses a name
  that exists with \<open>ResourceAlreadyExistsException\<close>, and a list call returns the first
  \<open>maxResults\<close> resources (one page; the adapter never asks for a second one).
\<close>

record resource =
  res_name :: string
  res_arn :: string
  res_status :: string
  res_group :: string
  res_extra :: "string option"

record personalize =
  dataset_groups :: "resource list"
  datasets :: "resource list"
  solutions :: "resource list"
  campaigns :: "resource list"
  pz_faults :: "client_error option list"

definition pz_call :: "personalize \<Rightarrow> client_error option \<times> personalize" where
  "pz_call s = (case pz_faults s of [] \<Rightarrow> (None, s) | f # fs \<Rightarrow> (f, s\<lparr>pz_faults := fs\<rparr>))"

definition already_exists :: "string \<Rightarrow> client_error" where
  "already_exists nm = ClientError ''ResourceAlreadyExistsException'' (''Another resource with name '' @ nm @ '' already exists'')"

definition arn_of :: "string \<Rightarrow> string \<Rightarrow> string" where
  "arn_of kind nm = ''arn:aws:personalize:::'' @ kind @ ''/'' @ nm"

definition new_resource :: "string \<Rightarrow> string \<Rightarrow> string \<Rightarrow> string option \<Rightarrow> resource" where
  "new_resource kind nm grp extra =
     \<lparr>res_name = nm, res_arn = arn_of kind nm, res_status = ''CREATE PENDING'',
      res_group = grp, res_extra = extra\<rparr>"

definition has_name :: "string \<Rightarrow> resource list \<Rightarrow> bool" where
  "has_name nm rs = (find (\<lambda>r. res_name r = nm) rs \<noteq> None)"

definition client_list_dataset_groups ::
  "nat \<Rightarrow> personalize \<Rightarrow> (client_error + resource list) \<times> personalize" where
  "client_list_dataset_groups maxResults s =
     (case pz_call s of
        (Some e, s') \<Rightarrow> (Inl e, s')
      | (None, s') \<Rightarrow> (Inr (take maxResults (dataset_groups s')), s'))"

definition client_list_datasets ::
  "string \<Rightarrow> nat \<Rightarrow> personalize \<Rightarrow> (client_error + resource list) \<times> personalize" where
  "client_list_datasets datasetGroupArn maxResults s =
     (case pz_call s of
        (Some e, s') \<Rightarrow> (Inl e, s')
      | (None, s') \<Rightarrow>
          (Inr (take maxResults (filter (\<lambda>r. res_group r = datasetGroupArn) (datasets s'))), s'))"

definition client_list_solutions ::
  "string \<Rightarrow> nat \<Rightarrow> personalize \<Rightarrow> (client_error + resource list) \<times> personalize" where
  "client_list_solutions datasetGroupArn maxResults s =
     (case pz_call s of
        (Some e, s') \<Rightarrow> (Inl e, s')
      | (None, s') \<Rightarrow>
          (Inr (take maxResults (filter (\<lambda>r. res_group r = datasetGroupArn) (solutions s'))), s'))"

definition client_list_campaigns ::
  "nat \<Rightarrow> personalize \<Rightarrow> (client_error + resource list) \<times> personalize" where
  "client_list_campaigns maxResults s =
     (case pz_call s of
        (Some e, s') \<Rightarrow> (Inl e, s')
      | (None, s') \<Rightarrow> (Inr (take maxResults (campaigns s')), s'))"

definition client_create_dataset_group ::
  "string \<Rightarrow> personalize \<Rightarrow> (client_error + string) \<times> personalize" where
  "client_create_dataset_group nm s =
     (case pz_call s of
        (Some e, s') \<Rightarrow> (Inl e, s')
      | (None, s') \<Rightarrow>
          if has_name nm (dataset_groups s') then (Inl (already_exists nm), s')
          else (Inr (arn_of ''dataset-group'' nm),
                s'\<lparr>dataset_groups := dataset_groups s' @ [new_resource ''dataset-group'' nm [] None]\<rparr>))"

definition client_create_dataset ::
  "string \<Rightarrow> string \<Rightarrow> personalize \<Rightarrow> (client_error + string) \<times> personalize" where
  "client_create_dataset nm datasetGroupArn s =
     (case pz_call s of
        (Some e, s') \<Rightarrow> (Inl e, s')
      | (None, s') \<Rightarrow>
          if has_name nm (datasets s') then (Inl (already_exists nm), s')
          else (Inr (arn_of ''dataset'' nm),
                s'\<lparr>datasets := datasets s' @ [new_resource ''dataset'' nm datasetGroupArn None]\<rparr>))"

definition client_create_solution ::
  "string \<Rightarrow> string \<Rightarrow> string \<Rightarrow> personalize \<Rightarrow> (client_error + string) \<times> personalize" where
  "client_create_solution nm datasetGroupArn recipeArn s =
     (case pz_call s of
        (Some e, s') \<Rightarrow> (Inl e, s')
      | (None, s') \<Rightarrow>
          if has_name nm (solutions s') then (Inl (already_exists nm), s')
          else (Inr (arn_of ''solution'' nm),
                s'\<lparr>solutions := solutions s' @ [new_resource ''solution'' nm datasetGroupArn (Some recipeArn)]\<rparr>))"

definition client_create_campaign ::
  "string \<Rightarrow> string \<Rightarrow> personalize \<Rightarrow> (client_error + string) \<times> personalize" where
  "client_create_campaign nm solutionVersionArn s =
     (case pz_call s of
        (Some e, s') \<Rightarrow> (Inl e, s')
      | (None, s') \<Rightarrow>
          if has_name nm (campaigns s') then (Inl (already_exists nm), s')
          else (Inr (arn_of ''campaign'' nm),
                s'\<lparr>campaigns := campaigns s' @ [new_resource ''campaign'' nm [] None]\<rparr>))"

subsection \<open>Lookups by derived name\<close>

text \<open>\<open>d[k]\<close> on a result dictionary whose key the callee always sets.\<close>

definition dict_item :: "str_dict \<Rightarrow> string \<Rightarrow> string" where
  "dict_item d k = (case map_of d k of Some v \<Rightarrow> v | None \<Rightarrow> [])"

definition get_dataset_group ::
  "settings \<Rightarrow> string \<Rightarrow> personalize \<Rightarrow> (py_exception + str_dict) \<times> personalize" where
  "get_dataset_group cfg tenant_id s =
     (let dataset_group_name = personalize_dataset_group_name cfg @ ''-'' @ tenant_id in
      case client_list_dataset_groups 100 s of
        (Inl e, s') \<Rightarrow> (Inl (Exception (''Dataset group retrieval failed: '' @ err_text e)), s')
      | (Inr dgs, s') \<Rightarrow>
          (case find (\<lambda>dg. res_name dg = dataset_group_name) dgs of
             Some dg \<Rightarrow>
               (Inr [(''dataset_group_arn'', res_arn dg), (''name'', res_name dg),
                     (''status'', res_status dg)], s')
           | None \<Rightarrow> (Inl (Exception (''Dataset group not found for tenant '' @ tenant_id)), s')))"

definition get_solution ::
  "settings \<Rightarrow> string \<Rightarrow> personalize \<Rightarrow> (py_exception + str_dict) \<times> personalize" where
  "get_solution cfg tenant_id s =
     (case get_dataset_group cfg tenant_id s of
        (Inl ex, s1) \<Rightarrow> (Inl ex, s1)
      | (Inr dataset_group_info, s1) \<Rightarrow>
          (let dataset_group_arn = dict_item dataset_group_info ''dataset_group_arn'' in
           case client_list_solutions dataset_group_arn 100 s1 of
             (Inl e, s2) \<Rightarrow> (Inl (Exception (''Solution retrieval failed: '' @ err_text e)), s2)
           | (Inr sols, s2) \<Rightarrow>
               (let solution_name = personalize_solution_name cfg @ ''-'' @ tenant_id in
                case find (\<lambda>sol. res_name sol = solution_name) sols of
                  Some sol \<Rightarrow>
                    (Inr [(''solution_arn'', res_arn sol), (''name'', res_name sol),
                          (''status'', res_status sol),
                          (''recipe_arn'', case res_extra sol of Some r \<Rightarrow> r | None \<Rightarrow> [])], s2)
                | None \<Rightarrow> (Inl (Exception (''Solution not found for tenant '' @ tenant_id)), s2))))"

definition get_campaign ::
  "settings \<Rightarrow> string \<Rightarrow> personalize \<Rightarrow> (py_exception + str_dict) \<times> personalize" where
  "get_campaign cfg tenant_id s =
     (case client_list_campaigns 100 s of
        (Inl e, s') \<Rightarrow> (Inl (Exception (''Campaign retrieval failed: '' @ err_text e)), s')
      | (Inr cs, s') \<Rightarrow>
          (let campaign_name = personalize_campaign_name cfg @ ''-'' @ tenant_id in
           case find (\<lambda>c. res_name c = campaign_name) cs of
             Some c \<Rightarrow>
               (Inr [(''campaign_arn'', res_arn c), (''name'', res_name c),
                     (''status'', res_status c),
                     (''solution_version_arn'', case res_extra c of Some v \<Rightarrow> v | None \<Rightarrow> [])], s')
           | None \<Rightarrow> (Inl (Exception (''Campaign not found for tenant '' @ tenant_id)), s')))"

subsection \<open>Status aggregation\<close>

record status_info =
  si_tenant_id :: string
  overall_status :: string
  components :: str_dict

text \<open>
  One probe of \<open>get_training_status\<close>: \<open>try: info = lookup(); status = info["status"]\<close>
  with a bare \<open>except:\<close> that stores \<open>"NOT_FOUND"\<close>.
\<close>

definition component_status :: "(py_exception + str_dict) \<Rightarrow> string" where
  "component_status r = (case r of Inr info \<Rightarrow> dict_item info ''status'' | Inl _ \<Rightarrow> ''NOT_FOUND'')"

text \<open>The \<open>if/elif\<close> chain over \<open>component_statuses = list(components.values())\<close>.\<close>

definition determine_overall :: "string list \<Rightarrow> string" where
  "determine_overall component_statuses =
     (if ''CREATING'' \<in> set component_statuses \<or> ''CREATE_IN_PROGRESS'' \<in> set component_statuses
        then ''TRAINING''
      else if list_all (\<lambda>status. status = ''ACTIVE'') component_statuses then ''READY''
      else if ''CREATE_FAILED'' \<in> set component_statuses \<or> ''FAILED'' \<in> set component_statuses
        then ''FAILED''
      else ''INCOMPLETE'')"

text \<open>
  Each probe runs inside its own \<open>try\<close> with a bare \<open>except\<close>, and the reduction raises
  nothing, so the outer \<open>except Exception\<close> (overall status \<open>"ERROR"\<close>) has no path to it.
\<close>

definition get_training_status ::
  "settings \<Rightarrow> string \<Rightarrow> personalize \<Rightarrow> status_info \<times> personalize" where
  "get_training_status cfg tenant_id s0 =
     (case get_dataset_group cfg tenant_id s0 of (dg_info, s1) \<Rightarrow>
      case get_solution cfg tenant_id s1 of (solution_info, s2) \<Rightarrow>
      case get_campaign cfg tenant_id s2 of (campaign_info, s3) \<Rightarrow>
        (let comps = [(''dataset_group'', component_status dg_info),
                      (''solution'', component_status solution_info),
                      (''campaign'', component_status campaign_info)]
         in (\<lparr>si_tenant_id = tenant_id,
              overall_status = determine_overall (map snd comps),
              components = comps\<rparr>, s3)))"

text \<open>
  The reduction in the words of the specification, for three component statuses:
  any creating, else all active, else any failed, else incomplete.
\<close>

definition precedence_status :: "string \<Rightarrow> string \<Rightarrow> string \<Rightarrow> string" where
  "precedence_status dg sol cmp =
     (if dg \<in> {''CREATING'', ''CREATE_IN_PROGRESS''} \<or> sol \<in> {''CREATING'', ''CREATE_IN_PROGRESS''}
          \<or> cmp \<in> {''CREATING'', ''CREATE_IN_PROGRESS''} then ''TRAINING''
      else if dg = ''ACTIVE'' \<and> sol = ''ACTIVE'' \<and> cmp = ''ACTIVE'' then ''READY''
      else if dg \<in> {''FAILED'', ''CREATE_FAILED''} \<or> sol \<in> {''FAILED'', ''CREATE_FAILED''}
          \<or> cmp \<in> {''FAILED'', ''CREATE_FAILED''} then ''FAILED''
      else ''INCOMPLETE'')"

subsection \<open>Create-or-get operations\<close>

text \<open>
  \<open>str.lower()\<close> and \<open>str.upper()\<close> on the ASCII letters (strings here are byte strings).
\<close>

definition lower_char :: "char \<Rightarrow> char" where
  "lower_char c = (if 65 \<le> (of_char c :: nat) \<and> (of_char c :: nat) \<le> 90
                   then char_of ((of_char c :: nat) + 32) else c)"

definition upper_char :: "char \<Rightarrow> char" where
  "upper_char c = (if 97 \<le> (of_char c :: nat) \<and> (of_char c :: nat) \<le> 122
                   then char_of ((of_char c :: nat) - 32) else c)"

definition lower :: "string \<Rightarrow> string" where
  "lower s = map lower_char s"

definition upper :: "string \<Rightarrow> string" where
  "upper s = map upper_char s"

text \<open>
  In each create operation the \<open>try\<close> body is the service call, and the handler
  \<open>except ClientError\<close> branches on the error code.  The arguments of the calls that the
  service model does not read (tags, role ARN, schema ARN, dataset type, solution
  configuration, provisioned TPS) are left out.  A lookup that raises inside the \<open>try\<close> of
  \<open>create_dataset\<close> or \<open>create_solution\<close> raises a plain \<open>Exception\<close>, which the handler
  does not catch.
\<close>

definition create_dataset_group ::
  "settings \<Rightarrow> string \<Rightarrow> personalize \<Rightarrow> (py_exception + str_dict) \<times> personalize" where
  "create_dataset_group cfg tenant_id s =
     (let dataset_group_name = personalize_dataset_group_name cfg @ ''-'' @ tenant_id in
      case client_create_dataset_group dataset_group_name s of
        (Inr dataset_group_arn, s') \<Rightarrow>
          (Inr [(''dataset_group_arn'', dataset_group_arn), (''name'', dataset_group_name),
                (''status'', ''CREATING'')], s')
      | (Inl e, s') \<Rightarrow>
          if err_code e = ''ResourceAlreadyExistsException'' then get_dataset_group cfg tenant_id s'
          else (Inl (Exception (''Dataset group creation failed: '' @ err_text e)), s'))"

definition get_dataset ::
  "settings \<Rightarrow> string \<Rightarrow> string \<Rightarrow> personalize \<Rightarrow> (py_exception + str_dict) \<times> personalize" where
  "get_dataset cfg dataset_type tenant_id s =
     (case get_dataset_group cfg tenant_id s of
        (Inl ex, s1) \<Rightarrow> (Inl ex, s1)
      | (Inr dataset_group_info, s1) \<Rightarrow>
          (let dataset_group_arn = dict_item dataset_group_info ''dataset_group_arn'' in
           case client_list_datasets dataset_group_arn 100 s1 of
             (Inl e, s2) \<Rightarrow> (Inl (Exception (''Dataset retrieval failed: '' @ err_text e)), s2)
           | (Inr dss, s2) \<Rightarrow>
               (let dataset_name = lower dataset_type @ ''-'' @ tenant_id in
                case find (\<lambda>dataset. res_name dataset = dataset_name) dss of
                  Some dataset \<Rightarrow>
                    (Inr [(''dataset_arn'', res_arn dataset), (''name'', res_name dataset),
                          (''type'', dataset_type), (''status'', res_status dataset)], s2)
                | None \<Rightarrow>
                    (Inl (Exception (dataset_type @ '' dataset not found for tenant '' @ tenant_id)), s2))))"

definition create_dataset ::
  "settings \<Rightarrow> string \<Rightarrow> string \<Rightarrow> string \<Rightarrow> personalize
     \<Rightarrow> (py_exception + str_dict) \<times> personalize" where
  "create_dataset cfg dataset_type schema_arn tenant_id s =
     (case get_dataset_group cfg tenant_id s of
        (Inl ex, s1) \<Rightarrow> (Inl ex, s1)
      | (Inr dataset_group_info, s1) \<Rightarrow>
          (let dataset_group_arn = dict_item dataset_group_info ''dataset_group_arn'';
               dataset_name = lower dataset_type @ ''-'' @ tenant_id in
           case client_create_dataset dataset_name dataset_group_arn s1 of
             (Inr dataset_arn, s2) \<Rightarrow>
               (Inr [(''dataset_arn'', dataset_arn), (''name'', dataset_name),
                     (''type'', dataset_type), (''status'', ''CREATING'')], s2)
           | (Inl e, s2) \<Rightarrow>
               if err_code e = ''ResourceAlreadyExistsException''
               then get_dataset cfg dataset_type tenant_id s2
               else (Inl (Exception (''Dataset creation failed: '' @ err_text e)), s2)))"

definition create_solution ::
  "settings \<Rightarrow> string \<Rightarrow> string \<Rightarrow> personalize \<Rightarrow> (py_exception + str_dict) \<times> personalize" where
  "create_solution cfg recipe_arn tenant_id s =
     (case get_dataset_group cfg tenant_id s of
        (Inl ex, s1) \<Rightarrow> (Inl ex, s1)
      | (Inr dataset_group_info, s1) \<Rightarrow>
          (let dataset_group_arn = dict_item dataset_group_info ''dataset_group_arn'';
               solution_name = personalize_solution_name cfg @ ''-'' @ tenant_id in
           case client_create_solution solution_name dataset_group_arn recipe_arn s1 of
             (Inr solution_arn, s2) \<Rightarrow>
               (Inr [(''solution_arn'', solution_arn), (''name'', solution_name),
                     (''status'', ''CREATING''), (''recipe_arn'', recipe_arn)], s2)
           | (Inl e, s2) \<Rightarrow>
               if err_code e = ''ResourceAlreadyExistsException'' then get_solution cfg tenant_id s2
               else (Inl (Exception (''Solution creation failed: '' @ err_text e)), s2)))"

definition create_campaign ::
  "settings \<Rightarrow> string \<Rightarrow> string \<Rightarrow> personalize \<Rightarrow> (py_exception + str_dict) \<times> personalize" where
  "create_campaign cfg solution_version_arn tenant_id s =
     (let campaign_name = personalize_campaign_name cfg @ ''-'' @ tenant_id in
      case client_create_campaign campaign_name solution_version_arn s of
        (Inr campaign_arn, s') \<Rightarrow>
          (Inr [(''campaign_arn'', campaign_arn), (''name'', campaign_name),
                (''status'', ''CREATING''), (''solution_version_arn'', solution_version_arn)], s')
      | (Inl e, s') \<Rightarrow>
          if err_code e = ''ResourceAlreadyExistsException'' then get_campaign cfg tenant_id s'
          else (Inl (Exception (''Campaign creation failed: '' @ err_text e)), s'))"

subsection \<open>Example service states\<close>

definition cfg0 :: settings where
  "cfg0 = \<lparr>s3_bucket_name = ''bucket'', personalize_dataset_group_name = ''retail'',
           personalize_solution_name = ''retail-recommendations'',
           personalize_campaign_name = ''retail-campaign''\<rparr>"

definition pz_empty :: personalize where
  "pz_empty = \<lparr>dataset_groups = [], datasets = [], solutions = [], campaigns = [], pz_faults = []\<rparr>"

text \<open>A dataset group that is active, a solution that failed, a campaign being created.\<close>

definition pz_mixed :: personalize where
  "pz_mixed =
     \<lparr>dataset_groups =
        [\<lparr>res_name = ''retail-t1'', res_arn = ''arn:dg'', res_status = ''ACTIVE'',
          res_group = [], res_extra = None\<rparr>],
      datasets = [],
      solutions =
        [\<lparr>res_name = ''retail-recommendations-t1'', res_arn = ''arn:sol'',
          res_status = ''CREATE_FAILED'', res_group = ''arn:dg'', res_extra = None\<rparr>],
      campaigns =
        [\<lparr>res_name = ''retail-campaign-t1'', res_arn = ''arn:c'', res_status = ''CREATING'',
          res_group = [], res_extra = None\<rparr>],
      pz_faults = []\<rparr>"

text \<open>An account that already lists a hundred dataset groups of other names.\<close>

definition pz_crowded :: personalize where
  "pz_crowded =
     pz_empty\<lparr>dataset_groups :=
        map (\<lambda>i. new_resource ''dataset-group'' (replicate (Suc i) CHR ''g'') [] None) [0..<100]\<rparr>"

text \<open>The second list call of the session is throttled.\<close>

definition pz_throttled :: personalize where
  "pz_throttled =
     pz_empty\<lparr>pz_faults := [None, None, Some (ClientError ''ThrottlingException'' ''Rate exceeded'')]\<rparr>"

text \<open>
  Two results of a create operation name the same resource: both are dictionaries, both
  carry the derived name, and they carry the same ARN under \<open>arn_key\<close>.
\<close>

definition same_resource ::
  "(py_exception + str_dict) \<Rightarrow> (py_exception + str_dict) \<Rightarrow> string \<Rightarrow> string \<Rightarrow> bool" where
  "same_resource r1 r2 arn_key nm =
     (case (r1, r2) of
        (Inr i1, Inr i2) \<Rightarrow>
          map_of i1 ''name'' = Some nm \<and> map_of i2 ''name'' = Some nm
          \<and> map_of i1 arn_key \<noteq> None \<and> map_of i1 arn_key = map_of i2 arn_key
      | _ \<Rightarrow> False)"

section \<open>Key-value adapter (dynamodb_helper.py)\<close>

subsection \<open>Python values and the numeric normalisation\<close>

text \<open>
  The values that cross the store boundary.  \<open>'f\<close> is Python's \<open>float\<close> and \<open>'d\<close> is
  \<open>decimal.Decimal\<close>; the two conversions between them are builtins of the runtime, not code
  of the repository, and are parameters of the model: \<open>dec x\<close> is \<open>Decimal(str(x))\<close> and
  \<open>flt d\<close> is \<open>float(d)\<close>.  Dictionaries are keyed by strings, in insertion order.
\<close>

datatype (floats: 'f, decimals: 'd) pyval =
    PNone
  | PBool bool
  | PInt int
  | PStr string
  | PFloat 'f
  | PDecimal 'd
  | PDict "(string \<times> ('f, 'd) pyval) list"
  | PList "('f, 'd) pyval list"

text \<open>
  \<open>_convert_floats_to_decimal\<close>: the \<open>isinstance\<close> chain float, dict, list, else the
  object itself.  The dict comprehension keeps every key and converts every value.
\<close>

primrec convert_floats_to_decimal :: "('f \<Rightarrow> 'd) \<Rightarrow> ('f, 'd) pyval \<Rightarrow> ('f, 'd) pyval" where
  "convert_floats_to_decimal dec PNone = PNone"
| "convert_floats_to_decimal dec (PBool b) = PBool b"
| "convert_floats_to_decimal dec (PInt i) = PInt i"
| "convert_floats_to_decimal dec (PStr s) = PStr s"
| "convert_floats_to_decimal dec (PFloat x) = PDecimal (dec x)"
| "convert_floats_to_decimal dec (PDecimal d) = PDecimal d"
| "convert_floats_to_decimal dec (PDict kvs) =
     PDict (map (map_prod id (convert_floats_to_decimal dec)) kvs)"
| "convert_floats_to_decimal dec (PList vs) = PList (map (convert_floats_to_decimal dec) vs)"

text \<open>\<open>_convert_decimals_to_float\<close>: the chain Decimal, dict, list, else the object.\<close>

primrec convert_decimals_to_float :: "('d \<Rightarrow> 'f) \<Rightarrow> ('f, 'd) pyval \<Rightarrow> ('f, 'd) pyval" where
  "convert_decimals_to_float flt PNone = PNone"
| "convert_decimals_to_float flt (PBool b) = PBool b"
| "convert_decimals_to_float flt (PInt i) = PInt i"
| "convert_decimals_to_float flt (PStr s) = PStr s"
| "convert_decimals_to_float flt (PFloat x) = PFloat x"
| "convert_decimals_to_float flt (PDecimal d) = PFloat (flt d)"
| "convert_decimals_to_float flt (PDict kvs) =
     PDict (map (map_prod id (convert_decimals_to_float flt)) kvs)"
| "convert_decimals_to_float flt (PList vs) = PList (map (convert_decimals_to_float flt) vs)"

text \<open>
  The runtime's conversions bundled: a helper is constructed over one Python runtime.
\<close>

record ('f, 'd) numeric =
  to_decimal :: "'f \<Rightarrow> 'd"
  to_float :: "'d \<Rightarrow> 'f"

subsection \<open>Time, integers as text, float arithmetic\<close>

text \<open>
  A clock reading: \<open>posix\<close> is \<open>datetime.utcnow().timestamp()\<close> as the number it denotes,
  \<open>iso\<close> is \<open>datetime.utcnow().isoformat()\<close>.  A method that reads the clock several times
  within one call gets one reading.
\<close>

record clock =
  posix :: rat
  iso :: string

text \<open>\<open>int(x)\<close> of a float: truncation towards zero.\<close>

definition py_int :: "rat \<Rightarrow> int" where
  "py_int q = (if 0 \<le> q then \<lfloor>q\<rfloor> else \<lceil>q\<rceil>)"

text \<open>\<open>str(n)\<close> of an integer, as an f-string prints it.\<close>

fun str_nat :: "nat \<Rightarrow> string" where
  "str_nat n = (if n < 10 then [''0123456789'' ! n]
                else str_nat (n div 10) @ [''0123456789'' ! (n mod 10)])"

definition str_int :: "int \<Rightarrow> string" where
  "str_int i = (if i < 0 then ''-'' @ str_nat (nat (- i)) else str_nat (nat i))"

text \<open>
  The floats that the adapter computes itself (the two rates of the campaign metrics) are
  IEEE-754 binary64 values, written as the rationals they denote.  Every operation rounds its
  exact result to the nearest value with a 53-bit significand, ties to even; the exponent is
  left unbounded, since quotients and products of list lengths stay far from the overflow and
  underflow thresholds.  \<open>ilog2 q\<close> is the binary exponent of a positive \<open>q\<close>.
\<close>

definition pow2 :: "int \<Rightarrow> rat" where
  "pow2 e = (if 0 \<le> e then 2 ^ nat e else 1 / 2 ^ nat (- e))"

definition round_half_even :: "rat \<Rightarrow> int" where
  "round_half_even q =
     (let f = \<lfloor>q\<rfloor>; r = q - of_int f
      in if r < 1 / 2 then f else if 1 / 2 < r then f + 1 else if even f then f else f + 1)"

definition ilog2 :: "rat \<Rightarrow> int" where
  "ilog2 q = (case quotient_of q of (a, b) \<Rightarrow>
                (let e0 = bitlen a - bitlen b in if pow2 e0 \<le> q then e0 else e0 - 1))"

definition round53 :: "rat \<Rightarrow> rat" where
  "round53 q = (if q = 0 then 0
                else (let e = ilog2 \<bar>q\<bar> - 52 in of_int (round_half_even (q / pow2 e)) * pow2 e))"

text \<open>
  \<open>a / b\<close> on two \<open>int\<close>s (true division, correctly rounded; a zero divisor raises) and
  \<open>x * y\<close> on floats.
\<close>

definition py_truediv :: "nat \<Rightarrow> nat \<Rightarrow> py_exception + rat" where
  "py_truediv a b = (if b = 0 then Inl (ZeroDivisionError ''division by zero'')
                     else Inr (round53 (of_nat a / of_nat b)))"

definition py_fmul :: "rat \<Rightarrow> rat \<Rightarrow> rat" where
  "py_fmul x y = round53 (x * y)"

subsection \<open>The runtime's floats and Decimals\<close>

text \<open>
  What the normalisation calls at a leaf are builtins of the Python runtime, not code of the
  repository: \<open>str(x)\<close> of a float, \<open>Decimal(text)\<close> and \<open>float(d)\<close>.  They are modelled
  by their values.  A float is a binary64 value: a finite one is written as the rational it
  denotes, with negative zero, the two infinities and NaN apart.  A \<open>Decimal\<close> is written
  as the rational it denotes (decimals of the same value but different exponents are not told
  apart), with the same special values.
\<close>

datatype pyfloat = Binary64 rat | NegZero | PosInf | NegInf | NaN

datatype decimal = Decimal rat | DNegZero | DInfinity | DNegInfinity | DNaN

text \<open>
  The number of decimal digits of a positive integer, and the decimal exponent of a
  positive rational: \<open>ilog10 q\<close> is the \<open>e\<close> with \<open>10^e \<le> q < 10^(e+1)\<close>.
\<close>

function declen :: "int \<Rightarrow> int" where
  "declen a = (if 0 < a then declen (a div 10) + 1 else 0)"
  by pat_completeness auto
termination
  by (relation "measure nat") auto

declare declen.simps [simp del]

definition pow10 :: "int \<Rightarrow> rat" where
  "pow10 e = (if 0 \<le> e then 10 ^ nat e else 1 / 10 ^ nat (- e))"

definition ilog10 :: "rat \<Rightarrow> int" where
  "ilog10 q = (case quotient_of q of (a, b) \<Rightarrow>
                 (let e0 = declen a - declen b in if pow10 e0 \<le> q then e0 else e0 - 1))"

text \<open>
  Reading a number as a float (what \<open>float\<close> does with the text of a \<open>Decimal\<close>): the
  nearest binary64 value, ties to even.  The significand has 53 bits, and fewer below
  \<open>2^-1022\<close>, where the spacing stays \<open>2^-1074\<close>; a result of \<open>2^1024\<close> or more is an
  infinity, and a result that rounds to zero keeps its sign.
\<close>

definition round_b64 :: "rat \<Rightarrow> pyfloat" where
  "round_b64 q =
     (if q = 0 then Binary64 0
      else (let e = max (ilog2 \<bar>q\<bar> - 52) (- 1074);
                r = of_int (round_half_even (q / pow2 e)) * pow2 e
            in if r = 0 then (if 0 < q then Binary64 0 else NegZero)
               else if 1023 < ilog2 \<bar>r\<bar> then (if 0 < q then PosInf else NegInf)
               else Binary64 r))"

text \<open>
  The values a float can hold: of the rationals, those that binary64 represents (an integer
  multiple of the spacing at their magnitude, below \<open>2^1024\<close>).
\<close>

definition is_binary64 :: "pyfloat \<Rightarrow> bool" where
  "is_binary64 x =
     (case x of
        Binary64 q \<Rightarrow>
          q = 0 \<or> (let k = ilog2 \<bar>q\<bar>; m = q / pow2 (max (k - 52) (- 1074))
                    in k \<le> 1023 \<and> of_int \<lfloor>m\<rfloor> = m)
      | _ \<Rightarrow> True)"

text \<open>
  \<open>str(x)\<close> of a finite float is the shortest decimal text that reads back as \<open>x\<close>, and
  of several of that length the one nearest to \<open>x\<close>; it never needs more than 17 significant
  digits.  \<open>candidates p q\<close> are the two neighbours of \<open>q\<close> among the decimals of \<open>p\<close>
  significant digits, the nearer one first; the search tries 1 to 16 digits and settles
  for the nearest decimal of 17 digits.
\<close>

definition candidates :: "nat \<Rightarrow> rat \<Rightarrow> rat list" where
  "candidates p q =
     (let s = pow10 (ilog10 \<bar>q\<bar> - int p + 1);
          lo = of_int \<lfloor>q / s\<rfloor> * s;
          hi = of_int \<lceil>q / s\<rceil> * s;
          near = of_int (round_half_even (q / s)) * s
      in [near, if near = lo then hi else lo])"

fun shortest_from :: "nat \<Rightarrow> nat \<Rightarrow> rat \<Rightarrow> rat" where
  "shortest_from 0 p q = hd (candidates p q)"
| "shortest_from (Suc n) p q =
     (case find (\<lambda>d. round_b64 d = Binary64 q) (candidates p q) of
        Some d \<Rightarrow> d
      | None \<Rightarrow> shortest_from n (Suc p) q)"

definition shortest_decimal :: "rat \<Rightarrow> rat" where
  "shortest_decimal q = shortest_from 16 1 q"

text \<open>
  \<open>Decimal(str(x))\<close>: the texts \<open>'0.0'\<close>, \<open>'-0.0'\<close>, \<open>'inf'\<close>, \<open>'-inf'\<close> and \<open>'nan'\<close> of the
  special values are read as the corresponding decimals.
\<close>

definition decimal_of_float :: "pyfloat \<Rightarrow> decimal" where
  "decimal_of_float x =
     (case x of
        Binary64 q \<Rightarrow> if q = 0 then Decimal 0 else Decimal (shortest_decimal q)
      | NegZero \<Rightarrow> DNegZero
      | PosInf \<Rightarrow> DInfinity
      | NegInf \<Rightarrow> DNegInfinity
      | NaN \<Rightarrow> DNaN)"

text \<open>\<open>float(d)\<close>.\<close>

definition float_of_decimal :: "decimal \<Rightarrow> pyfloat" where
  "float_of_decimal d =
     (case d of
        Decimal r \<Rightarrow> round_b64 r
      | DNegZero \<Rightarrow> NegZero
      | DInfinity \<Rightarrow> PosInf
      | DNegInfinity \<Rightarrow> NegInf
      | DNaN \<Rightarrow> NaN)"

text \<open>
  Python's \<open>==\<close> on two floats and on two decimals: NaN equals nothing, itself included, and
  the two zeros are equal.  \<open>py_eq\<close> is \<open>==\<close> on two values of the same shape: leaf by leaf,
  the keys of dictionaries in the same order.
\<close>

definition float_eq :: "pyfloat \<Rightarrow> pyfloat \<Rightarrow> bool" where
  "float_eq x y =
     (x \<noteq> NaN \<and> y \<noteq> NaN
      \<and> (x = y \<or> (x \<in> {Binary64 0, NegZero} \<and> y \<in> {Binary64 0, NegZero})))"

definition decimal_eq :: "decimal \<Rightarrow> decimal \<Rightarrow> bool" where
  "decimal_eq x y =
     (x \<noteq> DNaN \<and> y \<noteq> DNaN
      \<and> (x = y \<or> (x \<in> {Decimal 0, DNegZero} \<and> y \<in> {Decimal 0, DNegZero})))"

definition py_eq :: "(pyfloat, decimal) pyval \<Rightarrow> (pyfloat, decimal) pyval \<Rightarrow> bool" where
  "py_eq = rel_pyval float_eq decimal_eq"

text \<open>
  A recommendation list with the floats \<open>0.1\<close> (whose binary64 value is not one tenth),
  \<open>0.75\<close>, \<open>-2.5\<close> and infinity.
\<close>

definition recs1 :: "(pyfloat, decimal) pyval" where
  "recs1 =
     PList [PDict [(''item_id'', PStr ''A''),
                   (''score'', PFloat (Binary64 (3602879701896397 / 36028797018963968)))],
            PDict [(''item_id'', PStr ''B''), (''score'', PFloat (Binary64 (3 / 4))),
                   (''rank'', PInt 2),
                   (''tags'', PList [PStr ''new'', PFloat (Binary64 (- 5 / 2)), PFloat PosInf])]]"

subsection \<open>The store, as the adapter's calls see it\<close>

text \<open>
  The three tables hold the rows that the adapter writes, keyed by
  \<open>(tenant_id, user_id)\<close> (recommendations, profiles) and \<open>(tenant_id, event_id)\<close> (events).
  The store is not code of the repository: a call first consumes one entry of \<open>kv_faults\<close>
  (\<open>Some e\<close>: the call raises \<open>ClientError e\<close>), \<open>put_item\<close> replaces the row of its key,
  \<open>delete_item\<close> of an absent key does nothing, a query returns the matching rows.
  \<open>rec_ttl\<close> is optional because the reader asks for it with \<open>item.get('ttl', 0)\<close>; the
  profile fields are optional because the reader asks for them with \<open>item.get\<close>.
\<close>

record ('f, 'd) rec_item =
  rec_recommendations :: "('f, 'd) pyval list"
  rec_cached_at :: string
  rec_ttl :: "int option"

record ('f, 'd) profile_item =
  prof_data :: "('f, 'd) pyval option"
  prof_created_at :: "string option"
  prof_updated_at :: "string option"

record ('f, 'd) event_item =
  ev_campaign_id :: string
  ev_user_id :: string
  ev_event_type :: string
  ev_event_data :: "('f, 'd) pyval"
  ev_timestamp :: string
  ev_ttl :: int

type_synonym row_key = "string \<times> string"

record ('f, 'd) kv_store =
  recommendations_table :: "(row_key \<times> ('f, 'd) rec_item) list"
  user_profiles_table :: "(row_key \<times> ('f, 'd) profile_item) list"
  campaign_tracking_table :: "(row_key \<times> ('f, 'd) event_item) list"
  kv_faults :: "client_error option list"

definition kv_call :: "('f, 'd) kv_store \<Rightarrow> client_error option \<times> ('f, 'd) kv_store" where
  "kv_call s = (case kv_faults s of [] \<Rightarrow> (None, s) | f # fs \<Rightarrow> (f, s\<lparr>kv_faults := fs\<rparr>))"

definition rec_put_item ::
  "row_key \<Rightarrow> ('f, 'd) rec_item \<Rightarrow> ('f, 'd) kv_store \<Rightarrow> (client_error + unit) \<times> ('f, 'd) kv_store" where
  "rec_put_item k item s =
     (case kv_call s of
        (Some e, s') \<Rightarrow> (Inl e, s')
      | (None, s') \<Rightarrow>
          (Inr (), s'\<lparr>recommendations_table := AList.update k item (recommendations_table s')\<rparr>))"

definition rec_get_item ::
  "row_key \<Rightarrow> ('f, 'd) kv_store \<Rightarrow> (client_error + ('f, 'd) rec_item option) \<times> ('f, 'd) kv_store" where
  "rec_get_item k s =
     (case kv_call s of
        (Some e, s') \<Rightarrow> (Inl e, s')
      | (None, s') \<Rightarrow> (Inr (map_of (recommendations_table s') k), s'))"

definition rec_delete_item ::
  "row_key \<Rightarrow> ('f, 'd) kv_store \<Rightarrow> (client_error + unit) \<times> ('f, 'd) kv_store" where
  "rec_delete_item k s =
     (case kv_call s of
        (Some e, s') \<Rightarrow> (Inl e, s')
      | (None, s') \<Rightarrow>
          (Inr (), s'\<lparr>recommendations_table := AList.delete k (recommendations_table s')\<rparr>))"

text \<open>
  The query of \<open>cleanup_expired_items\<close>: the tenant's rows whose \<open>ttl\<close> attribute is below
  the given time (a row without the attribute does not match \<open>Attr('ttl').lt\<close>).
\<close>

definition rec_query_expired ::
  "string \<Rightarrow> int \<Rightarrow> ('f, 'd) kv_store
     \<Rightarrow> (client_error + (row_key \<times> ('f, 'd) rec_item) list) \<times> ('f, 'd) kv_store" where
  "rec_query_expired tenant_id t s =
     (case kv_call s of
        (Some e, s') \<Rightarrow> (Inl e, s')
      | (None, s') \<Rightarrow>
          (Inr (filter (\<lambda>(k, item). fst k = tenant_id
                          \<and> (case rec_ttl item of Some x \<Rightarrow> x < t | None \<Rightarrow> False))
                  (recommendations_table s')), s'))"

definition prof_put_item ::
  "row_key \<Rightarrow> ('f, 'd) profile_item \<Rightarrow> ('f, 'd) kv_store
     \<Rightarrow> (client_error + unit) \<times> ('f, 'd) kv_store" where
  "prof_put_item k item s =
     (case kv_call s of
        (Some e, s') \<Rightarrow> (Inl e, s')
      | (None, s') \<Rightarrow>
          (Inr (), s'\<lparr>user_profiles_table := AList.update k item (user_profiles_table s')\<rparr>))"

definition prof_get_item ::
  "row_key \<Rightarrow> ('f, 'd) kv_store
     \<Rightarrow> (client_error + ('f, 'd) profile_item option) \<times> ('f, 'd) kv_store" where
  "prof_get_item k s =
     (case kv_call s of
        (Some e, s') \<Rightarrow> (Inl e, s')
      | (None, s') \<Rightarrow> (Inr (map_of (user_profiles_table s') k), s'))"

text \<open>
  \<open>update_item\<close> with \<open>SET updated_at = :updated_at, profile_data.k = :k, ...\<close>: the store
  rejects a path into \<open>profile_data\<close> when the row has no such map.
\<close>

definition set_all :: "(string \<times> 'v) list \<Rightarrow> (string \<times> 'v) list \<Rightarrow> (string \<times> 'v) list" where
  "set_all updates d = fold (\<lambda>(k, v) acc. AList.update k v acc) updates d"

definition prof_update_item ::
  "row_key \<Rightarrow> string \<Rightarrow> (string \<times> ('f, 'd) pyval) list \<Rightarrow> ('f, 'd) kv_store
     \<Rightarrow> (client_error + unit) \<times> ('f, 'd) kv_store" where
  "prof_update_item k updated_at updates s =
     (case kv_call s of
        (Some e, s') \<Rightarrow> (Inl e, s')
      | (None, s') \<Rightarrow>
          (let invalid = ClientError ''ValidationException''
                 ''The document path provided in the update expression is invalid for update''
           in case map_of (user_profiles_table s') k of
                None \<Rightarrow>
                  if updates = []
                  then (Inr (), s'\<lparr>user_profiles_table :=
                          AList.update k \<lparr>prof_data = None, prof_created_at = None,
                                          prof_updated_at = Some updated_at\<rparr>
                            (user_profiles_table s')\<rparr>)
                  else (Inl invalid, s')
              | Some item \<Rightarrow>
                  (case prof_data item of
                     Some (PDict d) \<Rightarrow>
                       (Inr (), s'\<lparr>user_profiles_table :=
                          AList.update k (item\<lparr>prof_data := Some (PDict (set_all updates d)),
                                               prof_updated_at := Some updated_at\<rparr>)
                            (user_profiles_table s')\<rparr>)
                   | _ \<Rightarrow>
                       if updates = []
                       then (Inr (), s'\<lparr>user_profiles_table :=
                               AList.update k (item\<lparr>prof_updated_at := Some updated_at\<rparr>)
                                 (user_profiles_table s')\<rparr>)
                       else (Inl invalid, s'))))"

definition prof_query ::
  "string \<Rightarrow> nat \<Rightarrow> ('f, 'd) kv_store
     \<Rightarrow> (client_error + (row_key \<times> ('f, 'd) profile_item) list) \<times> ('f, 'd) kv_store" where
  "prof_query tenant_id limit s =
     (case kv_call s of
        (Some e, s') \<Rightarrow> (Inl e, s')
      | (None, s') \<Rightarrow>
          (Inr (take limit (filter (\<lambda>(k, item). fst k = tenant_id) (user_profiles_table s'))), s'))"

definition ev_put_item ::
  "row_key \<Rightarrow> ('f, 'd) event_item \<Rightarrow> ('f, 'd) kv_store
     \<Rightarrow> (client_error + unit) \<times> ('f, 'd) kv_store" where
  "ev_put_item k item s =
     (case kv_call s of
        (Some e, s') \<Rightarrow> (Inl e, s')
      | (None, s') \<Rightarrow>
          (Inr (), s'\<lparr>campaign_tracking_table := AList.update k item (campaign_tracking_table s')\<rparr>))"

text \<open>Strings compare as the store compares them: by code point, a prefix first.\<close>

fun str_le :: "string \<Rightarrow> string \<Rightarrow> bool" where
  "str_le [] ys = True"
| "str_le (x # xs) [] = False"
| "str_le (x # xs) (y # ys) =
     ((of_char x :: nat) < of_char y \<or> (x = y \<and> str_le xs ys))"

text \<open>
  The query on \<open>campaign-index\<close>: key condition on tenant and campaign, and the optional
  filter \<open>timestamp >= lo\<close>, \<open>timestamp <= hi\<close>.
\<close>

definition ev_query_campaign ::
  "string \<Rightarrow> string \<Rightarrow> string option \<Rightarrow> string option \<Rightarrow> ('f, 'd) kv_store
     \<Rightarrow> (client_error + ('f, 'd) event_item list) \<times> ('f, 'd) kv_store" where
  "ev_query_campaign tenant_id campaign_id lo hi s =
     (case kv_call s of
        (Some e, s') \<Rightarrow> (Inl e, s')
      | (None, s') \<Rightarrow>
          (Inr (map snd (filter (\<lambda>(k, item). fst k = tenant_id \<and> ev_campaign_id item = campaign_id
                    \<and> (case lo of None \<Rightarrow> True | Some l \<Rightarrow> str_le l (ev_timestamp item))
                    \<and> (case hi of None \<Rightarrow> True | Some h \<Rightarrow> str_le (ev_timestamp item) h))
                  (campaign_tracking_table s'))), s'))"

text \<open>The query on \<open>user-index\<close>, newest first, at most \<open>limit\<close> rows.\<close>

definition ev_query_user ::
  "string \<Rightarrow> string \<Rightarrow> nat \<Rightarrow> ('f, 'd) kv_store
     \<Rightarrow> (client_error + (row_key \<times> ('f, 'd) event_item) list) \<times> ('f, 'd) kv_store" where
  "ev_query_user tenant_id user_id limit s =
     (case kv_call s of
        (Some e, s') \<Rightarrow> (Inl e, s')
      | (None, s') \<Rightarrow>
          (Inr (take limit (rev (filter (\<lambda>(k, item). fst k = tenant_id \<and> ev_user_id item = user_id)
                  (campaign_tracking_table s')))), s'))"

definition ev_count_expired ::
  "string \<Rightarrow> int \<Rightarrow> ('f, 'd) kv_store \<Rightarrow> (client_error + nat) \<times> ('f, 'd) kv_store" where
  "ev_count_expired tenant_id t s =
     (case kv_call s of
        (Some e, s') \<Rightarrow> (Inl e, s')
      | (None, s') \<Rightarrow>
          (Inr (length (filter (\<lambda>(k, item). fst k = tenant_id \<and> ev_ttl item < t)
                  (campaign_tracking_table s'))), s'))"

text \<open>The three tables of two states of the store hold the same rows.\<close>

definition same_tables :: "('f, 'd) kv_store \<Rightarrow> ('f, 'd) kv_store \<Rightarrow> bool" where
  "same_tables s s' =
     (recommendations_table s' = recommendations_table s
      \<and> user_profiles_table s' = user_profiles_table s
      \<and> campaign_tracking_table s' = campaign_tracking_table s)"

subsection \<open>Recommendation cache\<close>

text \<open>
  \<open>cache_recommendations\<close>.  The argument is a list, so the normalisation takes its list
  branch.  A store error is logged and re-raised as a generic exception.
\<close>

definition cache_recommendations ::
  "('f, 'd) numeric \<Rightarrow> clock \<Rightarrow> string \<Rightarrow> string \<Rightarrow> ('f, 'd) pyval list \<Rightarrow> int
     \<Rightarrow> ('f, 'd) kv_store \<Rightarrow> (py_exception + bool) \<times> ('f, 'd) kv_store" where
  "cache_recommendations num clk tenant_id user_id recommendations ttl_hours s =
     (let ttl_timestamp = py_int (posix clk + 3600 * of_int ttl_hours);
          recommendations_decimal = map (convert_floats_to_decimal (to_decimal num)) recommendations;
          item = \<lparr>rec_recommendations = recommendations_decimal, rec_cached_at = iso clk,
                  rec_ttl = Some ttl_timestamp\<rparr>
      in case rec_put_item (tenant_id, user_id) item s of
           (Inr _, s') \<Rightarrow> (Inr True, s')
         | (Inl e, s') \<Rightarrow>
             (Inl (Exception (''Recommendations caching failed: '' @ err_text e)), s'))"

text \<open>
  \<open>get_cached_recommendations\<close>.  Both store calls sit in one \<open>try\<close> whose handler
  returns \<open>None\<close>.
\<close>

definition get_cached_recommendations ::
  "('f, 'd) numeric \<Rightarrow> clock \<Rightarrow> string \<Rightarrow> string \<Rightarrow> ('f, 'd) kv_store
     \<Rightarrow> (py_exception + ('f, 'd) pyval list option) \<times> ('f, 'd) kv_store" where
  "get_cached_recommendations num clk tenant_id user_id s =
     (case rec_get_item (tenant_id, user_id) s of
        (Inl e, s1) \<Rightarrow> (Inr None, s1)
      | (Inr None, s1) \<Rightarrow> (Inr None, s1)
      | (Inr (Some item), s1) \<Rightarrow>
          (let current_timestamp = py_int (posix clk) in
           if (case rec_ttl item of Some t \<Rightarrow> t | None \<Rightarrow> 0) < current_timestamp
           then (case rec_delete_item (tenant_id, user_id) s1 of
                   (Inr _, s2) \<Rightarrow> (Inr None, s2)
                 | (Inl e, s2) \<Rightarrow> (Inr None, s2))
           else (Inr (Some (map (convert_decimals_to_float (to_float num))
                              (rec_recommendations item))), s1)))"

definition invalidate_recommendations_cache ::
  "string \<Rightarrow> string \<Rightarrow> ('f, 'd) kv_store \<Rightarrow> (py_exception + bool) \<times> ('f, 'd) kv_store" where
  "invalidate_recommendations_cache tenant_id user_id s =
     (case rec_delete_item (tenant_id, user_id) s of
        (Inr _, s') \<Rightarrow> (Inr True, s')
      | (Inl e, s') \<Rightarrow> (Inr False, s'))"

subsection \<open>User profiles\<close>

definition create_user_profile ::
  "('f, 'd) numeric \<Rightarrow> clock \<Rightarrow> string \<Rightarrow> string \<Rightarrow> (string \<times> ('f, 'd) pyval) list
     \<Rightarrow> ('f, 'd) kv_store \<Rightarrow> (py_exception + bool) \<times> ('f, 'd) kv_store" where
  "create_user_profile num clk tenant_id user_id profile_data s =
     (let profile_data_decimal = convert_floats_to_decimal (to_decimal num) (PDict profile_data);
          item = \<lparr>prof_data = Some profile_data_decimal, prof_created_at = Some (iso clk),
                  prof_updated_at = Some (iso clk)\<rparr>
      in case prof_put_item (tenant_id, user_id) item s of
           (Inr _, s') \<Rightarrow> (Inr True, s')
         | (Inl e, s') \<Rightarrow>
             (Inl (Exception (''User profile creation failed: '' @ err_text e)), s'))"

record ('f, 'd) profile_view =
  pv_user_id :: string
  pv_profile_data :: "('f, 'd) pyval"
  pv_created_at :: "string option"
  pv_updated_at :: "string option"

definition get_user_profile ::
  "('f, 'd) numeric \<Rightarrow> string \<Rightarrow> string \<Rightarrow> ('f, 'd) kv_store
     \<Rightarrow> (py_exception + ('f, 'd) profile_view option) \<times> ('f, 'd) kv_store" where
  "get_user_profile num tenant_id user_id s =
     (case prof_get_item (tenant_id, user_id) s of
        (Inl e, s') \<Rightarrow> (Inr None, s')
      | (Inr None, s') \<Rightarrow> (Inr None, s')
      | (Inr (Some item), s') \<Rightarrow>
          (let profile_data = convert_decimals_to_float (to_float num)
                 (case prof_data item of Some d \<Rightarrow> d | None \<Rightarrow> PDict [])
           in (Inr (Some \<lparr>pv_user_id = user_id, pv_profile_data = profile_data,
                           pv_created_at = prof_created_at item,
                           pv_updated_at = prof_updated_at item\<rparr>), s')))"

text \<open>
  \<open>update_user_profile\<close>: the update expression and its value table are built from the
  normalised \<open>updates\<close>; the store model receives the assignments themselves.
\<close>

definition update_user_profile ::
  "('f, 'd) numeric \<Rightarrow> clock \<Rightarrow> string \<Rightarrow> string \<Rightarrow> (string \<times> ('f, 'd) pyval) list
     \<Rightarrow> ('f, 'd) kv_store \<Rightarrow> (py_exception + bool) \<times> ('f, 'd) kv_store" where
  "update_user_profile num clk tenant_id user_id updates s =
     (let updates_decimal = map (map_prod id (convert_floats_to_decimal (to_decimal num))) updates
      in case prof_update_item (tenant_id, user_id) (iso clk) updates_decimal s of
           (Inr _, s') \<Rightarrow> (Inr True, s')
         | (Inl e, s') \<Rightarrow> (Inr False, s'))"

record profile_summary =
  ps_user_id :: string
  ps_created_at :: "string option"
  ps_updated_at :: "string option"

text \<open>
  The \<open>Limit\<close> of a query must be at least 1: the client checks it before it sends the
  call, and raises \<open>ParamValidationError\<close>, which \<open>except ClientError\<close> does not catch.
\<close>

definition validate_limit :: "int \<Rightarrow> py_exception option" where
  "validate_limit limit =
     (if limit < 1
      then Some (ParamValidationError (''Parameter validation failed:'' @ [CHR 0x0A]
                   @ ''Invalid value for parameter Limit, value: '' @ str_int limit
                   @ '', valid min value: 1''))
      else None)"

definition list_user_profiles ::
  "string \<Rightarrow> int \<Rightarrow> ('f, 'd) kv_store \<Rightarrow> (py_exception + profile_summary list) \<times> ('f, 'd) kv_store" where
  "list_user_profiles tenant_id limit s =
     (case validate_limit limit of
        Some ex \<Rightarrow> (Inl ex, s)
      | None \<Rightarrow>
          (case prof_query tenant_id (nat limit) s of
             (Inl e, s') \<Rightarrow> (Inr [], s')
           | (Inr items, s') \<Rightarrow>
               (Inr (map (\<lambda>(k, item). \<lparr>ps_user_id = snd k, ps_created_at = prof_created_at item,
                                         ps_updated_at = prof_updated_at item\<rparr>) items), s')))"

subsection \<open>Campaign tracking\<close>

definition track_campaign_event ::
  "('f, 'd) numeric \<Rightarrow> clock \<Rightarrow> string \<Rightarrow> string \<Rightarrow> string \<Rightarrow> string
     \<Rightarrow> (string \<times> ('f, 'd) pyval) list
     \<Rightarrow> ('f, 'd) kv_store \<Rightarrow> (py_exception + bool) \<times> ('f, 'd) kv_store" where
  "track_campaign_event num clk tenant_id campaign_id user_id event_type event_data s =
     (let event_data_decimal = convert_floats_to_decimal (to_decimal num) (PDict event_data);
          event_id = campaign_id @ ''#'' @ user_id @ ''#'' @ str_int (py_int (posix clk));
          item = \<lparr>ev_campaign_id = campaign_id, ev_user_id = user_id, ev_event_type = event_type,
                  ev_event_data = event_data_decimal, ev_timestamp = iso clk,
                  ev_ttl = py_int (posix clk + 90 * 86400)\<rparr>
      in case ev_put_item (tenant_id, event_id) item s of
           (Inr _, s') \<Rightarrow> (Inr True, s')
         | (Inl e, s') \<Rightarrow> (Inr False, s'))"

text \<open>
  The metrics dictionary.  The loop of \<open>get_campaign_metrics\<close> keeps the running total, the
  set of users and the counts by type; \<open>count_event\<close> is its body.
\<close>

record metrics_acc =
  acc_total :: nat
  acc_users :: "string set"
  acc_by_type :: "(string \<times> nat) list"

definition count_of :: "(string \<times> nat) list \<Rightarrow> string \<Rightarrow> nat" where
  "count_of d k = (case map_of d k of Some n \<Rightarrow> n | None \<Rightarrow> 0)"

definition count_event :: "('f, 'd) event_item \<Rightarrow> metrics_acc \<Rightarrow> metrics_acc" where
  "count_event item m =
     (let event_type = ev_event_type item;
          user_id = ev_user_id item;
          by_type = (if map_of (acc_by_type m) event_type = None
                     then AList.update event_type 0 (acc_by_type m) else acc_by_type m)
      in \<lparr>acc_total = acc_total m + 1,
          acc_users = insert user_id (acc_users m),
          acc_by_type = AList.update event_type (count_of by_type event_type + 1) by_type\<rparr>)"

record metrics =
  m_campaign_id :: string
  total_events :: nat
  unique_users :: nat
  events_by_type :: "(string \<times> nat) list"
  conversion_rate :: rat
  click_through_rate :: rat

datatype metrics_result = Metrics metrics | MetricsError string string

text \<open>\<open>(count / sent_count) * 100\<close>.\<close>

definition percentage :: "nat \<Rightarrow> nat \<Rightarrow> py_exception + rat" where
  "percentage count sent_count =
     (case py_truediv count sent_count of Inl ex \<Rightarrow> Inl ex | Inr q \<Rightarrow> Inr (py_fmul q 100))"

text \<open>
  What the method computes from the rows of the query's answer: the loop, the count of the
  user set, and the two rates, which start as \<open>0.0\<close> and are assigned only under
  \<open>if sent_count > 0\<close> (the click-through rate first).
\<close>

definition campaign_metrics_of ::
  "string \<Rightarrow> ('f, 'd) event_item list \<Rightarrow> py_exception + metrics" where
  "campaign_metrics_of campaign_id items =
     (let m = fold count_event items \<lparr>acc_total = 0, acc_users = {}, acc_by_type = []\<rparr>;
          metrics0 = \<lparr>m_campaign_id = campaign_id,
                      total_events = acc_total m,
                      unique_users = card (acc_users m),
                      events_by_type = acc_by_type m,
                      conversion_rate = 0,
                      click_through_rate = 0\<rparr>;
          sent_count = count_of (acc_by_type m) ''sent'';
          clicked_count = count_of (acc_by_type m) ''clicked'';
          converted_count = count_of (acc_by_type m) ''converted''
      in if 0 < sent_count
         then (case percentage clicked_count sent_count of
                 Inl ex \<Rightarrow> Inl ex
               | Inr ctr \<Rightarrow>
                   (case percentage converted_count sent_count of
                      Inl ex \<Rightarrow> Inl ex
                    | Inr cr \<Rightarrow>
                        Inr (metrics0\<lparr>click_through_rate := ctr, conversion_rate := cr\<rparr>)))
         else Inr metrics0)"

text \<open>
  \<open>get_campaign_metrics\<close>; \<open>start_date\<close> and \<open>end_date\<close> are the \<open>isoformat()\<close> texts
  of the optional bounds.  A store error gives the dictionary with the \<open>error\<close> key; any
  other exception would pass through the handler.
\<close>

definition get_campaign_metrics ::
  "string \<Rightarrow> string \<Rightarrow> string option \<Rightarrow> string option \<Rightarrow> ('f, 'd) kv_store
     \<Rightarrow> (py_exception + metrics_result) \<times> ('f, 'd) kv_store" where
  "get_campaign_metrics tenant_id campaign_id start_date end_date s =
     (case ev_query_campaign tenant_id campaign_id start_date end_date s of
        (Inl e, s') \<Rightarrow> (Inr (MetricsError campaign_id (err_text e)), s')
      | (Inr items, s') \<Rightarrow>
          (case campaign_metrics_of campaign_id items of
             Inl ex \<Rightarrow> (Inl ex, s')
           | Inr m \<Rightarrow> (Inr (Metrics m), s')))"

text \<open>The number of rows of one event type.\<close>

definition n_of_type :: "string \<Rightarrow> ('f, 'd) event_item list \<Rightarrow> nat" where
  "n_of_type ty items = length (filter (\<lambda>item. ev_event_type item = ty) items)"

record ('f, 'd) history_event =
  he_event_id :: string
  he_campaign_id :: string
  he_event_type :: string
  he_event_data :: "('f, 'd) pyval"
  he_timestamp :: string

definition get_user_campaign_history ::
  "('f, 'd) numeric \<Rightarrow> string \<Rightarrow> string \<Rightarrow> int \<Rightarrow> ('f, 'd) kv_store
     \<Rightarrow> (py_exception + ('f, 'd) history_event list) \<times> ('f, 'd) kv_store" where
  "get_user_campaign_history num tenant_id user_id limit s =
     (case validate_limit limit of
        Some ex \<Rightarrow> (Inl ex, s)
      | None \<Rightarrow>
          (case ev_query_user tenant_id user_id (nat limit) s of
             (Inl e, s') \<Rightarrow> (Inr [], s')
           | (Inr items, s') \<Rightarrow>
               (Inr (map (\<lambda>(k, item).
                       \<lparr>he_event_id = snd k, he_campaign_id = ev_campaign_id item,
                        he_event_type = ev_event_type item,
                        he_event_data = convert_decimals_to_float (to_float num) (ev_event_data item),
                        he_timestamp = ev_timestamp item\<rparr>) items), s')))"

subsection \<open>Cleanup\<close>

text \<open>The deletion loop of \<open>cleanup_expired_items\<close>: it stops at the first store error.\<close>

fun delete_expired ::
  "(row_key \<times> ('f, 'd) rec_item) list \<Rightarrow> nat \<Rightarrow> ('f, 'd) kv_store
     \<Rightarrow> (client_error + nat) \<times> ('f, 'd) kv_store" where
  "delete_expired [] n s = (Inr n, s)"
| "delete_expired ((k, item) # items) n s =
     (case rec_delete_item k s of
        (Inl e, s') \<Rightarrow> (Inl e, s')
      | (Inr _, s') \<Rightarrow> delete_expired items (n + 1) s')"

datatype cleanup_result = CleanupCounts nat nat | CleanupError string

definition cleanup_expired_items ::
  "clock \<Rightarrow> string \<Rightarrow> ('f, 'd) kv_store \<Rightarrow> cleanup_result \<times> ('f, 'd) kv_store" where
  "cleanup_expired_items clk tenant_id s =
     (let current_timestamp = py_int (posix clk) in
      case rec_query_expired tenant_id current_timestamp s of
        (Inl e, s1) \<Rightarrow> (CleanupError (err_text e), s1)
      | (Inr items, s1) \<Rightarrow>
          (case delete_expired items 0 s1 of
             (Inl e, s2) \<Rightarrow> (CleanupError (err_text e), s2)
           | (Inr n, s2) \<Rightarrow>
               (case ev_count_expired tenant_id current_timestamp s2 of
                  (Inl e, s3) \<Rightarrow> (CleanupError (err_text e), s3)
                | (Inr c, s3) \<Rightarrow> (CleanupCounts n c, s3))))"

subsection \<open>Example stores\<close>

text \<open>\<open>item.get('ttl', 0)\<close>.\<close>

definition ttl_or_zero :: "('f, 'd) rec_item \<Rightarrow> int" where
  "ttl_or_zero item = (case rec_ttl item of Some t \<Rightarrow> t | None \<Rightarrow> 0)"

text \<open>
  A runtime for the examples: a \<open>Decimal\<close> holds the exact value of the float's shortest
  decimal text (for the floats below, the float's own value), and \<open>float(d)\<close> rounds to the
  nearest binary64 value.
\<close>

definition num0 :: "(rat, rat) numeric" where
  "num0 = \<lparr>to_decimal = (\<lambda>x. x), to_float = round53\<rparr>"

definition recs0 :: "(rat, rat) pyval list" where
  "recs0 = [PDict [(''item_id'', PStr ''A''), (''score'', PFloat (3 / 4))],
            PDict [(''item_id'', PStr ''B''), (''score'', PFloat (1 / 2)), (''rank'', PInt 2),
                   (''tags'', PList [PStr ''new'', PFloat (1 / 2)])]]"

definition clock_at :: "rat \<Rightarrow> clock" where
  "clock_at n = \<lparr>posix = n, iso = ''2023-11-14T22:13:20''\<rparr>"

definition kv_empty :: "(rat, rat) kv_store" where
  "kv_empty = \<lparr>recommendations_table = [], user_profiles_table = [], campaign_tracking_table = [],
               kv_faults = []\<rparr>"

text \<open>The store after caching \<open>recs0\<close> for a day at time 1700000000.\<close>

definition kv_cached :: "(rat, rat) kv_store" where
  "kv_cached = snd (cache_recommendations num0 (clock_at 1700000000) ''t1'' ''u1'' recs0 24 kv_empty)"

text \<open>The same store when its next call fails.\<close>

definition kv_down :: "(rat, rat) kv_store" where
  "kv_down = kv_cached\<lparr>kv_faults := [Some (ClientError ''InternalServerError'' ''Internal server error'')]\<rparr>"

text \<open>
  Two expired rows of tenant \<open>t1\<close>, in a store whose third call from now fails.
\<close>

definition kv_stale :: "(rat, rat) kv_store" where
  "kv_stale = kv_empty\<lparr>recommendations_table :=
        [((''t1'', ''u1''), \<lparr>rec_recommendations = [], rec_cached_at = ''2023-11-14T22:13:20'',
                             rec_ttl = Some 1700000000\<rparr>),
         ((''t1'', ''u2''), \<lparr>rec_recommendations = [], rec_cached_at = ''2023-11-14T22:13:20'',
                             rec_ttl = Some 1700000000\<rparr>)],
      kv_faults := [None, None, Some (ClientError ''ProvisionedThroughputExceededException''
                                        ''Rate exceeded'')]\<rparr>"

subsection \<open>Example event tables\<close>

text \<open>Ten \<open>sent\<close>, three \<open>clicked\<close> and one \<open>converted\<close> event of campaign \<open>c1\<close>.\<close>

definition ev_row :: "nat \<Rightarrow> string \<Rightarrow> nat \<Rightarrow> row_key \<times> (rat, rat) event_item" where
  "ev_row i ty time =
     ((''t1'', ''c1#u'' @ str_nat i @ ''#'' @ str_nat time),
      \<lparr>ev_campaign_id = ''c1'', ev_user_id = ''u'' @ str_nat i, ev_event_type = ty,
       ev_event_data = PDict [], ev_timestamp = ''2023-11-14T22:13:20'', ev_ttl = 1707776000\<rparr>)"

definition kv_events :: "(rat, rat) kv_store" where
  "kv_events = kv_empty\<lparr>campaign_tracking_table :=
      map (\<lambda>i. ev_row i ''sent'' 1700000000) [0..<10]
      @ map (\<lambda>i. ev_row i ''clicked'' 1700000100) [0..<3]
      @ [ev_row 0 ''converted'' 1700000200]\<rparr>"

definition events0 :: "(rat, rat) event_item list" where
  "events0 = map snd (campaign_tracking_table kv_events)"

text \<open>A small table: two users, three events of tenant \<open>t1\<close>, one of another tenant.\<close>

definition event_of :: "string \<Rightarrow> string \<Rightarrow> (rat, rat) event_item" where
  "event_of user ty =
     \<lparr>ev_campaign_id = ''c1'', ev_user_id = user, ev_event_type = ty,
      ev_event_data = PDict [], ev_timestamp = ''2023-11-14T22:13:20'', ev_ttl = 1707776000\<rparr>"

definition kv_small :: "(rat, rat) kv_store" where
  "kv_small = kv_empty\<lparr>campaign_tracking_table :=
      [((''t1'', ''c1#u1#1700000000''), event_of ''u1'' ''sent''),
       ((''t1'', ''c1#u2#1700000000''), event_of ''u2'' ''sent''),
       ((''t1'', ''c1#u1#1700000100''), event_of ''u1'' ''clicked''),
       ((''t2'', ''c1#u9#1700000100''), event_of ''u9'' ''sent'')]\<rparr>"

definition metrics_small :: metrics where
  "metrics_small = \<lparr>m_campaign_id = ''c1'', total_events = 3, unique_users = 2,
     events_by_type = [(''sent'', 2), (''clicked'', 1)],
     conversion_rate = 0, click_through_rate = 50\<rparr>"

section \<open>Object-store adapter (s3_helper.py)\<close>

subsection \<open>The bucket, as the adapter's calls see it\<close>

text \<open>
  The object store is not code of the repository.  A call first consumes one entry of
  \<open>s3_faults\<close>; \<open>put_object\<close> stores the object under its key (replacing an object of that
  key) and answers with the entity tag and version id that the service assigns
  (\<open>reply_etag\<close>, \<open>reply_version\<close>); \<open>list_objects_v2\<close> returns, of the objects whose key
  starts with the prefix, the first \<open>MaxKeys\<close>.
\<close>

record s3_object =
  obj_body :: string
  obj_content_type :: string
  obj_metadata :: str_dict
  obj_etag :: string
  obj_last_modified :: string
  obj_storage_class :: "string option"

record s3 =
  objects :: "(string \<times> s3_object) list"
  s3_faults :: "client_error option list"
  reply_etag :: "string option"
  reply_version :: "string option"

record put_response =
  resp_etag :: "string option"
  resp_version_id :: "string option"

definition s3_call :: "s3 \<Rightarrow> client_error option \<times> s3" where
  "s3_call s = (case s3_faults s of [] \<Rightarrow> (None, s) | f # fs \<Rightarrow> (f, s\<lparr>s3_faults := fs\<rparr>))"

definition starts_with :: "string \<Rightarrow> string \<Rightarrow> bool" where
  "starts_with p k = (take (length p) k = p)"

definition client_put_object ::
  "string \<Rightarrow> string \<Rightarrow> string \<Rightarrow> str_dict \<Rightarrow> string \<Rightarrow> s3 \<Rightarrow> (client_error + put_response) \<times> s3" where
  "client_put_object key body content_type metadata now s =
     (case s3_call s of
        (Some e, s') \<Rightarrow> (Inl e, s')
      | (None, s') \<Rightarrow>
          (Inr \<lparr>resp_etag = reply_etag s', resp_version_id = reply_version s'\<rparr>,
           s'\<lparr>objects := AList.update key
                 \<lparr>obj_body = body, obj_content_type = content_type, obj_metadata = metadata,
                  obj_etag = (case reply_etag s' of Some t \<Rightarrow> t | None \<Rightarrow> []),
                  obj_last_modified = now, obj_storage_class = None\<rparr> (objects s')\<rparr>))"

definition client_list_objects_v2 ::
  "string \<Rightarrow> nat \<Rightarrow> s3 \<Rightarrow> (client_error + (string \<times> s3_object) list) \<times> s3" where
  "client_list_objects_v2 pfx max_keys s =
     (case s3_call s of
        (Some e, s') \<Rightarrow> (Inl e, s')
      | (None, s') \<Rightarrow>
          (Inr (take max_keys (filter (\<lambda>(k, obj). starts_with pfx k) (objects s'))), s'))"

subsection \<open>Upload and listing\<close>

text \<open>
  What \<open>upload_file\<close> accepts: a \<open>str\<close>, \<open>bytes\<close>, or a stream whose \<open>read()\<close> gives the
  bytes.  Text is over the code points 0 to 255 and \<open>encode('utf-8')\<close> takes one byte below
  128 and two bytes from 128 on.
\<close>

datatype file_content = StrContent string | BytesContent string | StreamContent string

definition utf8_char :: "char \<Rightarrow> string" where
  "utf8_char c = (if (of_char c :: nat) < 128 then [c]
                  else [char_of (192 + (of_char c :: nat) div 64),
                        char_of (128 + (of_char c :: nat) mod 64)])"

definition encode_utf8 :: "string \<Rightarrow> string" where
  "encode_utf8 s = concat (map utf8_char s)"

text \<open>\<open>s.strip(c)\<close> for a single character, and \<open>s.replace(old, new, 1)\<close>.\<close>

definition py_strip :: "char \<Rightarrow> string \<Rightarrow> string" where
  "py_strip c s = rev (dropWhile (\<lambda>x. x = c) (rev (dropWhile (\<lambda>x. x = c) s)))"

fun replace_first :: "string \<Rightarrow> string \<Rightarrow> string \<Rightarrow> string" where
  "replace_first old new [] = (if old = [] then new else [])"
| "replace_first old new (c # cs) =
     (if starts_with old (c # cs) then new @ drop (length old) (c # cs)
      else c # replace_first old new cs)"

text \<open>\<open>d.update(extra)\<close> on dictionaries.\<close>

definition dict_update :: "str_dict \<Rightarrow> str_dict \<Rightarrow> str_dict" where
  "dict_update d extra = fold (\<lambda>(k, v) acc. AList.update k v acc) extra d"

record upload_info =
  up_bucket :: string
  up_key :: string
  up_etag :: string
  up_version_id :: "string option"
  up_size :: nat
  up_url :: string

definition upload_file ::
  "settings \<Rightarrow> clock \<Rightarrow> file_content \<Rightarrow> string \<Rightarrow> string \<Rightarrow> string \<Rightarrow> str_dict option \<Rightarrow> s3
     \<Rightarrow> (py_exception + upload_info) \<times> s3" where
  "upload_file cfg clk file_content key tenant_id content_type metadata s =
     (let full_key = tenant_id @ ''/'' @ key;
          upload_metadata0 = [(''tenant_id'', tenant_id), (''uploaded_at'', iso clk),
                              (''content_type'', content_type)];
          upload_metadata = (case metadata of
                               Some m \<Rightarrow> if m \<noteq> [] then dict_update upload_metadata0 m
                                         else upload_metadata0
                             | None \<Rightarrow> upload_metadata0);
          body = (case file_content of
                    StrContent text \<Rightarrow> encode_utf8 text
                  | BytesContent b \<Rightarrow> b
                  | StreamContent b \<Rightarrow> b)
      in case client_put_object full_key body content_type upload_metadata (iso clk) s of
           (Inr response, s') \<Rightarrow>
             (Inr \<lparr>up_bucket = s3_bucket_name cfg,
                   up_key = full_key,
                   up_etag = py_strip (CHR 0x22)
                               (case resp_etag response of Some t \<Rightarrow> t | None \<Rightarrow> []),
                   up_version_id = resp_version_id response,
                   up_size = length body,
                   up_url = ''s3://'' @ s3_bucket_name cfg @ ''/'' @ full_key\<rparr>, s')
         | (Inl e, s') \<Rightarrow> (Inl (Exception (''S3 upload failed: '' @ err_text e)), s'))"

record file_info =
  fi_key :: string
  fi_size :: nat
  fi_last_modified :: string
  fi_etag :: string
  fi_storage_class :: string

text \<open>The entry that the loop of \<open>list_files\<close> appends for one listed object.\<close>

definition file_entry :: "string \<Rightarrow> string \<times> s3_object \<Rightarrow> file_info" where
  "file_entry tenant_id listed =
     (case listed of (k, obj) \<Rightarrow>
        \<lparr>fi_key = replace_first (tenant_id @ ''/'') [] k,
         fi_size = length (obj_body obj),
         fi_last_modified = obj_last_modified obj,
         fi_etag = py_strip (CHR 0x22) (obj_etag obj),
         fi_storage_class = (case obj_storage_class obj of Some c \<Rightarrow> c
                             | None \<Rightarrow> ''STANDARD'')\<rparr>)"

definition list_files ::
  "settings \<Rightarrow> string \<Rightarrow> string \<Rightarrow> nat \<Rightarrow> s3 \<Rightarrow> (py_exception + file_info list) \<times> s3" where
  "list_files cfg pfx tenant_id max_keys s =
     (let full_prefix = tenant_id @ ''/'' @ pfx in
      case client_list_objects_v2 full_prefix max_keys s of
        (Inr contents, s') \<Rightarrow> (Inr (map (file_entry tenant_id) contents), s')
      | (Inl e, s') \<Rightarrow> (Inl (Exception (''S3 list failed: '' @ err_text e)), s'))"

section \<open>The upload route (main.py)\<close>

text \<open>
  \<open>S3Helper.upload_file\<close> as a call site binds it: \<open>tenant_id\<close> is a required parameter
  without a default, so a call that passes no third argument raises \<open>TypeError\<close> before the
  body runs.
\<close>

definition upload_file_call ::
  "settings \<Rightarrow> clock \<Rightarrow> file_content \<Rightarrow> string \<Rightarrow> string option \<Rightarrow> s3
     \<Rightarrow> (py_exception + upload_info) \<times> s3" where
  "upload_file_call cfg clk file_content key tenant_id s =
     (case tenant_id of
        None \<Rightarrow>
          (Inl (TypeError ''upload_file() missing 1 required positional argument: tenant_id''), s)
      | Some t \<Rightarrow> upload_file cfg clk file_content key t ''application/octet-stream'' None s)"

text \<open>\<open>str(e)\<close> of the exceptions of the model.\<close>

definition str_exception :: "py_exception \<Rightarrow> string" where
  "str_exception ex =
     (case ex of
        Exception m \<Rightarrow> m
      | ValueError m \<Rightarrow> m
      | TypeError m \<Rightarrow> m
      | ZeroDivisionError m \<Rightarrow> m
      | HTTPException code detail \<Rightarrow> str_nat code @ '': '' @ detail
      | ParamValidationError m \<Rightarrow> m)"

definition ends_with :: "string \<Rightarrow> string \<Rightarrow> bool" where
  "ends_with sfx k = (length sfx \<le> length k \<and> drop (length k - length sfx) k = sfx)"

text \<open>
  The body of the route \<open>POST /upload\<close>, inside its \<open>try\<close>: the extension check, the key,
  and the call \<open>await s3_helper.upload_file(file, s3_key)\<close>, which passes two arguments; a
  dictionary that came back from it could not be awaited.
\<close>

definition upload_dataset_body ::
  "settings \<Rightarrow> clock \<Rightarrow> string \<Rightarrow> string \<Rightarrow> string \<Rightarrow> string \<Rightarrow> s3
     \<Rightarrow> (py_exception + str_dict) \<times> s3" where
  "upload_dataset_body cfg clk filename file dataset_type tenant_id s =
     (if \<not> ends_with ''.csv'' filename
      then (Inl (HTTPException 400 ''Only CSV files are supported''), s)
      else (let s3_key = ''datasets/'' @ tenant_id @ ''/'' @ dataset_type @ ''/'' @ filename in
            case upload_file_call cfg clk (StreamContent file) s3_key None s of
              (Inl ex, s') \<Rightarrow> (Inl ex, s')
            | (Inr info, s') \<Rightarrow>
                (Inl (TypeError ''object dict can not be used in await expression''), s')))"

text \<open>The route: every exception of the body becomes the response 500.\<close>

definition upload_dataset ::
  "settings \<Rightarrow> clock \<Rightarrow> string \<Rightarrow> string \<Rightarrow> string \<Rightarrow> string \<Rightarrow> s3
     \<Rightarrow> (py_exception + str_dict) \<times> s3" where
  "upload_dataset cfg clk filename file dataset_type tenant_id s =
     (case upload_dataset_body cfg clk filename file dataset_type tenant_id s of
        (Inl ex, s') \<Rightarrow> (Inl (HTTPException 500 (''Upload failed: '' @ str_exception ex)), s')
      | (Inr response, s') \<Rightarrow> (Inr response, s'))"

subsection \<open>Example buckets\<close>

definition s3_empty :: s3 where
  "s3_empty = \<lparr>objects = [], s3_faults = [],
               reply_etag = Some [CHR 0x22, CHR ''a'', CHR ''1'', CHR 0x22], reply_version = None\<rparr>"

section \<open>Messaging adapter (pinpoint_helper.py)\<close>

subsection \<open>The messaging service, as the adapter's call sees it\<close>

text \<open>
  \<open>pp_calls\<close> is the log of the \<open>send_messages\<close> calls issued, failed ones included; a call
  consumes one entry of \<open>pp_faults\<close> and otherwise answers with \<open>pp_request_id\<close>.
\<close>

datatype message_configuration =
    EmailMessage string string string
  | SMSMessage string string

record send_call =
  sc_application_id :: string
  sc_configuration :: message_configuration
  sc_user_id :: string

record pinpoint =
  pp_calls :: "send_call list"
  pp_faults :: "client_error option list"
  pp_request_id :: string

definition client_send_messages :: "send_call \<Rightarrow> pinpoint \<Rightarrow> (client_error + string) \<times> pinpoint" where
  "client_send_messages call s =
     (case pp_faults s of
        Some e # fs \<Rightarrow> (Inl e, s\<lparr>pp_calls := pp_calls s @ [call], pp_faults := fs\<rparr>)
      | None # fs \<Rightarrow> (Inr (pp_request_id s), s\<lparr>pp_calls := pp_calls s @ [call], pp_faults := fs\<rparr>)
      | [] \<Rightarrow> (Inr (pp_request_id s), s\<lparr>pp_calls := pp_calls s @ [call]\<rparr>))"

subsection \<open>Personalised send\<close>

text \<open>
  The settings that the helper keeps, and the two formatting builtins that the f-strings of
  the method use on a recommendation's values: \<open>fmt_str v\<close> is \<open>str(v)\<close> and \<open>fmt_2f v\<close> is
  \<open>format(v, '.2f')\<close>, which raises for a value that is not a number.
\<close>

record pinpoint_settings =
  pinpoint_application_id :: string
  pinpoint_from_address :: string

record ('f, 'd) formatter =
  fmt_str :: "('f, 'd) pyval \<Rightarrow> string"
  fmt_2f :: "('f, 'd) pyval \<Rightarrow> py_exception + string"

text \<open>\<open>rec.get(key, default)\<close>.\<close>

definition rec_get ::
  "(string \<times> ('f, 'd) pyval) list \<Rightarrow> string \<Rightarrow> ('f, 'd) pyval \<Rightarrow> ('f, 'd) pyval" where
  "rec_get r k dflt = (case map_of r k of Some v \<Rightarrow> v | None \<Rightarrow> dflt)"

text \<open>
  The pieces of the HTML template (its indentation left out); \<open>dq\<close> is the double quote.
\<close>

definition dq :: string where
  "dq = [CHR 0x22]"

definition nl :: string where
  "nl = [CHR 0x0A]"

definition html_head :: string where
  "html_head = nl @ ''<html>'' @ nl @ ''<body>'' @ nl @ ''<h2>Hi there!</h2>'' @ nl
     @ ''<p>We've found some great products you might like:</p>'' @ nl
     @ ''<div style='' @ dq @ ''display: flex; flex-wrap: wrap;'' @ dq @ ''>'' @ nl"

definition html_tail :: string where
  "html_tail = nl @ ''</div>'' @ nl @ ''<p>Happy shopping!</p>'' @ nl @ ''</body>'' @ nl
     @ ''</html>'' @ nl"

text \<open>The block that one pass of the loop appends for one recommendation.\<close>

definition email_block ::
  "('f, 'd) formatter \<Rightarrow> (string \<times> ('f, 'd) pyval) list \<Rightarrow> py_exception + string" where
  "email_block fmt r =
     (let title = fmt_str fmt (rec_get r ''title'' (PStr ''Recommended Item'')) in
      case fmt_2f fmt (rec_get r ''score'' (PInt 0)) of
        Inl ex \<Rightarrow> Inl ex
      | Inr score \<Rightarrow>
          Inr (nl @ ''<div style='' @ dq
               @ ''margin: 10px; padding: 15px; border: 1px solid #ddd; border-radius: 5px;''
               @ dq @ ''>'' @ nl
               @ ''<h4>'' @ title @ ''</h4>'' @ nl
               @ ''<p>Score: '' @ score @ ''</p>'' @ nl
               @ ''<p>'' @ fmt_str fmt (rec_get r ''description'' (PStr ''Great product for you!''))
               @ ''</p>'' @ nl
               @ ''<a href='' @ dq @ fmt_str fmt (rec_get r ''url'' (PStr ''#'')) @ dq
               @ '' style='' @ dq
               @ ''background: #007bff; color: white; padding: 8px 16px; text-decoration: none; border-radius: 3px;''
               @ dq @ ''>View Product</a>'' @ nl
               @ ''</div>'' @ nl))"

text \<open>\<open>for rec in recommendations[:5]: html_content += block\<close>.\<close>

fun append_blocks ::
  "('f, 'd) formatter \<Rightarrow> (string \<times> ('f, 'd) pyval) list list \<Rightarrow> string \<Rightarrow> py_exception + string" where
  "append_blocks fmt [] html_content = Inr html_content"
| "append_blocks fmt (r # rs) html_content =
     (case email_block fmt r of
        Inl ex \<Rightarrow> Inl ex
      | Inr block \<Rightarrow> append_blocks fmt rs (html_content @ block))"

definition email_html ::
  "('f, 'd) formatter \<Rightarrow> (string \<times> ('f, 'd) pyval) list list \<Rightarrow> py_exception + string" where
  "email_html fmt recommendations =
     (case append_blocks fmt (take 5 recommendations) html_head of
        Inl ex \<Rightarrow> Inl ex
      | Inr html_content \<Rightarrow> Inr (html_content @ html_tail))"

definition sms_text ::
  "('f, 'd) formatter \<Rightarrow> (string \<times> ('f, 'd) pyval) list list \<Rightarrow> string" where
  "sms_text fmt recommendations =
     ''Hi! We found '' @ str_nat (length recommendations) @ '' great products for you. ''
     @ (case recommendations of
          [] \<Rightarrow> []
        | r # rs \<Rightarrow> ''Check out: '' @ fmt_str fmt (rec_get r ''title'' (PStr ''our top pick'')) @ ''!'')"

record send_info =
  si_message_id :: string
  si_user_id :: string
  si_tenant :: string
  si_channel :: string
  si_recommendations_count :: nat
  si_status :: string

text \<open>
  \<open>send_personalized_recommendations\<close>.  The content is built first; only
  \<open>ClientError\<close> is handled, so the \<open>ValueError\<close> of an unsupported channel and an
  exception of the formatting leave the method as they are.
\<close>

definition send_personalized_recommendations ::
  "pinpoint_settings \<Rightarrow> ('f, 'd) formatter \<Rightarrow> string \<Rightarrow> string
     \<Rightarrow> (string \<times> ('f, 'd) pyval) list list \<Rightarrow> string \<Rightarrow> pinpoint
     \<Rightarrow> (py_exception + send_info) \<times> pinpoint" where
  "send_personalized_recommendations cfg fmt tenant_id user_id recommendations channel s =
     (let message_config =
            (if channel = ''email''
             then (case email_html fmt recommendations of
                     Inl ex \<Rightarrow> Inl ex
                   | Inr html_content \<Rightarrow>
                       Inr (EmailMessage (pinpoint_from_address cfg) html_content
                              ''Personalized Recommendations Just for You!''))
             else if channel = ''sms''
             then Inr (SMSMessage (sms_text fmt recommendations) ''PROMOTIONAL'')
             else Inl (ValueError (''Unsupported channel: '' @ channel)))
      in case message_config of
           Inl ex \<Rightarrow> (Inl ex, s)
         | Inr config \<Rightarrow>
             (case client_send_messages
                     \<lparr>sc_application_id = pinpoint_application_id cfg,
                      sc_configuration = config, sc_user_id = user_id\<rparr> s of
                (Inl e, s') \<Rightarrow> (Inl (Exception (''Personalized message failed: '' @ err_text e)), s')
              | (Inr message_id, s') \<Rightarrow>
                  (Inr \<lparr>si_message_id = message_id, si_user_id = user_id, si_tenant = tenant_id,
                        si_channel = channel,
                        si_recommendations_count = length recommendations,
                        si_status = ''SENT''\<rparr>, s')))"

text \<open>The blocks of a list of recommendations, the first formatting error winning.\<close>

fun blocks_of ::
  "('f, 'd) formatter \<Rightarrow> (string \<times> ('f, 'd) pyval) list list \<Rightarrow> py_exception + string list" where
  "blocks_of fmt [] = Inr []"
| "blocks_of fmt (r # rs) =
     (case email_block fmt r of
        Inl ex \<Rightarrow> Inl ex
      | Inr block \<Rightarrow> (case blocks_of fmt rs of Inl ex \<Rightarrow> Inl ex | Inr bs \<Rightarrow> Inr (block # bs)))"

subsection \<open>Example messaging state\<close>

definition pp_cfg0 :: pinpoint_settings where
  "pp_cfg0 = \<lparr>pinpoint_application_id = ''app-1'', pinpoint_from_address = ''shop@example.com''\<rparr>"

definition pp_idle :: pinpoint where
  "pp_idle = \<lparr>pp_calls = [], pp_faults = [], pp_request_id = ''req-1''\<rparr>"

text \<open>A formatter for texts and integers.\<close>

definition fmt0 :: "(rat, rat) formatter" where
  "fmt0 = \<lparr>fmt_str = (\<lambda>v. case v of PStr s \<Rightarrow> s | PInt i \<Rightarrow> str_int i | _ \<Rightarrow> ''?''),
            fmt_2f = (\<lambda>v. case v of PInt i \<Rightarrow> Inr (str_int i @ ''.00'')
                           | _ \<Rightarrow> Inl (ValueError ''Unknown format code f''))\<rparr>"

definition titled :: "string \<Rightarrow> (string \<times> (rat, rat) pyval) list" where
  "titled name = [(''title'', PStr name), (''score'', PInt 1)]"

definition seven_recs :: "(string \<times> (rat, rat) pyval) list list" where
  "seven_recs = map titled [''a'', ''b'', ''c'', ''d'', ''e'', ''f'', ''g'']"

section \<open>Properties of the recommendation-service adapter\<close>

lemma determine_overall_three:
  "determine_overall [dg, sol, cmp] = precedence_status dg sol cmp"
proof -
  have creating:
    "(''CREATING'' \<in> set [dg, sol, cmp] \<or> ''CREATE_IN_PROGRESS'' \<in> set [dg, sol, cmp])
      \<longleftrightarrow> (dg \<in> {''CREATING'', ''CREATE_IN_PROGRESS''} \<or> sol \<in> {''CREATING'', ''CREATE_IN_PROGRESS''}
          \<or> cmp \<in> {''CREATING'', ''CREATE_IN_PROGRESS''})"
    by (simp only: list.set insert_iff empty_iff) blast
  have failed:
    "(''CREATE_FAILED'' \<in> set [dg, sol, cmp] \<or> ''FAILED'' \<in> set [dg, sol, cmp])
      \<longleftrightarrow> (dg \<in> {''FAILED'', ''CREATE_FAILED''} \<or> sol \<in> {''FAILED'', ''CREATE_FAILED''}
          \<or> cmp \<in> {''FAILED'', ''CREATE_FAILED''})"
    by (simp only: list.set insert_iff empty_iff) blast
  have active:
    "list_all (\<lambda>status. status = ''ACTIVE'') [dg, sol, cmp]
      \<longleftrightarrow> dg = ''ACTIVE'' \<and> sol = ''ACTIVE'' \<and> cmp = ''ACTIVE''"
    by (simp only: list.pred_inject simp_thms)
  show ?thesis
    unfolding determine_overall_def precedence_status_def
    by (simp only: creating failed active)
qed

text \<open>
  C2.  Whatever the service answers, \<open>get_training_status\<close> records one status per
  component: the \<open>status\<close> entry of the lookup's result, and \<open>NOT_FOUND\<close> when the lookup
  raised.  Its overall status is the ordered-precedence reduction of the three: creating in
  any component gives \<open>TRAINING\<close> (also beside a failed one), else all three active gives
  \<open>READY\<close>, else a failed component gives \<open>FAILED\<close>, else \<open>INCOMPLETE\<close>; so \<open>READY\<close>
  is returned exactly when all three are \<open>ACTIVE\<close>, and \<open>ERROR\<close> never.
\<close>

theorem get_training_status_precedence:
  fixes cfg :: settings and tenant_id :: string and s0 :: personalize
  defines "r1 \<equiv> get_dataset_group cfg tenant_id s0"
  defines "r2 \<equiv> get_solution cfg tenant_id (snd r1)"
  defines "r3 \<equiv> get_campaign cfg tenant_id (snd r2)"
  defines "dg \<equiv> (case fst r1 of Inr info \<Rightarrow> dict_item info ''status'' | Inl ex \<Rightarrow> ''NOT_FOUND'')"
  defines "sol \<equiv> (case fst r2 of Inr info \<Rightarrow> dict_item info ''status'' | Inl ex \<Rightarrow> ''NOT_FOUND'')"
  defines "cmp \<equiv> (case fst r3 of Inr info \<Rightarrow> dict_item info ''status'' | Inl ex \<Rightarrow> ''NOT_FOUND'')"
  defines "creating \<equiv> dg \<in> {''CREATING'', ''CREATE_IN_PROGRESS''}
                        \<or> sol \<in> {''CREATING'', ''CREATE_IN_PROGRESS''}
                        \<or> cmp \<in> {''CREATING'', ''CREATE_IN_PROGRESS''}"
  defines "active \<equiv> dg = ''ACTIVE'' \<and> sol = ''ACTIVE'' \<and> cmp = ''ACTIVE''"
  defines "failed \<equiv> dg \<in> {''FAILED'', ''CREATE_FAILED''} \<or> sol \<in> {''FAILED'', ''CREATE_FAILED''}
                      \<or> cmp \<in> {''FAILED'', ''CREATE_FAILED''}"
  defines "overall \<equiv> overall_status (fst (get_training_status cfg tenant_id s0))"
  shows "components (fst (get_training_status cfg tenant_id s0)) =
           [(''dataset_group'', dg), (''solution'', sol), (''campaign'', cmp)]
       \<and> overall = precedence_status dg sol cmp
       \<and> precedence_status ''CREATING'' ''FAILED'' ''ACTIVE'' = ''TRAINING''
       \<and> (overall = ''READY'' \<longleftrightarrow> dg = ''ACTIVE'' \<and> sol = ''ACTIVE'' \<and> cmp = ''ACTIVE'')
       \<and> (creating \<longrightarrow> overall = ''TRAINING'')
       \<and> (\<not> creating \<and> active \<longrightarrow> overall = ''READY'')
       \<and> (\<not> creating \<and> \<not> active \<and> failed \<longrightarrow> overall = ''FAILED'')
       \<and> (\<not> creating \<and> \<not> active \<and> \<not> failed \<longrightarrow> overall = ''INCOMPLETE'')
       \<and> ((\<forall>ex. fst r1 = Inl ex \<longrightarrow> dg = ''NOT_FOUND'')
          \<and> (\<forall>ex. fst r2 = Inl ex \<longrightarrow> sol = ''NOT_FOUND'')
          \<and> (\<forall>ex. fst r3 = Inl ex \<longrightarrow> cmp = ''NOT_FOUND''))
       \<and> overall \<in> {''TRAINING'', ''READY'', ''FAILED'', ''INCOMPLETE''}"
proof -
  have run: "get_training_status cfg tenant_id s0 =
      (\<lparr>si_tenant_id = tenant_id,
        overall_status = determine_overall [dg, sol, cmp],
        components = [(''dataset_group'', dg), (''solution'', sol), (''campaign'', cmp)]\<rparr>, snd r3)"
    unfolding get_training_status_def r1_def r2_def r3_def dg_def sol_def cmp_def component_status_def
    by (simp add: split_beta Let_def)
  have ov: "overall = precedence_status dg sol cmp"
    unfolding overall_def by (simp add: run determine_overall_three)
  have ready: "precedence_status dg sol cmp = ''READY''
      \<longleftrightarrow> dg = ''ACTIVE'' \<and> sol = ''ACTIVE'' \<and> cmp = ''ACTIVE''"
    unfolding precedence_status_def by auto
  have ex: "precedence_status ''CREATING'' ''FAILED'' ''ACTIVE'' = ''TRAINING''"
    unfolding precedence_status_def by simp
  have chain: "precedence_status dg sol cmp =
      (if creating then ''TRAINING'' else if active then ''READY''
       else if failed then ''FAILED'' else ''INCOMPLETE'')"
    unfolding precedence_status_def creating_def active_def failed_def by (rule refl)
  have c1: "creating \<longrightarrow> overall = ''TRAINING''" by (simp only: ov chain) simp
  have c2: "\<not> creating \<and> active \<longrightarrow> overall = ''READY''" by (simp only: ov chain) simp
  have c3: "\<not> creating \<and> \<not> active \<and> failed \<longrightarrow> overall = ''FAILED''" by (simp only: ov chain) simp
  have c4: "\<not> creating \<and> \<not> active \<and> \<not> failed \<longrightarrow> overall = ''INCOMPLETE''"
    by (simp only: ov chain) simp
  have c5: "overall \<in> {''TRAINING'', ''READY'', ''FAILED'', ''INCOMPLETE''}"
    by (simp only: ov chain) simp
  have nf: "(\<forall>ex. fst r1 = Inl ex \<longrightarrow> dg = ''NOT_FOUND'')
          \<and> (\<forall>ex. fst r2 = Inl ex \<longrightarrow> sol = ''NOT_FOUND'')
          \<and> (\<forall>ex. fst r3 = Inl ex \<longrightarrow> cmp = ''NOT_FOUND'')"
    unfolding dg_def sol_def cmp_def by simp
  have comps: "components (fst (get_training_status cfg tenant_id s0)) =
           [(''dataset_group'', dg), (''solution'', sol), (''campaign'', cmp)]"
    by (simp add: run)
  have rd: "overall = ''READY'' \<longleftrightarrow> dg = ''ACTIVE'' \<and> sol = ''ACTIVE'' \<and> cmp = ''ACTIVE''"
    using ready by (simp only: ov)
  show ?thesis
    using comps ov ex rd c1 c2 c3 c4 nf c5 by blast
qed

subsection \<open>Create-or-get\<close>

lemma find_append_eq:
  "find P (xs @ ys) = (case find P xs of None \<Rightarrow> find P ys | Some x \<Rightarrow> Some x)"
  by (induction xs) auto

lemma pz_call_no_fault: "pz_faults s = [] \<Longrightarrow> pz_call s = (None, s)"
  by (simp add: pz_call_def)

lemma has_name_find:
  "has_name nm rs \<Longrightarrow> \<exists>r. find (\<lambda>r. res_name r = nm) rs = Some r \<and> res_name r = nm"
  unfolding has_name_def by (cases "find (\<lambda>r. res_name r = nm) rs") (auto simp: find_Some_iff)

lemma has_name_append_new:
  "has_name nm (rs @ [new_resource kind nm grp extra])"
  unfolding has_name_def by (simp add: find_append_eq new_resource_def split: option.splits)

lemma find_append_new:
  "\<not> has_name nm rs \<Longrightarrow>
   find (\<lambda>r. res_name r = nm) (rs @ [new_resource kind nm grp extra]) = Some (new_resource kind nm grp extra)"
  unfolding has_name_def by (simp add: find_append_eq new_resource_def)

lemma get_dataset_group_found:
  assumes "pz_faults s = []" and "length (dataset_groups s) \<le> 100"
    and "find (\<lambda>r. res_name r = personalize_dataset_group_name cfg @ ''-'' @ t) (dataset_groups s) = Some dg"
  shows "get_dataset_group cfg t s =
    (Inr [(''dataset_group_arn'', res_arn dg), (''name'', res_name dg), (''status'', res_status dg)], s)"
  using assms by (simp add: get_dataset_group_def client_list_dataset_groups_def pz_call_no_fault)

lemma create_dataset_group_twice:
  fixes cfg :: settings and t :: string and s :: personalize
  assumes nf: "pz_faults s = []" and len: "length (dataset_groups s) < 100"
  defines "nm \<equiv> personalize_dataset_group_name cfg @ ''-'' @ t"
  defines "r1 \<equiv> create_dataset_group cfg t s"
  defines "r2 \<equiv> create_dataset_group cfg t (snd r1)"
  shows "same_resource (fst r1) (fst r2) ''dataset_group_arn'' nm"
proof (cases "has_name nm (dataset_groups s)")
  case True
  then obtain dg where f: "find (\<lambda>r. res_name r = nm) (dataset_groups s) = Some dg" and n: "res_name dg = nm"
    using has_name_find by blast
  have g: "get_dataset_group cfg t s =
    (Inr [(''dataset_group_arn'', res_arn dg), (''name'', res_name dg), (''status'', res_status dg)], s)"
    using get_dataset_group_found[of s cfg t dg] nf len f by (simp add: nm_def)
  have c: "create_dataset_group cfg t s = get_dataset_group cfg t s"
    using True nf
    by (simp add: create_dataset_group_def client_create_dataset_group_def pz_call_no_fault
        already_exists_def nm_def Let_def)
  show ?thesis
    unfolding r2_def r1_def by (simp add: c g n same_resource_def)
next
  case False
  let ?new = "new_resource ''dataset-group'' nm [] None"
  let ?s1 = "s\<lparr>dataset_groups := dataset_groups s @ [?new]\<rparr>"
  have c1: "create_dataset_group cfg t s =
     (Inr [(''dataset_group_arn'', arn_of ''dataset-group'' nm), (''name'', nm), (''status'', ''CREATING'')], ?s1)"
    using False nf
    by (simp add: create_dataset_group_def client_create_dataset_group_def pz_call_no_fault nm_def Let_def)
  have nf1: "pz_faults ?s1 = []" using nf by simp
  have len1: "length (dataset_groups ?s1) \<le> 100" using len by simp
  have f1: "find (\<lambda>r. res_name r = nm) (dataset_groups ?s1) = Some ?new"
    using False by (simp add: find_append_new)
  have g: "get_dataset_group cfg t ?s1 =
    (Inr [(''dataset_group_arn'', res_arn ?new), (''name'', res_name ?new), (''status'', res_status ?new)], ?s1)"
    using get_dataset_group_found[of ?s1 cfg t ?new] nf1 len1 f1 by (simp add: nm_def)
  have h1: "has_name nm (dataset_groups ?s1)" by (simp add: has_name_append_new)
  have c2: "create_dataset_group cfg t ?s1 = get_dataset_group cfg t ?s1"
    using h1 nf1
    by (simp add: create_dataset_group_def client_create_dataset_group_def pz_call_no_fault
        already_exists_def nm_def Let_def)
  have e2: "r2 = (Inr [(''dataset_group_arn'', res_arn ?new), (''name'', res_name ?new),
                       (''status'', res_status ?new)], ?s1)"
    unfolding r2_def r1_def by (simp add: c1 c2 g)
  have e1: "fst r1 = Inr [(''dataset_group_arn'', arn_of ''dataset-group'' nm), (''name'', nm),
                          (''status'', ''CREATING'')]"
    unfolding r1_def by (simp add: c1)
  show ?thesis
    by (simp add: e1 e2 same_resource_def new_resource_def)
qed


lemma get_campaign_found:
  assumes "pz_faults s = []" and "length (campaigns s) \<le> 100"
    and "find (\<lambda>r. res_name r = personalize_campaign_name cfg @ ''-'' @ t) (campaigns s) = Some c"
  shows "get_campaign cfg t s =
    (Inr [(''campaign_arn'', res_arn c), (''name'', res_name c), (''status'', res_status c),
          (''solution_version_arn'', case res_extra c of Some v \<Rightarrow> v | None \<Rightarrow> [])], s)"
  using assms by (simp add: get_campaign_def client_list_campaigns_def pz_call_no_fault Let_def)

lemma create_campaign_twice:
  fixes cfg :: settings and t :: string and s :: personalize and sv :: string
  assumes nf: "pz_faults s = []" and len: "length (campaigns s) < 100"
  defines "nm \<equiv> personalize_campaign_name cfg @ ''-'' @ t"
  defines "r1 \<equiv> create_campaign cfg sv t s"
  defines "r2 \<equiv> create_campaign cfg sv t (snd r1)"
  shows "same_resource (fst r1) (fst r2) ''campaign_arn'' nm"
proof (cases "has_name nm (campaigns s)")
  case True
  then obtain c where f: "find (\<lambda>r. res_name r = nm) (campaigns s) = Some c" and n: "res_name c = nm"
    using has_name_find by blast
  have g: "get_campaign cfg t s =
    (Inr [(''campaign_arn'', res_arn c), (''name'', res_name c), (''status'', res_status c),
          (''solution_version_arn'', case res_extra c of Some v \<Rightarrow> v | None \<Rightarrow> [])], s)"
    using get_campaign_found[of s cfg t c] nf len f by (simp add: nm_def)
  have c: "create_campaign cfg sv t s = get_campaign cfg t s"
    using True nf
    by (simp add: create_campaign_def client_create_campaign_def pz_call_no_fault
        already_exists_def nm_def Let_def)
  show ?thesis
    unfolding r2_def r1_def by (simp add: c g n same_resource_def)
next
  case False
  let ?new = "new_resource ''campaign'' nm [] None"
  let ?s1 = "s\<lparr>campaigns := campaigns s @ [?new]\<rparr>"
  have c1: "create_campaign cfg sv t s =
     (Inr [(''campaign_arn'', arn_of ''campaign'' nm), (''name'', nm), (''status'', ''CREATING''),
           (''solution_version_arn'', sv)], ?s1)"
    using False nf
    by (simp add: create_campaign_def client_create_campaign_def pz_call_no_fault nm_def Let_def)
  have nf1: "pz_faults ?s1 = []" using nf by simp
  have len1: "length (campaigns ?s1) \<le> 100" using len by simp
  have f1: "find (\<lambda>r. res_name r = nm) (campaigns ?s1) = Some ?new"
    using False by (simp add: find_append_new)
  have g: "get_campaign cfg t ?s1 =
    (Inr [(''campaign_arn'', res_arn ?new), (''name'', res_name ?new), (''status'', res_status ?new),
          (''solution_version_arn'', case res_extra ?new of Some v \<Rightarrow> v | None \<Rightarrow> [])], ?s1)"
    using get_campaign_found[of ?s1 cfg t ?new] nf1 len1 f1 by (simp add: nm_def)
  have h1: "has_name nm (campaigns ?s1)" by (simp add: has_name_append_new)
  have c2: "create_campaign cfg sv t ?s1 = get_campaign cfg t ?s1"
    using h1 nf1
    by (simp add: create_campaign_def client_create_campaign_def pz_call_no_fault
        already_exists_def nm_def Let_def)
  have e2: "r2 = (Inr [(''campaign_arn'', res_arn ?new), (''name'', res_name ?new),
                       (''status'', res_status ?new),
                       (''solution_version_arn'', case res_extra ?new of Some v \<Rightarrow> v | None \<Rightarrow> [])], ?s1)"
    unfolding r2_def r1_def by (simp add: c1 c2 g)
  have e1: "fst r1 = Inr [(''campaign_arn'', arn_of ''campaign'' nm), (''name'', nm),
                          (''status'', ''CREATING''), (''solution_version_arn'', sv)]"
    unfolding r1_def by (simp add: c1)
  show ?thesis
    by (simp add: e1 e2 same_resource_def new_resource_def)
qed

lemma find_filter_same:
  "\<forall>x \<in> set xs. P x \<longrightarrow> Q x \<Longrightarrow> find P (filter Q xs) = find P xs"
  by (induction xs) auto

lemma get_solution_found:
  assumes nf: "pz_faults s = []" and "length (dataset_groups s) \<le> 100" and "length (solutions s) \<le> 100"
    and "find (\<lambda>r. res_name r = personalize_dataset_group_name cfg @ ''-'' @ t) (dataset_groups s) = Some dg"
    and "find (\<lambda>r. res_name r = personalize_solution_name cfg @ ''-'' @ t) (solutions s) = Some sol"
    and "\<forall>r \<in> set (solutions s). res_name r = personalize_solution_name cfg @ ''-'' @ t \<longrightarrow> res_group r = res_arn dg"
  shows "get_solution cfg t s =
    (Inr [(''solution_arn'', res_arn sol), (''name'', res_name sol), (''status'', res_status sol),
          (''recipe_arn'', case res_extra sol of Some r \<Rightarrow> r | None \<Rightarrow> [])], s)"
proof -
  have g: "get_dataset_group cfg t s =
    (Inr [(''dataset_group_arn'', res_arn dg), (''name'', res_name dg), (''status'', res_status dg)], s)"
    using assms by (simp add: get_dataset_group_found)
  have l: "length (filter (\<lambda>r. res_group r = res_arn dg) (solutions s)) \<le> 100"
    using assms(3) by (meson le_trans length_filter_le)
  have f: "find (\<lambda>r. res_name r = personalize_solution_name cfg @ ''-'' @ t)
             (filter (\<lambda>r. res_group r = res_arn dg) (solutions s)) = Some sol"
    using assms(5,6) by (simp add: find_filter_same)
  show ?thesis
    using nf l f
    by (simp add: get_solution_def g client_list_solutions_def pz_call_no_fault dict_item_def Let_def)
qed


lemma create_solution_twice:
  fixes cfg :: settings and t :: string and s :: personalize and recipe :: string
  defines "dgn \<equiv> personalize_dataset_group_name cfg @ ''-'' @ t"
  defines "nm \<equiv> personalize_solution_name cfg @ ''-'' @ t"
  assumes nf: "pz_faults s = []" and lendg: "length (dataset_groups s) \<le> 100"
    and len: "length (solutions s) < 100"
    and dg: "find (\<lambda>r. res_name r = dgn) (dataset_groups s) = Some dg"
    and grp: "\<forall>r \<in> set (solutions s). res_name r = nm \<longrightarrow> res_group r = res_arn dg"
  defines "r1 \<equiv> create_solution cfg recipe t s"
  defines "r2 \<equiv> create_solution cfg recipe t (snd r1)"
  shows "same_resource (fst r1) (fst r2) ''solution_arn'' nm"
proof (cases "has_name nm (solutions s)")
  case True
  then obtain sol where f: "find (\<lambda>r. res_name r = nm) (solutions s) = Some sol" and n: "res_name sol = nm"
    using has_name_find by blast
  have gd: "get_dataset_group cfg t s =
    (Inr [(''dataset_group_arn'', res_arn dg), (''name'', res_name dg), (''status'', res_status dg)], s)"
    using get_dataset_group_found[of s cfg t dg] nf lendg dg by (simp add: dgn_def)
  have g: "get_solution cfg t s =
    (Inr [(''solution_arn'', res_arn sol), (''name'', res_name sol), (''status'', res_status sol),
          (''recipe_arn'', case res_extra sol of Some r \<Rightarrow> r | None \<Rightarrow> [])], s)"
    using get_solution_found[of s cfg t dg sol] nf lendg len dg f grp by (simp add: dgn_def nm_def)
  have c: "create_solution cfg recipe t s = get_solution cfg t s"
    using True nf
    by (simp add: create_solution_def gd client_create_solution_def pz_call_no_fault
        already_exists_def nm_def Let_def dict_item_def)
  show ?thesis
    unfolding r2_def r1_def by (simp add: c g n same_resource_def)
next
  case False
  let ?new = "new_resource ''solution'' nm (res_arn dg) (Some recipe)"
  let ?s1 = "s\<lparr>solutions := solutions s @ [?new]\<rparr>"
  have gd: "get_dataset_group cfg t s =
    (Inr [(''dataset_group_arn'', res_arn dg), (''name'', res_name dg), (''status'', res_status dg)], s)"
    using get_dataset_group_found[of s cfg t dg] nf lendg dg by (simp add: dgn_def)
  have c1: "create_solution cfg recipe t s =
     (Inr [(''solution_arn'', arn_of ''solution'' nm), (''name'', nm), (''status'', ''CREATING''),
           (''recipe_arn'', recipe)], ?s1)"
    using False nf
    by (simp add: create_solution_def gd client_create_solution_def pz_call_no_fault nm_def
        Let_def dict_item_def)
  have nf1: "pz_faults ?s1 = []" using nf by simp
  have len1: "length (solutions ?s1) \<le> 100" using len by simp
  have lendg1: "length (dataset_groups ?s1) \<le> 100" using lendg by simp
  have dg1: "find (\<lambda>r. res_name r = dgn) (dataset_groups ?s1) = Some dg" using dg by simp
  have f1: "find (\<lambda>r. res_name r = nm) (solutions ?s1) = Some ?new"
    using False by (simp add: find_append_new)
  have grp1: "\<forall>r \<in> set (solutions ?s1). res_name r = nm \<longrightarrow> res_group r = res_arn dg"
    using grp by (auto simp: new_resource_def)
  have gd1: "get_dataset_group cfg t ?s1 =
    (Inr [(''dataset_group_arn'', res_arn dg), (''name'', res_name dg), (''status'', res_status dg)], ?s1)"
    using get_dataset_group_found[of ?s1 cfg t dg] nf1 lendg1 dg1 by (simp add: dgn_def)
  have g: "get_solution cfg t ?s1 =
    (Inr [(''solution_arn'', res_arn ?new), (''name'', res_name ?new), (''status'', res_status ?new),
          (''recipe_arn'', case res_extra ?new of Some r \<Rightarrow> r | None \<Rightarrow> [])], ?s1)"
    using get_solution_found[of ?s1 cfg t dg ?new] nf1 lendg1 len1 dg1 f1 grp1
    by (simp add: dgn_def nm_def)
  have h1: "has_name nm (solutions ?s1)" by (simp add: has_name_append_new)
  have c2: "create_solution cfg recipe t ?s1 = get_solution cfg t ?s1"
    using h1 nf1 gd1
    by (simp add: create_solution_def client_create_solution_def pz_call_no_fault
        already_exists_def nm_def Let_def dict_item_def)
  have e2: "r2 = (Inr [(''solution_arn'', res_arn ?new), (''name'', res_name ?new),
                       (''status'', res_status ?new),
                       (''recipe_arn'', case res_extra ?new of Some r \<Rightarrow> r | None \<Rightarrow> [])], ?s1)"
    unfolding r2_def r1_def by (simp add: c1 c2 g)
  have e1: "fst r1 = Inr [(''solution_arn'', arn_of ''solution'' nm), (''name'', nm),
                          (''status'', ''CREATING''), (''recipe_arn'', recipe)]"
    unfolding r1_def by (simp add: c1)
  show ?thesis
    by (simp add: e1 e2 same_resource_def new_resource_def)
qed

lemma get_dataset_found:
  assumes nf: "pz_faults s = []" and "length (dataset_groups s) \<le> 100" and "length (datasets s) \<le> 100"
    and "find (\<lambda>r. res_name r = personalize_dataset_group_name cfg @ ''-'' @ t) (dataset_groups s) = Some dg"
    and "find (\<lambda>r. res_name r = lower dt @ ''-'' @ t) (datasets s) = Some ds"
    and "\<forall>r \<in> set (datasets s). res_name r = lower dt @ ''-'' @ t \<longrightarrow> res_group r = res_arn dg"
  shows "get_dataset cfg dt t s =
    (Inr [(''dataset_arn'', res_arn ds), (''name'', res_name ds), (''type'', dt),
          (''status'', res_status ds)], s)"
proof -
  have g: "get_dataset_group cfg t s =
    (Inr [(''dataset_group_arn'', res_arn dg), (''name'', res_name dg), (''status'', res_status dg)], s)"
    using assms by (simp add: get_dataset_group_found)
  have l: "length (filter (\<lambda>r. res_group r = res_arn dg) (datasets s)) \<le> 100"
    using assms(3) by (meson le_trans length_filter_le)
  have f: "find (\<lambda>r. res_name r = lower dt @ ''-'' @ t)
             (filter (\<lambda>r. res_group r = res_arn dg) (datasets s)) = Some ds"
    using assms(5,6) by (simp add: find_filter_same)
  show ?thesis
    using nf l f
    by (simp add: get_dataset_def g client_list_datasets_def pz_call_no_fault dict_item_def Let_def)
qed

lemma create_dataset_twice:
  fixes cfg :: settings and t :: string and s :: personalize and dt :: string and schema :: string
  defines "dgn \<equiv> personalize_dataset_group_name cfg @ ''-'' @ t"
  defines "nm \<equiv> lower dt @ ''-'' @ t"
  assumes nf: "pz_faults s = []" and lendg: "length (dataset_groups s) \<le> 100"
    and len: "length (datasets s) < 100"
    and dg: "find (\<lambda>r. res_name r = dgn) (dataset_groups s) = Some dg"
    and grp: "\<forall>r \<in> set (datasets s). res_name r = nm \<longrightarrow> res_group r = res_arn dg"
  defines "r1 \<equiv> create_dataset cfg dt schema t s"
  defines "r2 \<equiv> create_dataset cfg dt schema t (snd r1)"
  shows "same_resource (fst r1) (fst r2) ''dataset_arn'' nm"
proof (cases "has_name nm (datasets s)")
  case True
  then obtain ds where f: "find (\<lambda>r. res_name r = nm) (datasets s) = Some ds" and n: "res_name ds = nm"
    using has_name_find by blast
  have gd: "get_dataset_group cfg t s =
    (Inr [(''dataset_group_arn'', res_arn dg), (''name'', res_name dg), (''status'', res_status dg)], s)"
    using get_dataset_group_found[of s cfg t dg] nf lendg dg by (simp add: dgn_def)
  have g: "get_dataset cfg dt t s =
    (Inr [(''dataset_arn'', res_arn ds), (''name'', res_name ds), (''type'', dt),
          (''status'', res_status ds)], s)"
    using get_dataset_found[of s cfg t dg dt ds] nf lendg len dg f grp by (simp add: dgn_def nm_def)
  have c: "create_dataset cfg dt schema t s = get_dataset cfg dt t s"
    using True nf
    by (simp add: create_dataset_def gd client_create_dataset_def pz_call_no_fault
        already_exists_def nm_def Let_def dict_item_def)
  show ?thesis
    unfolding r2_def r1_def by (simp add: c g n same_resource_def)
next
  case False
  let ?new = "new_resource ''dataset'' nm (res_arn dg) None"
  let ?s1 = "s\<lparr>datasets := datasets s @ [?new]\<rparr>"
  have gd: "get_dataset_group cfg t s =
    (Inr [(''dataset_group_arn'', res_arn dg), (''name'', res_name dg), (''status'', res_status dg)], s)"
    using get_dataset_group_found[of s cfg t dg] nf lendg dg by (simp add: dgn_def)
  have c1: "create_dataset cfg dt schema t s =
     (Inr [(''dataset_arn'', arn_of ''dataset'' nm), (''name'', nm), (''type'', dt),
           (''status'', ''CREATING'')], ?s1)"
    using False nf
    by (simp add: create_dataset_def gd client_create_dataset_def pz_call_no_fault nm_def
        Let_def dict_item_def)
  have nf1: "pz_faults ?s1 = []" using nf by simp
  have len1: "length (datasets ?s1) \<le> 100" using len by simp
  have lendg1: "length (dataset_groups ?s1) \<le> 100" using lendg by simp
  have dg1: "find (\<lambda>r. res_name r = dgn) (dataset_groups ?s1) = Some dg" using dg by simp
  have f1: "find (\<lambda>r. res_name r = nm) (datasets ?s1) = Some ?new"
    using False by (simp add: find_append_new)
  have grp1: "\<forall>r \<in> set (datasets ?s1). res_name r = nm \<longrightarrow> res_group r = res_arn dg"
    using grp by (auto simp: new_resource_def)
  have gd1: "get_dataset_group cfg t ?s1 =
    (Inr [(''dataset_group_arn'', res_arn dg), (''name'', res_name dg), (''status'', res_status dg)], ?s1)"
    using get_dataset_group_found[of ?s1 cfg t dg] nf1 lendg1 dg1 by (simp add: dgn_def)
  have g: "get_dataset cfg dt t ?s1 =
    (Inr [(''dataset_arn'', res_arn ?new), (''name'', res_name ?new), (''type'', dt),
          (''status'', res_status ?new)], ?s1)"
    using get_dataset_found[of ?s1 cfg t dg dt ?new] nf1 lendg1 len1 dg1 f1 grp1
    by (simp add: dgn_def nm_def)
  have h1: "has_name nm (datasets ?s1)" by (simp add: has_name_append_new)
  have c2: "create_dataset cfg dt schema t ?s1 = get_dataset cfg dt t ?s1"
    using h1 nf1 gd1
    by (simp add: create_dataset_def client_create_dataset_def pz_call_no_fault
        already_exists_def nm_def Let_def dict_item_def)
  have e2: "r2 = (Inr [(''dataset_arn'', res_arn ?new), (''name'', res_name ?new), (''type'', dt),
                       (''status'', res_status ?new)], ?s1)"
    unfolding r2_def r1_def by (simp add: c1 c2 g)
  have e1: "fst r1 = Inr [(''dataset_arn'', arn_of ''dataset'' nm), (''name'', nm), (''type'', dt),
                          (''status'', ''CREATING'')]"
    unfolding r1_def by (simp add: c1)
  show ?thesis
    by (simp add: e1 e2 same_resource_def new_resource_def)
qed

lemma crowded_names: "r \<in> set (dataset_groups pz_crowded) \<Longrightarrow> res_name r \<noteq> ''retail-t1''"
  by (auto simp: pz_crowded_def pz_empty_def new_resource_def)

lemma find_None_names: "(\<And>r. r \<in> set rs \<Longrightarrow> res_name r \<noteq> nm) \<Longrightarrow> find (\<lambda>r. res_name r = nm) rs = None"
  by (simp add: find_None_iff)

lemma crowded_length: "length (dataset_groups pz_crowded) = 100"
  by (simp add: pz_crowded_def pz_empty_def)

lemma crowded_faults: "pz_faults pz_crowded = []"
  by (simp add: pz_crowded_def pz_empty_def)

lemma crowded_second_create:
  "fst (create_dataset_group cfg0 ''t1'' (snd (create_dataset_group cfg0 ''t1'' pz_crowded)))
     = Inl (Exception ''Dataset group not found for tenant t1'')"
proof -
  let ?nm = "''retail-t1''"
  let ?new = "new_resource ''dataset-group'' ?nm [] None"
  let ?s1 = "pz_crowded\<lparr>dataset_groups := dataset_groups pz_crowded @ [?new]\<rparr>"
  have none: "find (\<lambda>r. res_name r = ?nm) (dataset_groups pz_crowded) = None"
    using crowded_names by (rule find_None_names)
  then have fresh: "\<not> has_name ?nm (dataset_groups pz_crowded)"
    by (simp add: has_name_def)
  have c1: "create_dataset_group cfg0 ''t1'' pz_crowded =
     (Inr [(''dataset_group_arn'', arn_of ''dataset-group'' ?nm), (''name'', ?nm), (''status'', ''CREATING'')], ?s1)"
    using fresh crowded_faults
    by (simp add: create_dataset_group_def client_create_dataset_group_def pz_call_no_fault cfg0_def Let_def)
  have h1: "has_name ?nm (dataset_groups ?s1)"
    using has_name_append_new[of ?nm "dataset_groups pz_crowded" "''dataset-group''" "[]" None] by simp
  have page: "take 100 (dataset_groups ?s1) = dataset_groups pz_crowded"
    by (simp add: crowded_length)
  have g: "get_dataset_group cfg0 ''t1'' ?s1 = (Inl (Exception ''Dataset group not found for tenant t1''), ?s1)"
    using none crowded_faults page
    by (simp add: get_dataset_group_def client_list_dataset_groups_def pz_call_no_fault cfg0_def Let_def)
  have c2: "create_dataset_group cfg0 ''t1'' ?s1 = get_dataset_group cfg0 ''t1'' ?s1"
    using h1 crowded_faults
    by (simp add: create_dataset_group_def client_create_dataset_group_def pz_call_no_fault
        already_exists_def cfg0_def Let_def)
  show ?thesis
    by (simp add: c1 c2 g)
qed

lemma throttled_second_create:
  "fst (create_dataset_group cfg0 ''t1'' (snd (create_dataset_group cfg0 ''t1'' pz_throttled)))
     = Inl (Exception ''Dataset group retrieval failed: Rate exceeded'')"
  by (simp add: create_dataset_group_def client_create_dataset_group_def get_dataset_group_def
      client_list_dataset_groups_def pz_call_def cfg0_def pz_throttled_def pz_empty_def has_name_def
      already_exists_def new_resource_def Let_def)

lemma create_dataset_group_fallback:
  "client_create_dataset_group (personalize_dataset_group_name cfg @ ''-'' @ t) s = (Inl e, s') \<Longrightarrow>
   err_code e = ''ResourceAlreadyExistsException'' \<Longrightarrow>
   create_dataset_group cfg t s = get_dataset_group cfg t s'"
  by (simp add: create_dataset_group_def Let_def)

lemma create_campaign_fallback:
  "client_create_campaign (personalize_campaign_name cfg @ ''-'' @ t) sv s = (Inl e, s') \<Longrightarrow>
   err_code e = ''ResourceAlreadyExistsException'' \<Longrightarrow>
   create_campaign cfg sv t s = get_campaign cfg t s'"
  by (simp add: create_campaign_def Let_def)

lemma create_solution_fallback:
  "get_dataset_group cfg t s = (Inr info, s1) \<Longrightarrow>
   client_create_solution (personalize_solution_name cfg @ ''-'' @ t)
      (dict_item info ''dataset_group_arn'') recipe s1 = (Inl e, s2) \<Longrightarrow>
   err_code e = ''ResourceAlreadyExistsException'' \<Longrightarrow>
   create_solution cfg recipe t s = get_solution cfg t s2"
  by (simp add: create_solution_def Let_def)

lemma create_dataset_fallback:
  "get_dataset_group cfg t s = (Inr info, s1) \<Longrightarrow>
   client_create_dataset (lower dt @ ''-'' @ t) (dict_item info ''dataset_group_arn'') s1 = (Inl e, s2) \<Longrightarrow>
   err_code e = ''ResourceAlreadyExistsException'' \<Longrightarrow>
   create_dataset cfg dt schema t s = get_dataset cfg dt t s2"
  by (simp add: create_dataset_def Let_def)

text \<open>
  C5, as the code has it.  In each of the four create operations an \<open>already exists\<close> answer
  of the service is replaced by the lookup by derived name, whose result (the listed state of
  the resource, or the lookup's own exception) is returned.  The lookup is one list call of at
  most 100 results.  So when no call of the service fails and the listing holds fewer than 100
  resources (for a dataset and a solution also: the tenant's dataset group is listed, and a
  listed resource of the derived name belongs to it), creating the same resource twice gives
  two results with the same derived name and the same ARN, and the second call raises nothing.
\<close>

theorem create_or_get:
  fixes cfg :: settings and t :: string and s :: personalize
    and sv :: string and recipe :: string and dt :: string and schema :: string
  defines "dgn \<equiv> personalize_dataset_group_name cfg @ ''-'' @ t"
  defines "cn \<equiv> personalize_campaign_name cfg @ ''-'' @ t"
  defines "sn \<equiv> personalize_solution_name cfg @ ''-'' @ t"
  defines "dn \<equiv> lower dt @ ''-'' @ t"
  shows
    "(\<forall>e s'. client_create_dataset_group dgn s = (Inl e, s')
          \<and> err_code e = ''ResourceAlreadyExistsException''
        \<longrightarrow> create_dataset_group cfg t s = get_dataset_group cfg t s')
   \<and> (\<forall>e s'. client_create_campaign cn sv s = (Inl e, s')
          \<and> err_code e = ''ResourceAlreadyExistsException''
        \<longrightarrow> create_campaign cfg sv t s = get_campaign cfg t s')
   \<and> (\<forall>info s1 e s2. get_dataset_group cfg t s = (Inr info, s1)
          \<and> client_create_solution sn (dict_item info ''dataset_group_arn'') recipe s1 = (Inl e, s2)
          \<and> err_code e = ''ResourceAlreadyExistsException''
        \<longrightarrow> create_solution cfg recipe t s = get_solution cfg t s2)
   \<and> (\<forall>info s1 e s2. get_dataset_group cfg t s = (Inr info, s1)
          \<and> client_create_dataset dn (dict_item info ''dataset_group_arn'') s1 = (Inl e, s2)
          \<and> err_code e = ''ResourceAlreadyExistsException''
        \<longrightarrow> create_dataset cfg dt schema t s = get_dataset cfg dt t s2)
   \<and> (pz_faults s = [] \<and> length (dataset_groups s) < 100
        \<longrightarrow> same_resource (fst (create_dataset_group cfg t s))
              (fst (create_dataset_group cfg t (snd (create_dataset_group cfg t s))))
              ''dataset_group_arn'' dgn)
   \<and> (pz_faults s = [] \<and> length (campaigns s) < 100
        \<longrightarrow> same_resource (fst (create_campaign cfg sv t s))
              (fst (create_campaign cfg sv t (snd (create_campaign cfg sv t s))))
              ''campaign_arn'' cn)
   \<and> (\<forall>dg. pz_faults s = [] \<and> length (dataset_groups s) \<le> 100 \<and> length (solutions s) < 100
          \<and> find (\<lambda>r. res_name r = dgn) (dataset_groups s) = Some dg
          \<and> (\<forall>r \<in> set (solutions s). res_name r = sn \<longrightarrow> res_group r = res_arn dg)
        \<longrightarrow> same_resource (fst (create_solution cfg recipe t s))
              (fst (create_solution cfg recipe t (snd (create_solution cfg recipe t s))))
              ''solution_arn'' sn)
   \<and> (\<forall>dg. pz_faults s = [] \<and> length (dataset_groups s) \<le> 100 \<and> length (datasets s) < 100
          \<and> find (\<lambda>r. res_name r = dgn) (dataset_groups s) = Some dg
          \<and> (\<forall>r \<in> set (datasets s). res_name r = dn \<longrightarrow> res_group r = res_arn dg)
        \<longrightarrow> same_resource (fst (create_dataset cfg dt schema t s))
              (fst (create_dataset cfg dt schema t (snd (create_dataset cfg dt schema t s))))
              ''dataset_arn'' dn)"
  unfolding dgn_def cn_def sn_def dn_def
  apply (intro conjI)
  subgoal using create_dataset_group_fallback[of cfg t s] by blast
  subgoal using create_campaign_fallback[of cfg t sv s] by blast
  subgoal using create_solution_fallback[of cfg t s] by blast
  subgoal using create_dataset_fallback[of cfg t s] by blast
  subgoal using create_dataset_group_twice[of s cfg t] by blast
  subgoal using create_campaign_twice[of s cfg sv t] by blast
  subgoal using create_solution_twice[of s cfg t _ recipe] by blast
  subgoal using create_dataset_twice[of s cfg t _ dt schema] by blast
  done

text \<open>
  The claim as stated (never raising on the second call, for every state of the service) fails:
  with a hundred other dataset groups listed first, or with the lookup's list call throttled,
  the second create receives \<open>already exists\<close>, falls back to the lookup, and raises.
\<close>

theorem create_or_get_counterexample:
  "fst (create_dataset_group cfg0 ''t1'' (snd (create_dataset_group cfg0 ''t1'' pz_crowded)))
     = Inl (Exception ''Dataset group not found for tenant t1'')
   \<and> fst (create_dataset_group cfg0 ''t1'' (snd (create_dataset_group cfg0 ''t1'' pz_throttled)))
     = Inl (Exception ''Dataset group retrieval failed: Rate exceeded'')"
  using crowded_second_create throttled_second_create by simp

theorem create_or_get_witness:
  "pz_faults pz_mixed = [] \<and> length (dataset_groups pz_mixed) < 100 \<and> length (campaigns pz_mixed) < 100
   \<and> same_resource (fst (create_dataset_group cfg0 ''t1'' pz_mixed))
        (fst (create_dataset_group cfg0 ''t1'' (snd (create_dataset_group cfg0 ''t1'' pz_mixed))))
        ''dataset_group_arn'' ''retail-t1''
   \<and> same_resource (fst (create_campaign cfg0 ''arn:sv'' ''t1'' pz_mixed))
        (fst (create_campaign cfg0 ''arn:sv'' ''t1'' (snd (create_campaign cfg0 ''arn:sv'' ''t1'' pz_mixed))))
        ''campaign_arn'' ''retail-campaign-t1''
   \<and> fst (create_dataset_group cfg0 ''t1'' pz_mixed)
       = Inr [(''dataset_group_arn'', ''arn:dg''), (''name'', ''retail-t1''), (''status'', ''ACTIVE'')]
   \<and> fst (create_dataset_group cfg0 ''t2'' pz_mixed)
       = Inr [(''dataset_group_arn'', ''arn:aws:personalize:::dataset-group/retail-t2''),
              (''name'', ''retail-t2''), (''status'', ''CREATING'')]"
  using create_or_get[of cfg0 "''t1''" pz_mixed "''arn:sv''"]
  by (simp add: pz_mixed_def cfg0_def create_dataset_group_def client_create_dataset_group_def
      get_dataset_group_def client_list_dataset_groups_def pz_call_def has_name_def
      already_exists_def new_resource_def arn_of_def Let_def)

theorem get_training_status_precedence_witness:
  "components (fst (get_training_status cfg0 ''t1'' pz_mixed))
     = [(''dataset_group'', ''ACTIVE''), (''solution'', ''CREATE_FAILED''), (''campaign'', ''CREATING'')]
   \<and> fst (get_campaign cfg0 ''t1'' (snd (get_solution cfg0 ''t1'' (snd (get_dataset_group cfg0 ''t1'' pz_mixed)))))
     = Inr [(''campaign_arn'', ''arn:c''), (''name'', ''retail-campaign-t1''), (''status'', ''CREATING''),
            (''solution_version_arn'', [])]
   \<and> overall_status (fst (get_training_status cfg0 ''t1'' pz_mixed)) = ''TRAINING''
   \<and> fst (get_dataset_group cfg0 ''t1'' pz_empty) = Inl (Exception ''Dataset group not found for tenant t1'')
   \<and> components (fst (get_training_status cfg0 ''t1'' pz_empty))
     = [(''dataset_group'', ''NOT_FOUND''), (''solution'', ''NOT_FOUND''), (''campaign'', ''NOT_FOUND'')]
   \<and> overall_status (fst (get_training_status cfg0 ''t1'' pz_empty)) = ''INCOMPLETE''"
  using get_training_status_precedence[of cfg0 "''t1''" pz_mixed]
  by (simp add: get_training_status_def get_dataset_group_def get_solution_def get_campaign_def
    client_list_dataset_groups_def client_list_solutions_def client_list_campaigns_def pz_call_def
    cfg0_def pz_mixed_def pz_empty_def component_status_def dict_item_def determine_overall_def Let_def)

section \<open>Properties of the key-value adapter\<close>

subsection \<open>Numeric normalisation\<close>

lemma convert_floats_to_decimal_no_floats:
  "floats (convert_floats_to_decimal dec v) = {}"
  by (induction v) auto

lemma convert_round_trip_aux:
  "\<forall>x \<in> floats v. flt (dec x) = x \<Longrightarrow> decimals v = {} \<Longrightarrow>
   convert_decimals_to_float flt (convert_floats_to_decimal dec v) = v"
proof (induction v)
  case (PDict kvs)
  have "map (map_prod id (convert_decimals_to_float flt) \<circ> map_prod id (convert_floats_to_decimal dec)) kvs
        = map id kvs"
  proof (rule map_cong[OF refl])
    fix kv assume kv: "kv \<in> set kvs"
    obtain k w where [simp]: "kv = (k, w)" by (cases kv)
    have "convert_decimals_to_float flt (convert_floats_to_decimal dec w) = w"
      using PDict.IH[of kv w] PDict.prems kv by fastforce
    then show "(map_prod id (convert_decimals_to_float flt) \<circ> map_prod id (convert_floats_to_decimal dec)) kv = id kv"
      by simp
  qed
  then show ?case by simp
next
  case (PList vs)
  have "map (convert_decimals_to_float flt \<circ> convert_floats_to_decimal dec) vs = map id vs"
  proof (rule map_cong[OF refl])
    fix w assume w: "w \<in> set vs"
    show "(convert_decimals_to_float flt \<circ> convert_floats_to_decimal dec) w = id w"
      using PList.IH[of w] PList.prems w by fastforce
  qed
  then show ?case by simp
qed simp_all

text \<open>Powers, exponents and rounding.\<close>

lemma pow2_powi: "pow2 e = 2 powi e"
  by (simp add: pow2_def power_int_def inverse_eq_divide power_one_over)

lemma pow10_powi: "pow10 e = 10 powi e"
  by (simp add: pow10_def power_int_def inverse_eq_divide power_one_over)

lemma pow2_pos: "0 < pow2 e"
  by (simp add: pow2_powi)

lemma pow10_pos: "0 < pow10 e"
  by (simp add: pow10_powi)

lemma pow2_add: "pow2 (a + b) = pow2 a * pow2 b"
  by (simp add: pow2_powi power_int_add)

lemma pow2_diff: "pow2 (a - b) = pow2 a / pow2 b"
  by (simp add: pow2_powi power_int_diff)

lemma pow2_mono: "a \<le> b \<Longrightarrow> pow2 a \<le> pow2 b"
  by (simp add: pow2_powi power_int_increasing)

lemma pow2_strict_mono: "a < b \<Longrightarrow> pow2 a < pow2 b"
  by (simp add: pow2_powi power_int_strict_increasing)

lemma pow2_less_iff: "pow2 a < pow2 b \<longleftrightarrow> a < b"
  by (metis pow2_mono pow2_strict_mono not_less)

lemma pow2_le_iff: "pow2 a \<le> pow2 b \<longleftrightarrow> a \<le> b"
  by (metis pow2_mono pow2_strict_mono not_less)

lemma pow2_Suc: "pow2 (a + 1) = 2 * pow2 a"
  by (simp add: pow2_powi power_int_add_1)

lemma pow2_nat: "0 \<le> e \<Longrightarrow> pow2 e = 2 ^ nat e"
  by (simp add: pow2_def)

lemma of_int_bitlen_bounds:
  assumes "0 < a"
  shows "pow2 (bitlen a - 1) \<le> of_int a" and "of_int a < pow2 (bitlen a)"
proof -
  have b: "2 ^ nat (bitlen a - 1) \<le> a \<and> a < 2 ^ nat (bitlen a)"
    using bitlen_bounds[OF assms] .
  have ge1: "1 \<le> bitlen a"
    using assms bitlen_eq_zero_iff[of a] bitlen_nonneg[of a] by linarith
  have "(of_int (2 ^ nat (bitlen a - 1)) :: rat) \<le> of_int a"
    using b by (simp only: of_int_le_iff)
  then show "pow2 (bitlen a - 1) \<le> of_int a"
    using ge1 by (simp add: pow2_nat)
  have "(of_int a :: rat) < of_int (2 ^ nat (bitlen a))"
    using b by (simp only: of_int_less_iff)
  then show "of_int a < pow2 (bitlen a)"
    using ge1 by (simp add: pow2_nat)
qed

lemma ilog2_bounds:
  assumes "0 < q"
  shows "pow2 (ilog2 q) \<le> q" and "q < pow2 (ilog2 q + 1)"
proof -
  obtain a b where ab: "quotient_of q = (a, b)" by (cases "quotient_of q")
  have bpos: "0 < b" using quotient_of_denom_pos[OF ab] .
  have q: "q = of_int a / of_int b" using quotient_of_div[OF ab] .
  have apos: "0 < a"
    using assms bpos unfolding q by (simp add: zero_less_divide_iff)
  note A = of_int_bitlen_bounds[OF apos]
  note B = of_int_bitlen_bounds[OF bpos]
  have bq: "(0::rat) < of_int b" using bpos by simp
  have lo: "pow2 (bitlen a - bitlen b - 1) < q"
  proof -
    have "pow2 (bitlen a - bitlen b - 1) = pow2 (bitlen a - 1) / pow2 (bitlen b)"
      using pow2_diff[of "bitlen a - 1" "bitlen b"] by (simp add: algebra_simps)
    also have "\<dots> \<le> of_int a / pow2 (bitlen b)"
      using A(1) pow2_pos[of "bitlen b"] by (simp add: divide_right_mono)
    also have "\<dots> < of_int a / of_int b"
      using B(2) bq apos by (simp add: divide_strict_left_mono)
    finally show ?thesis by (simp add: q)
  qed
  have hi: "q < pow2 (bitlen a - bitlen b + 1)"
  proof -
    have "q = of_int a / of_int b" by (rule q)
    also have "\<dots> < pow2 (bitlen a) / of_int b"
      using A(2) bq by (simp add: divide_strict_right_mono)
    also have "\<dots> \<le> pow2 (bitlen a) / pow2 (bitlen b - 1)"
      using B(1) pow2_pos[of "bitlen b - 1"] pow2_pos[of "bitlen a"]
      by (simp add: divide_left_mono)
    also have "\<dots> = pow2 (bitlen a - bitlen b + 1)"
      using pow2_diff[of "bitlen a" "bitlen b - 1"] by (simp add: algebra_simps)
    finally show ?thesis .
  qed
  show "pow2 (ilog2 q) \<le> q"
    using lo by (auto simp: ilog2_def ab Let_def)
  show "q < pow2 (ilog2 q + 1)"
    using hi by (auto simp: ilog2_def ab Let_def not_le)
qed

lemma ilog2_unique:
  assumes "0 < q" and "pow2 a \<le> q" and "q < pow2 (a + 1)"
  shows "ilog2 q = a"
proof -
  have "pow2 (ilog2 q) < pow2 (a + 1)"
    using ilog2_bounds(1)[OF assms(1)] assms(3) by linarith
  then have 1: "ilog2 q < a + 1" by (simp only: pow2_less_iff)
  have "pow2 a < pow2 (ilog2 q + 1)"
    using ilog2_bounds(2)[OF assms(1)] assms(2) by linarith
  then have 2: "a < ilog2 q + 1" by (simp only: pow2_less_iff)
  show ?thesis using 1 2 by linarith
qed

lemma ilog2_le: "0 < q \<Longrightarrow> q < pow2 (a + 1) \<Longrightarrow> ilog2 q \<le> a"
proof -
  assume q: "0 < q" and h: "q < pow2 (a + 1)"
  have "pow2 (ilog2 q) < pow2 (a + 1)"
    using ilog2_bounds(1)[OF q] h by linarith
  then show ?thesis by (simp add: pow2_less_iff)
qed

lemma ilog2_ge: "0 < q \<Longrightarrow> pow2 a \<le> q \<Longrightarrow> a \<le> ilog2 q"
proof -
  assume q: "0 < q" and h: "pow2 a \<le> q"
  have "pow2 a < pow2 (ilog2 q + 1)"
    using ilog2_bounds(2)[OF q] h by linarith
  then show ?thesis by (simp add: pow2_less_iff)
qed

lemma rhe_near: "\<bar>of_int (round_half_even y) - y\<bar> \<le> 1 / 2"
proof -
  have f: "of_int \<lfloor>y\<rfloor> \<le> y" "y < of_int \<lfloor>y\<rfloor> + 1"
    by linarith+
  show ?thesis
    unfolding round_half_even_def Let_def
    using f by (auto simp: abs_le_iff)
qed

lemma rhe_unique:
  assumes "\<bar>y - of_int m\<bar> < 1 / 2"
  shows "round_half_even y = m"
proof -
  have "\<bar>of_int (round_half_even y) - (of_int m :: rat)\<bar> < 1"
    using rhe_near[of y] assms by linarith
  then have "\<bar>(of_int (round_half_even y - m) :: rat)\<bar> < 1"
    by simp
  then have "\<bar>round_half_even y - m\<bar> < 1"
    by (metis of_int_abs of_int_less_1_iff)
  then show ?thesis by linarith
qed

lemma declen_nonpos: "a \<le> 0 \<Longrightarrow> declen a = 0"
  by (simp add: declen.simps)

lemma declen_pos: "0 < a \<Longrightarrow> declen a = declen (a div 10) + 1"
  by (subst declen.simps) simp

lemma declen_bounds:
  "0 < a \<Longrightarrow> 1 \<le> declen a \<and> 10 ^ nat (declen a - 1) \<le> a \<and> a < 10 ^ nat (declen a)"
proof (induction a rule: declen.induct)
  case (1 a)
  show ?case
  proof (cases "a < 10")
    case True
    then have "a div 10 = 0" using 1(2) by simp
    then have "declen a = 1" using 1(2) by (simp add: declen_pos declen_nonpos)
    then show ?thesis using True 1(2) by simp
  next
    case False
    then have d: "0 < a div 10" by simp
    note IH = 1(1)[OF 1(2) d]
    define n where "n = declen (a div 10)"
    have n1: "1 \<le> n" and lo: "10 ^ nat (n - 1) \<le> a div 10" and hi: "a div 10 < 10 ^ nat n"
      using IH by (simp_all add: n_def)
    have dl: "declen a = n + 1" using 1(2) by (simp add: declen_pos n_def)
    have pw: "(10::int) ^ nat n = 10 * 10 ^ nat (n - 1)"
      using n1 by (metis Suc_nat_eq_nat_zadd1 add.commute diff_add_cancel diff_ge_0_iff_ge power_Suc)
    have a1: "10 * (a div 10) \<le> a" by simp
    have a2: "a < 10 * (a div 10 + 1)" by (simp add: algebra_simps)
    have "10 ^ nat n \<le> a" using lo a1 pw by linarith
    moreover have "a < 10 ^ nat (n + 1)"
    proof -
      have "a div 10 + 1 \<le> 10 ^ nat n" using hi by simp
      then have "10 * (a div 10 + 1) \<le> 10 * 10 ^ nat n" by simp
      moreover have "(10::int) ^ nat (n + 1) = 10 * 10 ^ nat n"
        using n1 by (simp add: nat_add_distrib)
      ultimately show ?thesis using a2 by linarith
    qed
    ultimately show ?thesis using dl n1 by simp
  qed
qed

lemma pow10_nat: "0 \<le> e \<Longrightarrow> pow10 e = 10 ^ nat e"
  by (simp add: pow10_def)

lemma pow10_diff: "pow10 (a - b) = pow10 a / pow10 b"
  by (simp add: pow10_powi power_int_diff)

lemma pow10_add: "pow10 (a + b) = pow10 a * pow10 b"
  by (simp add: pow10_powi power_int_add)

lemma of_int_declen_bounds:
  assumes "0 < a"
  shows "pow10 (declen a - 1) \<le> of_int a" and "of_int a < pow10 (declen a)"
proof -
  note b = declen_bounds[OF assms]
  have "(of_int (10 ^ nat (declen a - 1)) :: rat) \<le> of_int a"
    using b by (simp only: of_int_le_iff)
  then show "pow10 (declen a - 1) \<le> of_int a"
    using b by (simp add: pow10_nat)
  have "(of_int a :: rat) < of_int (10 ^ nat (declen a))"
    using b by (simp only: of_int_less_iff)
  then show "of_int a < pow10 (declen a)"
    using b by (simp add: pow10_nat)
qed

lemma ilog10_bounds:
  assumes "0 < q"
  shows "pow10 (ilog10 q) \<le> q" and "q < pow10 (ilog10 q + 1)"
proof -
  obtain a b where ab: "quotient_of q = (a, b)" by (cases "quotient_of q")
  have bpos: "0 < b" using quotient_of_denom_pos[OF ab] .
  have q: "q = of_int a / of_int b" using quotient_of_div[OF ab] .
  have apos: "0 < a"
    using assms bpos unfolding q by (simp add: zero_less_divide_iff)
  note A = of_int_declen_bounds[OF apos]
  note B = of_int_declen_bounds[OF bpos]
  have bq: "(0::rat) < of_int b" using bpos by simp
  have lo: "pow10 (declen a - declen b - 1) < q"
  proof -
    have "pow10 (declen a - declen b - 1) = pow10 (declen a - 1) / pow10 (declen b)"
      using pow10_diff[of "declen a - 1" "declen b"] by (simp add: algebra_simps)
    also have "\<dots> \<le> of_int a / pow10 (declen b)"
      using A(1) pow10_pos[of "declen b"] by (simp add: divide_right_mono)
    also have "\<dots> < of_int a / of_int b"
      using B(2) bq apos by (simp add: divide_strict_left_mono)
    finally show ?thesis by (simp add: q)
  qed
  have hi: "q < pow10 (declen a - declen b + 1)"
  proof -
    have "q = of_int a / of_int b" by (rule q)
    also have "\<dots> < pow10 (declen a) / of_int b"
      using A(2) bq by (simp add: divide_strict_right_mono)
    also have "\<dots> \<le> pow10 (declen a) / pow10 (declen b - 1)"
      using B(1) pow10_pos[of "declen b - 1"] pow10_pos[of "declen a"]
      by (simp add: divide_left_mono)
    also have "\<dots> = pow10 (declen a - declen b + 1)"
      using pow10_diff[of "declen a" "declen b - 1"] by (simp add: algebra_simps)
    finally show ?thesis .
  qed
  show "pow10 (ilog10 q) \<le> q"
    using lo by (auto simp: ilog10_def ab Let_def)
  show "q < pow10 (ilog10 q + 1)"
    using hi by (auto simp: ilog10_def ab Let_def not_le)
qed

lemma pow2_53: "pow2 (k - 53) = pow2 k / 9007199254740992"
  using pow2_diff[of k 53] by (simp add: pow2_def)

lemma pow2_54: "pow2 (k - 54) = pow2 k / 18014398509481984"
  using pow2_diff[of k 54] by (simp add: pow2_def)

lemma pow2_52: "pow2 (k - 52) = pow2 k / 4503599627370496"
  using pow2_diff[of k 52] by (simp add: pow2_def)

lemma pow2_pred: "pow2 (k - 1) = pow2 k / 2"
  using pow2_diff[of k 1] by (simp add: pow2_def)

lemma pow2_int_multiple:
  assumes "e \<le> k"
  shows "pow2 k = of_int (2 ^ nat (k - e)) * pow2 e"
proof -
  have "pow2 k = pow2 ((k - e) + e)" by simp
  also have "\<dots> = pow2 (k - e) * pow2 e" by (rule pow2_add)
  also have "pow2 (k - e) = of_int (2 ^ nat (k - e))"
    using assms by (simp add: pow2_nat)
  finally show ?thesis .
qed

text \<open>The core step: a rational close enough to a binary64 value rounds to it.\<close>

lemma round_b64_near:
  fixes q d :: rat and M :: int
  assumes q0: "q \<noteq> 0"
    and k1023: "ilog2 \<bar>q\<bar> \<le> 1023"
    and int: "of_int M = q / pow2 (max (ilog2 \<bar>q\<bar> - 52) (- 1074))"
    and near: "\<bar>d - q\<bar> * 20000000000000000 \<le> \<bar>q\<bar>"
  shows "round_b64 d = Binary64 q"
proof -
  define k where "k = ilog2 \<bar>q\<bar>"
  define e where "e = max (k - 52) (- 1074)"
  define K where "K = pow2 k"
  define E where "E = pow2 e"
  define \<delta> where "\<delta> = \<bar>d - q\<bar>"
  have aq: "0 < \<bar>q\<bar>" using q0 by simp
  have Kpos: "0 < K" and Epos: "0 < E" by (simp_all add: K_def E_def pow2_pos)
  have qlo: "K \<le> \<bar>q\<bar>" and qhi: "\<bar>q\<bar> < 2 * K"
    using ilog2_bounds[OF aq] by (simp_all add: K_def k_def pow2_Suc)
  have qM: "q = of_int M * E"
    using int Epos by (simp add: E_def e_def k_def field_simps)
  have aqM: "\<bar>q\<bar> = of_int \<bar>M\<bar> * E"
    using Epos by (simp add: qM abs_mult)
  have M0: "M \<noteq> 0" using q0 qM by auto
  have M1: "1 \<le> \<bar>M\<bar>" using M0 by linarith
  have "(1::rat) \<le> of_int \<bar>M\<bar>" using M1 by (metis of_int_1_le_iff)
  then have Eq: "E \<le> \<bar>q\<bar>"
    using Epos by (simp add: aqM)
  have "pow2 e < pow2 (k + 1)"
    using Eq qhi by (simp add: E_def K_def pow2_Suc)
  then have ek: "e \<le> k" by (simp add: pow2_less_iff)
  have ek52: "k - 52 \<le> e" by (simp add: e_def)
  have E52: "K / 4503599627370496 \<le> E"
    using pow2_mono[OF ek52] by (simp add: E_def K_def pow2_52)
  have dlt: "\<delta> < K / 9007199254740992"
  proof -
    have "\<delta> * 20000000000000000 \<le> \<bar>q\<bar>" using near by (simp add: \<delta>_def)
    then show ?thesis using qhi Kpos by linarith
  qed
  have dE: "\<delta> < E / 2"
    using dlt E52 by linarith
  have top: "\<bar>q\<bar> \<le> 2 * K - E"
  proof -
    define N :: int where "N = 2 ^ nat (k + 1 - e)"
    have KN: "2 * K = of_int N * E"
      using pow2_int_multiple[of e "k + 1"] ek by (simp add: N_def K_def E_def pow2_Suc)
    have "of_int \<bar>M\<bar> * E < of_int N * E"
      using qhi aqM KN by simp
    then have "(of_int \<bar>M\<bar> :: rat) < of_int N"
      using Epos by (simp add: mult_less_cancel_right)
    then have "\<bar>M\<bar> < N" by (simp only: of_int_less_iff)
    then have "\<bar>M\<bar> + 1 \<le> N" by simp
    then have "(of_int (\<bar>M\<bar> + 1) :: rat) \<le> of_int N" by (simp only: of_int_le_iff)
    then have "of_int (\<bar>M\<bar> + 1) * E \<le> of_int N * E"
      using Epos by (simp add: mult_le_cancel_right)
    then show ?thesis
      using aqM KN by (simp add: algebra_simps)
  qed
  have dq: "\<bar>d\<bar> \<le> \<bar>q\<bar> + \<delta>" "\<bar>q\<bar> - \<delta> \<le> \<bar>d\<bar>"
    unfolding \<delta>_def by linarith+
  have dhi: "\<bar>d\<bar> < 2 * K" using dq(1) top dE Epos by linarith
  have dlo: "K / 2 \<le> \<bar>d\<bar>" using dq(2) qlo dlt Kpos by linarith
  have ad: "0 < \<bar>d\<bar>" using dlo Kpos by linarith
  then have d0: "d \<noteq> 0" by simp
  define k' where "k' = ilog2 \<bar>d\<bar>"
  define e' where "e' = max (k' - 52) (- 1074)"
  have k'le: "k' \<le> k"
    using ilog2_le[OF ad, of k] dhi by (simp add: k'_def K_def pow2_Suc)
  have k'ge: "k - 1 \<le> k'"
    using ilog2_ge[OF ad, of "k - 1"] dlo by (simp add: k'_def K_def pow2_pred)
  have e'le: "e' \<le> e" using k'le by (simp add: e'_def e_def)
  have e'ge: "e - 1 \<le> e'" using k'ge by (simp add: e'_def e_def)
  have dE': "\<delta> < pow2 e' / 2"
  proof (cases "e' = e")
    case True
    then show ?thesis using dE by (simp add: E_def)
  next
    case False
    then have e'1: "e' = e - 1" using e'le e'ge by linarith
    then have k'1: "k' = k - 1" and enorm: "e = k - 52"
      using k'le k'ge by (auto simp: e'_def e_def max_def split: if_splits)
    have "\<bar>d\<bar> < pow2 (k' + 1)"
      using ilog2_bounds(2)[OF ad] by (simp add: k'_def)
    then have dK: "\<bar>d\<bar> < K" by (simp add: k'1 K_def)
    have EK: "E = K / 4503599627370496"
      by (simp add: E_def K_def enorm pow2_52)
    have KM: "K = of_int (2 ^ 52) * E"
      by (simp add: EK)
    have "of_int (2 ^ 52) * E \<le> of_int \<bar>M\<bar> * E"
      using qlo aqM KM by simp
    then have "(of_int (2 ^ 52) :: rat) \<le> of_int \<bar>M\<bar>"
      using Epos by (simp add: mult_le_cancel_right)
    then have Mge: "2 ^ 52 \<le> \<bar>M\<bar>" by (simp only: of_int_le_iff)
    have "\<bar>M\<bar> = 2 ^ 52"
    proof (rule ccontr)
      assume "\<bar>M\<bar> \<noteq> 2 ^ 52"
      then have "2 ^ 52 + 1 \<le> \<bar>M\<bar>" using Mge by linarith
      then have "(of_int (2 ^ 52 + 1) :: rat) \<le> of_int \<bar>M\<bar>" by (simp only: of_int_le_iff)
      then have "of_int (2 ^ 52 + 1) * E \<le> of_int \<bar>M\<bar> * E"
        using Epos by (simp add: mult_le_cancel_right)
      then have "K + E \<le> \<bar>q\<bar>"
        using aqM KM by (simp add: algebra_simps)
      then show False using dq(2) dE dK Epos by linarith
    qed
    then have "\<bar>q\<bar> = K" using aqM KM by simp
    then have "\<delta> * 20000000000000000 \<le> K" using near by (simp add: \<delta>_def)
    then have "\<delta> < K / 18014398509481984" using Kpos by linarith
    moreover have "pow2 e' = K / 9007199254740992"
      by (simp add: e'1 enorm K_def pow2_53)
    ultimately show ?thesis by simp
  qed
  define M' where "M' = M * 2 ^ nat (e - e')"
  have E'pos: "0 < pow2 e'" by (rule pow2_pos)
  have qM': "q = of_int M' * pow2 e'"
    using pow2_int_multiple[OF e'le] by (simp add: M'_def qM E_def)
  have "d / pow2 e' - of_int M' = (d - q) / pow2 e'"
    using E'pos by (simp add: qM' field_simps)
  then have "\<bar>d / pow2 e' - of_int M'\<bar> = \<bar>d - q\<bar> / pow2 e'"
    using E'pos by (simp only: abs_divide abs_of_pos)
  also have "\<dots> < 1 / 2"
    using dE' E'pos by (simp add: \<delta>_def field_simps)
  finally have "round_half_even (d / pow2 e') = M'"
    by (rule rhe_unique)
  then have r: "of_int (round_half_even (d / pow2 e')) * pow2 e' = q"
    by (simp add: qM')
  have rne: "round_half_even (d / pow2 e') \<noteq> 0" using r q0 by auto
  have pne: "pow2 e' \<noteq> 0" using E'pos by simp
  show ?thesis
    using d0 q0 k1023 r rne pne
    by (simp add: round_b64_def Let_def k'_def[symmetric] e'_def[symmetric])
qed

lemma pow10_16: "pow10 (k - 16) = pow10 k / 10000000000000000"
  using pow10_diff[of k 16] by (simp add: pow10_def)

lemma nearest17_close:
  assumes "q \<noteq> 0"
  shows "\<bar>hd (candidates 17 q) - q\<bar> * 20000000000000000 \<le> \<bar>q\<bar>"
proof -
  define s where "s = pow10 (ilog10 \<bar>q\<bar> - 16)"
  define n where "n = round_half_even (q / s)"
  have aq: "0 < \<bar>q\<bar>" using assms by simp
  have spos: "0 < s" by (simp add: s_def pow10_pos)
  have hd: "hd (candidates 17 q) = of_int n * s"
    by (simp add: candidates_def Let_def s_def n_def)
  have "of_int n * s - q = (of_int n - q / s) * s"
    using spos by (simp add: field_simps)
  then have "\<bar>of_int n * s - q\<bar> = \<bar>of_int n - q / s\<bar> * s"
    using spos by (simp only: abs_mult abs_of_pos)
  also have "\<dots> \<le> 1 / 2 * s"
    using rhe_near[of "q / s"] spos by (simp only: n_def mult_le_cancel_right) auto
  finally have near: "\<bar>of_int n * s - q\<bar> \<le> s / 2" by simp
  have "s * 10000000000000000 = pow10 (ilog10 \<bar>q\<bar>)"
    by (simp add: s_def pow10_16)
  then have "s * 10000000000000000 \<le> \<bar>q\<bar>"
    using ilog10_bounds(1)[OF aq] by simp
  moreover define D where "D = \<bar>of_int n * s - q\<bar>"
  ultimately have "D * 20000000000000000 \<le> \<bar>q\<bar>"
    using near by simp
  then show ?thesis
    by (simp add: hd D_def)
qed

lemma find_SomeD: "find P xs = Some x \<Longrightarrow> P x"
  by (auto simp: find_Some_iff)

lemma shortest_from_cases:
  "round_b64 (shortest_from n p q) = Binary64 q \<or> shortest_from n p q = hd (candidates (p + n) q)"
proof (induction n arbitrary: p)
  case 0
  then show ?case by simp
next
  case (Suc n)
  show ?case
  proof (cases "find (\<lambda>d. round_b64 d = Binary64 q) (candidates p q)")
    case None
    then show ?thesis using Suc[of "Suc p"] by simp
  next
    case (Some d)
    then show ?thesis using find_SomeD[OF Some] by simp
  qed
qed

lemma round_b64_shortest:
  assumes "is_binary64 (Binary64 q)" and "q \<noteq> 0"
  shows "round_b64 (shortest_decimal q) = Binary64 q"
proof -
  have k: "ilog2 \<bar>q\<bar> \<le> 1023"
    and m: "of_int \<lfloor>q / pow2 (max (ilog2 \<bar>q\<bar> - 52) (- 1074))\<rfloor>
              = q / pow2 (max (ilog2 \<bar>q\<bar> - 52) (- 1074))"
    using assms by (simp_all add: is_binary64_def Let_def)
  have "round_b64 (hd (candidates 17 q)) = Binary64 q"
    using round_b64_near[OF assms(2) k m nearest17_close[OF assms(2)]] .
  then show ?thesis
    using shortest_from_cases[of 16 1 q] by (auto simp: shortest_decimal_def)
qed

lemma round_b64_zero: "round_b64 0 = Binary64 0"
  by (simp add: round_b64_def)

lemma float_round_trip:
  assumes "is_binary64 x"
  shows "float_of_decimal (decimal_of_float x) = x"
proof (cases x)
  case (Binary64 q)
  show ?thesis
  proof (cases "q = 0")
    case True
    then show ?thesis by (simp add: Binary64 decimal_of_float_def float_of_decimal_def round_b64_zero)
  next
    case False
    then show ?thesis
      using round_b64_shortest[of q] assms
      by (simp add: Binary64 decimal_of_float_def float_of_decimal_def)
  qed
qed (simp_all add: decimal_of_float_def float_of_decimal_def)

lemma py_eq_refl:
  assumes "NaN \<notin> floats v" and "decimals v = {}"
  shows "py_eq v v"
  unfolding py_eq_def
proof (rule pyval.rel_refl_strong)
  fix z assume "z \<in> floats v"
  then show "float_eq z z" using assms(1) by (auto simp: float_eq_def)
next
  fix z assume "z \<in> decimals v"
  then show "decimal_eq z z" using assms(2) by simp
qed

text \<open>
  C4, as the runtime has it.  For every value built from floats other than NaN, strings,
  integers (and booleans and \<open>None\<close>), nested dictionaries and nested lists, that is: every
  value without a \<open>Decimal\<close> in it, converting with \<open>_convert_floats_to_decimal\<close> and back
  with \<open>_convert_decimals_to_float\<close> returns the value itself, at every depth, so a value
  equal to the original under \<open>==\<close>; and after the first conversion no float is left at
  any depth.  The leaves come back because \<open>float(Decimal(str(x)))\<close> is \<open>x\<close> for every
  binary64 value \<open>x\<close>: the text of \<open>x\<close> either reads back as \<open>x\<close> by the search that
  found it, or is the nearest decimal of 17 significant digits, which lies within half the
  spacing of binary64 at \<open>x\<close>.
\<close>

theorem convert_round_trip:
  fixes v :: "(pyfloat, decimal) pyval"
  assumes "\<forall>x \<in> floats v. is_binary64 x \<and> x \<noteq> NaN" and "decimals v = {}"
  shows "convert_decimals_to_float float_of_decimal (convert_floats_to_decimal decimal_of_float v) = v
       \<and> py_eq (convert_decimals_to_float float_of_decimal
                  (convert_floats_to_decimal decimal_of_float v)) v
       \<and> floats (convert_floats_to_decimal decimal_of_float v) = {}"
proof -
  have leaves: "\<forall>x \<in> floats v. float_of_decimal (decimal_of_float x) = x"
    using assms(1) float_round_trip by blast
  have rt: "convert_decimals_to_float float_of_decimal (convert_floats_to_decimal decimal_of_float v) = v"
    using convert_round_trip_aux[OF leaves assms(2)] .
  have "NaN \<notin> floats v" using assms(1) by blast
  then have "py_eq v v" using assms(2) by (rule py_eq_refl)
  then show ?thesis
    using rt convert_floats_to_decimal_no_floats[of decimal_of_float v] by simp
qed

text \<open>
  The claim as stated takes in every float.  NaN comes back as NaN, and NaN is not equal to
  itself: a list that holds it is not equal to its round trip.
\<close>

theorem convert_round_trip_counterexample:
  "convert_decimals_to_float float_of_decimal (convert_floats_to_decimal decimal_of_float (PFloat NaN))
     = PFloat NaN
   \<and> \<not> py_eq (convert_decimals_to_float float_of_decimal
                 (convert_floats_to_decimal decimal_of_float (PList [PFloat NaN])))
              (PList [PFloat NaN])
   \<and> is_binary64 NaN"
  by (simp add: decimal_of_float_def float_of_decimal_def py_eq_def float_eq_def is_binary64_def)

lemma tenth_is_binary64: "is_binary64 (Binary64 (3602879701896397 / 36028797018963968))"
  by code_simp

lemma tenth_decimal:
  "decimal_of_float (Binary64 (3602879701896397 / 36028797018963968)) = Decimal (1 / 10)"
  by code_simp

lemma tenth_float:
  "float_of_decimal (Decimal (1 / 10)) = Binary64 (3602879701896397 / 36028797018963968)"
  by code_simp

lemma three_quarters_decimal: "decimal_of_float (Binary64 (3 / 4)) = Decimal (3 / 4)"
  by code_simp

lemma three_quarters_is_binary64: "is_binary64 (Binary64 (3 / 4))"
  by code_simp

lemma minus_five_halves_decimal: "decimal_of_float (Binary64 (- 5 / 2)) = Decimal (- 5 / 2)"
  by code_simp

lemma minus_five_halves_is_binary64: "is_binary64 (Binary64 (- 5 / 2))"
  by code_simp

theorem convert_round_trip_witness:
  "is_binary64 (Binary64 (3602879701896397 / 36028797018963968)) \<and> is_binary64 (Binary64 (3 / 4))
   \<and> is_binary64 (Binary64 (- 5 / 2)) \<and> is_binary64 PosInf \<and> decimals recs1 = {}
   \<and> convert_floats_to_decimal decimal_of_float recs1
      = PList [PDict [(''item_id'', PStr ''A''), (''score'', PDecimal (Decimal (1 / 10)))],
               PDict [(''item_id'', PStr ''B''), (''score'', PDecimal (Decimal (3 / 4))),
                      (''rank'', PInt 2),
                      (''tags'', PList [PStr ''new'', PDecimal (Decimal (- 5 / 2)),
                                        PDecimal DInfinity])]]
   \<and> float_of_decimal (Decimal (1 / 10)) = Binary64 (3602879701896397 / 36028797018963968)
   \<and> convert_decimals_to_float float_of_decimal (convert_floats_to_decimal decimal_of_float recs1)
      = recs1
   \<and> py_eq (convert_decimals_to_float float_of_decimal
               (convert_floats_to_decimal decimal_of_float recs1)) recs1"
proof -
  have inf: "is_binary64 PosInf" by (simp add: is_binary64_def)
  have leaves: "\<forall>x \<in> floats recs1. is_binary64 x \<and> x \<noteq> NaN"
    using tenth_is_binary64 three_quarters_is_binary64 minus_five_halves_is_binary64 inf
    by (simp add: recs1_def)
  have nodec: "decimals recs1 = {}"
    by (simp add: recs1_def)
  have fwd: "convert_floats_to_decimal decimal_of_float recs1
      = PList [PDict [(''item_id'', PStr ''A''), (''score'', PDecimal (Decimal (1 / 10)))],
               PDict [(''item_id'', PStr ''B''), (''score'', PDecimal (Decimal (3 / 4))),
                      (''rank'', PInt 2),
                      (''tags'', PList [PStr ''new'', PDecimal (Decimal (- 5 / 2)),
                                        PDecimal DInfinity])]]"
    using tenth_decimal three_quarters_decimal minus_five_halves_decimal
    by (simp add: recs1_def decimal_of_float_def)
  note rt = convert_round_trip[OF leaves nodec]
  have trip: "convert_decimals_to_float float_of_decimal
                (convert_floats_to_decimal decimal_of_float recs1) = recs1"
    using rt by blast
  have eq: "py_eq (convert_decimals_to_float float_of_decimal
                     (convert_floats_to_decimal decimal_of_float recs1)) recs1"
    using rt by blast
  show ?thesis
    using tenth_is_binary64 three_quarters_is_binary64 minus_five_halves_is_binary64 inf nodec
      fwd tenth_float trip eq
    by (intro conjI)
qed

lemma round53_half: "round53 (1 / 2) = 1 / 2" by code_simp
lemma round53_three_quarters: "round53 (3 / 4) = 3 / 4" by code_simp

subsection \<open>Reading the recommendation cache\<close>

lemma kv_call_no_fault: "kv_faults s = [] \<Longrightarrow> kv_call s = (None, s)"
  by (simp add: kv_call_def)

lemma kv_call_fault: "kv_faults s = Some e # fs \<Longrightarrow> kv_call s = (Some e, s\<lparr>kv_faults := fs\<rparr>)"
  by (simp add: kv_call_def)

lemma get_cached_absent:
  "kv_faults s = [] \<Longrightarrow> map_of (recommendations_table s) (t, u) = None \<Longrightarrow>
   get_cached_recommendations num clk t u s = (Inr None, s)"
  by (simp add: get_cached_recommendations_def rec_get_item_def kv_call_no_fault)

lemma get_cached_live:
  "kv_faults s = [] \<Longrightarrow> map_of (recommendations_table s) (t, u) = Some item \<Longrightarrow>
   py_int (posix clk) \<le> ttl_or_zero item \<Longrightarrow>
   get_cached_recommendations num clk t u s
     = (Inr (Some (map (convert_decimals_to_float (to_float num)) (rec_recommendations item))), s)"
  by (simp add: get_cached_recommendations_def rec_get_item_def kv_call_no_fault ttl_or_zero_def
      Let_def not_less[symmetric])

lemma get_cached_expired:
  "kv_faults s = [] \<Longrightarrow> map_of (recommendations_table s) (t, u) = Some item \<Longrightarrow>
   ttl_or_zero item < py_int (posix clk) \<Longrightarrow>
   get_cached_recommendations num clk t u s
     = (Inr None, s\<lparr>recommendations_table := AList.delete (t, u) (recommendations_table s)\<rparr>)"
  by (simp add: get_cached_recommendations_def rec_get_item_def rec_delete_item_def
      kv_call_no_fault ttl_or_zero_def Let_def)

text \<open>
  C1, as the code has it.  With no store call failing: a key that holds no row reads as
  absent; a row whose \<open>ttl\<close> (0 when the attribute is missing) is not below the current time
  in whole seconds is returned, its decimals converted back to floats, and the store is left
  as it was; a row whose \<open>ttl\<close> is below the current time is deleted and reads as absent,
  and so does every later read.  So items come back exactly when a row is present and
  \<open>ttl \<ge> int(now)\<close>.
\<close>

theorem get_cached_recommendations_cases:
  fixes num :: "('f, 'd) numeric" and s :: "('f, 'd) kv_store"
    and clk :: clock and t :: string and u :: string
  assumes nf: "kv_faults s = []"
  defines "row \<equiv> map_of (recommendations_table s) (t, u)"
  defines "r \<equiv> get_cached_recommendations num clk t u s"
  shows "(row = None \<longrightarrow> r = (Inr None, s))
       \<and> (\<forall>item. row = Some item \<and> py_int (posix clk) \<le> ttl_or_zero item
            \<longrightarrow> r = (Inr (Some (map (convert_decimals_to_float (to_float num))
                                   (rec_recommendations item))), s))
       \<and> (\<forall>item. row = Some item \<and> ttl_or_zero item < py_int (posix clk)
            \<longrightarrow> fst r = Inr None
                \<and> map_of (recommendations_table (snd r)) (t, u) = None
                \<and> (\<forall>clk'. fst (get_cached_recommendations num clk' t u (snd r)) = Inr None))
       \<and> (fst r \<noteq> Inr None
            \<longleftrightarrow> (\<exists>item. row = Some item \<and> py_int (posix clk) \<le> ttl_or_zero item))"
proof -
  have absent: "row = None \<longrightarrow> r = (Inr None, s)"
    unfolding row_def r_def using nf get_cached_absent by blast
  have live: "\<forall>item. row = Some item \<and> py_int (posix clk) \<le> ttl_or_zero item
            \<longrightarrow> r = (Inr (Some (map (convert_decimals_to_float (to_float num))
                                   (rec_recommendations item))), s)"
    unfolding row_def r_def using nf get_cached_live by blast
  have expired: "\<forall>item. row = Some item \<and> ttl_or_zero item < py_int (posix clk)
            \<longrightarrow> fst r = Inr None
                \<and> map_of (recommendations_table (snd r)) (t, u) = None
                \<and> (\<forall>clk'. fst (get_cached_recommendations num clk' t u (snd r)) = Inr None)"
  proof (intro allI impI)
    fix item assume a: "row = Some item \<and> ttl_or_zero item < py_int (posix clk)"
    let ?s' = "s\<lparr>recommendations_table := AList.delete (t, u) (recommendations_table s)\<rparr>"
    have e: "r = (Inr None, ?s')"
      unfolding r_def using nf a get_cached_expired[of s t u item clk num] by (simp add: row_def)
    have gone: "map_of (recommendations_table ?s') (t, u) = None"
      by (simp add: delete_conv)
    have nf': "kv_faults ?s' = []" using nf by simp
    have again: "\<forall>clk'. fst (get_cached_recommendations num clk' t u ?s') = Inr None"
      using get_cached_absent[OF nf' gone] by simp
    show "fst r = Inr None
                \<and> map_of (recommendations_table (snd r)) (t, u) = None
                \<and> (\<forall>clk'. fst (get_cached_recommendations num clk' t u (snd r)) = Inr None)"
      using gone again by (simp add: e)
  qed
  have iff: "fst r \<noteq> Inr None
            \<longleftrightarrow> (\<exists>item. row = Some item \<and> py_int (posix clk) \<le> ttl_or_zero item)"
  proof (cases row)
    case None
    then show ?thesis using absent by simp
  next
    case (Some item)
    show ?thesis
    proof (cases "py_int (posix clk) \<le> ttl_or_zero item")
      case True
      then show ?thesis using live Some by auto
    next
      case False
      then show ?thesis using expired Some by auto
    qed
  qed
  show ?thesis using absent live expired iff by blast
qed

lemma kv_cached_eq:
  "kv_cached = \<lparr>recommendations_table =
      [((''t1'', ''u1''),
        \<lparr>rec_recommendations =
           [PDict [(''item_id'', PStr ''A''), (''score'', PDecimal (3 / 4))],
            PDict [(''item_id'', PStr ''B''), (''score'', PDecimal (1 / 2)), (''rank'', PInt 2),
                   (''tags'', PList [PStr ''new'', PDecimal (1 / 2)])]],
         rec_cached_at = ''2023-11-14T22:13:20'', rec_ttl = Some 1700086400\<rparr>)],
      user_profiles_table = [], campaign_tracking_table = [], kv_faults = []\<rparr>"
  by (simp add: kv_cached_def cache_recommendations_def rec_put_item_def kv_call_def kv_empty_def
      clock_at_def num0_def recs0_def py_int_def Let_def)

text \<open>
  The claim as stated asks for \<open>ttl\<close> strictly greater than the current time.  A row
  cached for a day at 1700000000 has \<open>ttl = 1700086400\<close>; read at exactly that time, when
  \<open>ttl\<close> is not greater than the current time, it is still returned.
\<close>

theorem get_cached_recommendations_counterexample:
  "map_of (recommendations_table kv_cached) (''t1'', ''u1'')
     = Some \<lparr>rec_recommendations = map (convert_floats_to_decimal (to_decimal num0)) recs0,
             rec_cached_at = ''2023-11-14T22:13:20'', rec_ttl = Some 1700086400\<rparr>
   \<and> py_int (posix (clock_at 1700086400)) = 1700086400
   \<and> fst (get_cached_recommendations num0 (clock_at 1700086400) ''t1'' ''u1'' kv_cached)
       = Inr (Some recs0)"
  by (simp add: kv_cached_eq get_cached_recommendations_def rec_get_item_def kv_call_def
      clock_at_def num0_def recs0_def py_int_def Let_def round53_half round53_three_quarters)

theorem get_cached_recommendations_cases_witness:
  "kv_faults kv_cached = []
   \<and> fst (get_cached_recommendations num0 (clock_at 1700000060) ''t1'' ''u1'' kv_cached) = Inr (Some recs0)
   \<and> fst (get_cached_recommendations num0 (clock_at 1700090000) ''t1'' ''u1'' kv_cached) = Inr None
   \<and> recommendations_table
        (snd (get_cached_recommendations num0 (clock_at 1700090000) ''t1'' ''u1'' kv_cached)) = []
   \<and> fst (get_cached_recommendations num0 (clock_at 1700000060) ''t1'' ''u2'' kv_cached) = Inr None"
  using get_cached_recommendations_cases[where s = kv_cached and num = num0
      and clk = "clock_at 1700000060" and t = "''t1''" and u = "''u1''"]
  by (simp add: kv_cached_eq get_cached_recommendations_def rec_get_item_def rec_delete_item_def
      kv_call_def clock_at_def num0_def recs0_def py_int_def Let_def round53_half
      round53_three_quarters)

subsection \<open>Campaign metrics\<close>

lemma count_of_update: "count_of (AList.update k v d) k' = (if k' = k then v else count_of d k')"
  by (simp add: count_of_def update_conv')

lemma count_event_count:
  "count_of (acc_by_type (count_event item m)) ty
     = count_of (acc_by_type m) ty + (if ev_event_type item = ty then 1 else 0)"
  by (simp add: count_event_def Let_def count_of_update) (simp add: count_of_def)

lemma fold_count_event_count:
  "count_of (acc_by_type (fold count_event items m)) ty
     = count_of (acc_by_type m) ty + n_of_type ty items"
  by (induction items arbitrary: m) (simp_all add: count_event_count n_of_type_def)

lemma count_event_total: "acc_total (count_event item m) = acc_total m + 1"
  by (simp add: count_event_def Let_def)

lemma fold_count_event_total:
  "acc_total (fold count_event items m) = acc_total m + length items"
  by (induction items arbitrary: m) (simp_all add: count_event_total)

lemma count_event_users: "acc_users (count_event item m) = insert (ev_user_id item) (acc_users m)"
  by (simp add: count_event_def Let_def)

lemma fold_count_event_users:
  "acc_users (fold count_event items m) = acc_users m \<union> ev_user_id ` set items"
  by (induction items arbitrary: m) (auto simp: count_event_users)

lemma sum_update_zero:
  "map_of d k = None \<Longrightarrow> sum_list (map snd (AList.update k (0::nat) d)) = sum_list (map snd d)"
  by (induction d) (auto split: if_splits)

lemma sum_update_incr:
  "sum_list (map snd (AList.update k (count_of d k + 1) d)) = sum_list (map snd d) + 1"
  by (induction d) (auto simp: count_of_def)

lemma count_event_sum:
  "sum_list (map snd (acc_by_type (count_event item m))) = sum_list (map snd (acc_by_type m)) + 1"
proof (cases "map_of (acc_by_type m) (ev_event_type item)")
  case None
  let ?d = "AList.update (ev_event_type item) 0 (acc_by_type m)"
  have "acc_by_type (count_event item m)
          = AList.update (ev_event_type item) (count_of ?d (ev_event_type item) + 1) ?d"
    using None unfolding count_event_def Let_def by simp
  then have "sum_list (map snd (acc_by_type (count_event item m))) = sum_list (map snd ?d) + 1"
    by (simp only: sum_update_incr)
  then show ?thesis
    using None by (simp only: sum_update_zero)
next
  case (Some n)
  have "acc_by_type (count_event item m)
          = AList.update (ev_event_type item) (count_of (acc_by_type m) (ev_event_type item) + 1)
              (acc_by_type m)"
    using Some unfolding count_event_def Let_def by simp
  then show ?thesis
    by (simp only: sum_update_incr)
qed

lemma fold_count_event_sum:
  "sum_list (map snd (acc_by_type (fold count_event items m)))
     = sum_list (map snd (acc_by_type m)) + length items"
  by (induction items arbitrary: m) (simp_all add: count_event_sum)

lemma count_event_present:
  "map_of (acc_by_type (count_event item m)) ty
     = (if ev_event_type item = ty then Some (count_of (acc_by_type m) ty + 1)
        else map_of (acc_by_type m) ty)"
  by (simp add: count_event_def Let_def update_conv' count_of_def)

lemma count_event_inv:
  "(\<forall>ty. map_of (acc_by_type m) ty = (if count_of (acc_by_type m) ty = 0 then None
                                        else Some (count_of (acc_by_type m) ty))) \<Longrightarrow>
   (\<forall>ty. map_of (acc_by_type (count_event item m)) ty
           = (if count_of (acc_by_type (count_event item m)) ty = 0 then None
              else Some (count_of (acc_by_type (count_event item m)) ty)))"
  by (simp add: count_event_present count_event_count)

lemma fold_count_event_inv:
  "(\<forall>ty. map_of (acc_by_type m) ty = (if count_of (acc_by_type m) ty = 0 then None
                                        else Some (count_of (acc_by_type m) ty))) \<Longrightarrow>
   (\<forall>ty. map_of (acc_by_type (fold count_event items m)) ty
           = (if count_of (acc_by_type (fold count_event items m)) ty = 0 then None
              else Some (count_of (acc_by_type (fold count_event items m)) ty)))"
proof (induction items arbitrary: m)
  case Nil
  then show ?case by simp
next
  case (Cons item items)
  show ?case
    using Cons.IH[of "count_event item m"] count_event_inv[OF Cons.prems, of item] by simp
qed


lemma count_of_Nil: "count_of [] k = 0"
  by (simp add: count_of_def)

lemma percentage_pos:
  "0 < sent \<Longrightarrow> percentage n sent = Inr (py_fmul (round53 (of_nat n / of_nat sent)) 100)"
  by (simp add: percentage_def py_truediv_def)

lemma campaign_metrics_of_eq:
  fixes items :: "('f, 'd) event_item list"
  defines "sent \<equiv> n_of_type ''sent'' items"
  shows "campaign_metrics_of c items =
     Inr \<lparr>m_campaign_id = c,
          total_events = length items,
          unique_users = card (ev_user_id ` set items),
          events_by_type = acc_by_type (fold count_event items \<lparr>acc_total = 0, acc_users = {}, acc_by_type = []\<rparr>),
          conversion_rate = (if 0 < sent
             then py_fmul (round53 (of_nat (n_of_type ''converted'' items) / of_nat sent)) 100 else 0),
          click_through_rate = (if 0 < sent
             then py_fmul (round53 (of_nat (n_of_type ''clicked'' items) / of_nat sent)) 100 else 0)\<rparr>"
  unfolding campaign_metrics_of_def sent_def
  by (simp add: Let_def fold_count_event_count fold_count_event_total fold_count_event_users
      count_of_Nil percentage_pos)

lemma rate_3_of_10: "py_fmul (round53 (3 / 10)) 100 = 30" by code_simp
lemma rate_1_of_10: "py_fmul (round53 (1 / 10)) 100 = 10" by code_simp

text \<open>
  C3.  For every list of events that the query returns, \<open>get_campaign_metrics\<close> returns
  the metrics dictionary (no exception, in particular no division by zero): its
  \<open>events_by_type\<close> holds, for each event type that occurs, the number of events of that
  type and no other key; the click-through rate is the float \<open>(clicked / sent) * 100\<close> and
  the conversion rate the float \<open>(converted / sent) * 100\<close>, both \<open>0.0\<close> when no event is
  \<open>sent\<close>; and 10 sent, 3 clicked, 1 converted give exactly 30.0 and 10.0.
\<close>

theorem campaign_metrics_rates:
  fixes s :: "('f, 'd) kv_store" and items :: "('f, 'd) event_item list"
    and t :: string and c :: string and lo :: "string option" and hi :: "string option"
  assumes q: "ev_query_campaign t c lo hi s = (Inr items, s')"
  defines "sent \<equiv> n_of_type ''sent'' items"
  defines "clicked \<equiv> n_of_type ''clicked'' items"
  defines "converted \<equiv> n_of_type ''converted'' items"
  shows "\<exists>m. get_campaign_metrics t c lo hi s = (Inr (Metrics m), s')
          \<and> (\<forall>ty. count_of (events_by_type m) ty = n_of_type ty items)
          \<and> (\<forall>ty. map_of (events_by_type m) ty
                    = (if n_of_type ty items = 0 then None else Some (n_of_type ty items)))
          \<and> click_through_rate m
              = (if sent = 0 then 0 else py_fmul (round53 (of_nat clicked / of_nat sent)) 100)
          \<and> conversion_rate m
              = (if sent = 0 then 0 else py_fmul (round53 (of_nat converted / of_nat sent)) 100)
          \<and> (sent = 10 \<and> clicked = 3 \<and> converted = 1
                \<longrightarrow> click_through_rate m = 30 \<and> conversion_rate m = 10)"
proof -
  let ?acc = "fold count_event items \<lparr>acc_total = 0, acc_users = {}, acc_by_type = []\<rparr>"
  let ?m = "\<lparr>m_campaign_id = c,
          total_events = length items,
          unique_users = card (ev_user_id ` set items),
          events_by_type = acc_by_type ?acc,
          conversion_rate = (if 0 < sent
             then py_fmul (round53 (of_nat converted / of_nat sent)) 100 else 0),
          click_through_rate = (if 0 < sent
             then py_fmul (round53 (of_nat clicked / of_nat sent)) 100 else 0)\<rparr>"
  have m: "campaign_metrics_of c items = Inr ?m"
    unfolding sent_def clicked_def converted_def by (rule campaign_metrics_of_eq)
  have run: "get_campaign_metrics t c lo hi s = (Inr (Metrics ?m), s')"
    by (simp add: get_campaign_metrics_def q m)
  have counts: "\<forall>ty. count_of (events_by_type ?m) ty = n_of_type ty items"
    by (simp add: fold_count_event_count count_of_Nil)
  have inv0: "\<forall>ty. map_of (acc_by_type \<lparr>acc_total = 0, acc_users = {}, acc_by_type = []\<rparr>) ty
       = (if count_of (acc_by_type \<lparr>acc_total = 0, acc_users = {}, acc_by_type = []\<rparr>) ty = 0 then None
          else Some (count_of (acc_by_type \<lparr>acc_total = 0, acc_users = {}, acc_by_type = []\<rparr>) ty))"
    by (simp add: count_of_Nil)
  have keys: "\<forall>ty. map_of (events_by_type ?m) ty
                    = (if n_of_type ty items = 0 then None else Some (n_of_type ty items))"
    using fold_count_event_inv[OF inv0, of items] by (simp add: fold_count_event_count count_of_Nil)
  have ctr: "click_through_rate ?m
              = (if sent = 0 then 0 else py_fmul (round53 (of_nat clicked / of_nat sent)) 100)"
    by simp
  have cr: "conversion_rate ?m
              = (if sent = 0 then 0 else py_fmul (round53 (of_nat converted / of_nat sent)) 100)"
    by simp
  have ex: "sent = 10 \<and> clicked = 3 \<and> converted = 1
                \<longrightarrow> click_through_rate ?m = 30 \<and> conversion_rate ?m = 10"
    by (simp add: rate_3_of_10 rate_1_of_10)
  show ?thesis
    using run counts keys ctr cr ex by blast
qed

lemma kv_events_query:
  "ev_query_campaign ''t1'' ''c1'' None None kv_events = (Inr events0, kv_events)"
  unfolding events0_def
  by (simp add: ev_query_campaign_def kv_call_def kv_events_def kv_empty_def ev_row_def
      filter_map comp_def split_def)

lemma events0_counts:
  "n_of_type ''sent'' events0 = 10 \<and> n_of_type ''clicked'' events0 = 3
   \<and> n_of_type ''converted'' events0 = 1 \<and> n_of_type ''opened'' events0 = 0"
  by (simp add: n_of_type_def events0_def kv_events_def kv_empty_def ev_row_def comp_def filter_map)

lemma empty_metrics:
  "get_campaign_metrics ''t1'' ''c1'' None None kv_empty
     = (Inr (Metrics \<lparr>m_campaign_id = ''c1'', total_events = 0, unique_users = 0,
           events_by_type = [], conversion_rate = 0, click_through_rate = 0\<rparr>), kv_empty)"
  by (simp add: get_campaign_metrics_def ev_query_campaign_def kv_call_def kv_empty_def
      campaign_metrics_of_def count_of_def Let_def)

theorem campaign_metrics_rates_witness:
  "ev_query_campaign ''t1'' ''c1'' None None kv_events = (Inr events0, kv_events)
   \<and> n_of_type ''sent'' events0 = 10 \<and> n_of_type ''clicked'' events0 = 3
   \<and> n_of_type ''converted'' events0 = 1
   \<and> (\<exists>m. get_campaign_metrics ''t1'' ''c1'' None None kv_events = (Inr (Metrics m), kv_events)
          \<and> click_through_rate m = 30 \<and> conversion_rate m = 10
          \<and> count_of (events_by_type m) ''sent'' = 10 \<and> map_of (events_by_type m) ''opened'' = None)
   \<and> get_campaign_metrics ''t1'' ''c1'' None None kv_empty
     = (Inr (Metrics \<lparr>m_campaign_id = ''c1'', total_events = 0, unique_users = 0,
           events_by_type = [], conversion_rate = 0, click_through_rate = 0\<rparr>), kv_empty)"
  using campaign_metrics_rates[OF kv_events_query] kv_events_query events0_counts empty_metrics
  by auto

text \<open>
  C10.  Whenever \<open>get_campaign_metrics\<close> returns a metrics dictionary (the query did not
  fail), \<open>total_events\<close> is the sum of the counts in \<open>events_by_type\<close> and
  \<open>unique_users\<close> is at most \<open>total_events\<close>.
\<close>

theorem campaign_metrics_totals:
  fixes s :: "('f, 'd) kv_store"
  assumes run: "get_campaign_metrics t c lo hi s = (Inr (Metrics m), s')"
  shows "total_events m = sum_list (map snd (events_by_type m)) \<and> unique_users m \<le> total_events m"
proof -
  obtain items :: "('f, 'd) event_item list" where m: "campaign_metrics_of c items = Inr m"
    using run unfolding get_campaign_metrics_def
    by (auto split: prod.splits sum.splits)
  have tot: "total_events m = length items"
    and users: "unique_users m = card (ev_user_id ` set items)"
    and by_type: "events_by_type m
        = acc_by_type (fold count_event items \<lparr>acc_total = 0, acc_users = {}, acc_by_type = []\<rparr>)"
    using m campaign_metrics_of_eq[of c items] by auto
  have "sum_list (map snd (events_by_type m)) = length items"
    by (simp add: by_type fold_count_event_sum)
  moreover have "card (ev_user_id ` set items) \<le> length items"
    by (meson card_image_le card_length le_trans List.finite_set)
  ultimately show ?thesis
    by (simp add: tot users)
qed

lemma rate_1_of_2: "py_fmul (round53 (1 / 2)) 100 = 50" by code_simp
lemma rate_0_of_2: "py_fmul (round53 (0 / 2)) 100 = 0" by code_simp

lemma kv_small_metrics:
  "get_campaign_metrics ''t1'' ''c1'' None None kv_small = (Inr (Metrics metrics_small), kv_small)"
  using rate_1_of_2 rate_0_of_2
  by (simp add: get_campaign_metrics_def ev_query_campaign_def kv_call_def kv_small_def kv_empty_def
      event_of_def campaign_metrics_of_def count_event_def count_of_def percentage_def
      py_truediv_def metrics_small_def Let_def card_insert_if)

theorem campaign_metrics_totals_witness:
  "get_campaign_metrics ''t1'' ''c1'' None None kv_small = (Inr (Metrics metrics_small), kv_small)
   \<and> total_events metrics_small = 3 \<and> sum_list (map snd (events_by_type metrics_small)) = 3
   \<and> unique_users metrics_small = 2"
  using campaign_metrics_totals[OF kv_small_metrics] kv_small_metrics
  by (simp add: metrics_small_def)

subsection \<open>Store errors\<close>

lemma kv_call_Some: "kv_call s = (Some e, s') \<Longrightarrow> same_tables s s'"
  by (auto simp: kv_call_def same_tables_def split: list.splits)

lemma rec_put_item_Inl: "rec_put_item k item s = (Inl e, s') \<longleftrightarrow> kv_call s = (Some e, s')"
  by (auto simp: rec_put_item_def split: prod.splits option.splits)

lemma rec_get_item_Inl: "rec_get_item k s = (Inl e, s') \<longleftrightarrow> kv_call s = (Some e, s')"
  by (auto simp: rec_get_item_def split: prod.splits option.splits)

lemma rec_get_item_Inr: "rec_get_item k s = (Inr r, s') \<Longrightarrow> same_tables s s'"
  by (auto simp: rec_get_item_def kv_call_def same_tables_def split: prod.splits option.splits list.splits)

lemma rec_delete_item_Inl: "rec_delete_item k s = (Inl e, s') \<longleftrightarrow> kv_call s = (Some e, s')"
  by (auto simp: rec_delete_item_def split: prod.splits option.splits)

lemma prof_put_item_Inl: "prof_put_item k item s = (Inl e, s') \<longleftrightarrow> kv_call s = (Some e, s')"
  by (auto simp: prof_put_item_def split: prod.splits option.splits)

lemma prof_get_item_Inl: "prof_get_item k s = (Inl e, s') \<longleftrightarrow> kv_call s = (Some e, s')"
  by (auto simp: prof_get_item_def split: prod.splits option.splits)

lemma prof_query_Inl: "prof_query t n s = (Inl e, s') \<longleftrightarrow> kv_call s = (Some e, s')"
  by (auto simp: prof_query_def split: prod.splits option.splits)

lemma ev_put_item_Inl: "ev_put_item k item s = (Inl e, s') \<longleftrightarrow> kv_call s = (Some e, s')"
  by (auto simp: ev_put_item_def split: prod.splits option.splits)

lemma ev_query_campaign_Inl:
  "ev_query_campaign t c lo hi s = (Inl e, s') \<longleftrightarrow> kv_call s = (Some e, s')"
  by (auto simp: ev_query_campaign_def split: prod.splits option.splits)

lemma ev_query_user_Inl: "ev_query_user t u n s = (Inl e, s') \<longleftrightarrow> kv_call s = (Some e, s')"
  by (auto simp: ev_query_user_def split: prod.splits option.splits)

lemma ev_count_expired_Inl: "ev_count_expired t n s = (Inl e, s') \<longleftrightarrow> kv_call s = (Some e, s')"
  by (auto simp: ev_count_expired_def split: prod.splits option.splits)

lemma rec_query_expired_Inl:
  "rec_query_expired t n s = (Inl e, s') \<longleftrightarrow> kv_call s = (Some e, s')"
  by (auto simp: rec_query_expired_def split: prod.splits option.splits)

lemma prof_update_item_Inl: "prof_update_item k ts upd s = (Inl e, s') \<Longrightarrow> same_tables s s'"
  by (auto simp: prof_update_item_def kv_call_def same_tables_def Let_def
      split: prod.splits option.splits list.splits pyval.splits if_splits)

lemma delete_expired_append:
  "delete_expired xs n s = (Inr m, sj) \<Longrightarrow>
   delete_expired (xs @ ys) n s = delete_expired ys m sj"
  by (induction xs n s rule: delete_expired.induct) (auto split: prod.splits sum.splits)

lemma delete_expired_count:
  "delete_expired xs n s = (Inr m, sj) \<Longrightarrow> m = n + length xs"
  by (induction xs n s rule: delete_expired.induct) (auto split: prod.splits sum.splits)

lemma delete_expired_fails_at:
  assumes "j < length items"
    and "delete_expired (take j items) n s = (Inr m, sj)"
    and "rec_delete_item (fst (items ! j)) sj = (Inl e, s')"
  shows "delete_expired items n s = (Inl e, s')"
proof -
  have items: "items = take j items @ items ! j # drop (Suc j) items"
    using assms(1) by (simp add: id_take_nth_drop)
  obtain k item where kj: "items ! j = (k, item)" by (cases "items ! j")
  have "delete_expired (take j items @ items ! j # drop (Suc j) items) n s
          = delete_expired (items ! j # drop (Suc j) items) m sj"
    using delete_expired_append[OF assms(2)] by simp
  also have "\<dots> = (Inl e, s')"
    using assms(3) by (simp add: kj)
  finally show ?thesis using items by simp
qed

lemma delete_expired_error:
  "delete_expired items n s = (Inl e, s') \<Longrightarrow>
   \<exists>j sj. j < length items \<and> delete_expired (take j items) n s = (Inr (n + j), sj)
      \<and> rec_delete_item (fst (items ! j)) sj = (Inl e, s')"
proof (induction items n s rule: delete_expired.induct)
  case (1 n s)
  then show ?case by simp
next
  case (2 k item items n s)
  show ?case
  proof (cases "rec_delete_item k s")
    case (Pair r s1)
    show ?thesis
    proof (cases r)
      case (Inl e1)
      then have "rec_delete_item k s = (Inl e, s')"
        using 2(2) Pair by simp
      then show ?thesis
        by (intro exI[of _ 0] exI[of _ s]) simp
    next
      case (Inr u)
      then have rest: "delete_expired items (n + 1) s1 = (Inl e, s')"
        using 2(2) Pair by simp
      obtain j sj where j: "j < length items"
        and dj: "delete_expired (take j items) (n + 1) s1 = (Inr (n + 1 + j), sj)"
        and fj: "rec_delete_item (fst (items ! j)) sj = (Inl e, s')"
        using 2(1)[OF Pair[symmetric] Inr rest] by blast
      show ?thesis
        by (intro exI[of _ "Suc j"] exI[of _ sj]) (use j dj fj Pair Inr in simp)
    qed
  qed
qed

text \<open>
  C6, as the code has it.  Whichever store call of an operation fails with an error \<open>e\<close>:
  \<open>cache_recommendations\<close> and \<open>create_user_profile\<close> raise a generic exception whose
  message wraps the text of \<open>e\<close>; every other operation of the adapter catches the error and
  returns its failure value (\<open>None\<close>, \<open>False\<close>, the empty list, or a dictionary with an
  \<open>error\<close> entry), and so raises nothing whatever the store answers (the two listing
  operations: when the limit is at least 1, so that a call is sent at all).  Nothing is
  retried: the operation ends in the state that the failing call left, with no store call
  after it.  A failing call changes no table; so an operation whose first call fails leaves
  the tables as they were, as does a failing delete in \<open>get_cached_recommendations\<close>, while
  the rows that \<open>cleanup_expired_items\<close> deleted before a later delete failed stay deleted.
\<close>

theorem store_error_handling:
  fixes num :: "('f, 'd) numeric" and s :: "('f, 'd) kv_store" and clk :: clock
    and pd :: "(string \<times> ('f, 'd) pyval) list"
  defines "now \<equiv> py_int (posix clk)"
  defines "upd \<equiv> map (map_prod id (convert_floats_to_decimal (to_decimal num))) pd"
  shows
    "(rec_put_item (t, u) ritem s = (Inl e, s') \<longrightarrow>
        cache_recommendations num clk t u recs h s
          = (Inl (Exception (''Recommendations caching failed: '' @ err_text e)), s')
        \<and> same_tables s s')
   \<and> (prof_put_item (t, u) pitem s = (Inl e, s') \<longrightarrow>
        create_user_profile num clk t u pd s
          = (Inl (Exception (''User profile creation failed: '' @ err_text e)), s')
        \<and> same_tables s s')
   \<and> (rec_get_item (t, u) s = (Inl e, s') \<longrightarrow>
        get_cached_recommendations num clk t u s = (Inr None, s') \<and> same_tables s s')
   \<and> (rec_get_item (t, u) s = (Inr (Some ritem), s1) \<and> ttl_or_zero ritem < now
        \<and> rec_delete_item (t, u) s1 = (Inl e, s') \<longrightarrow>
        get_cached_recommendations num clk t u s = (Inr None, s') \<and> same_tables s s')
   \<and> (rec_delete_item (t, u) s = (Inl e, s') \<longrightarrow>
        invalidate_recommendations_cache t u s = (Inr False, s') \<and> same_tables s s')
   \<and> (prof_get_item (t, u) s = (Inl e, s') \<longrightarrow>
        get_user_profile num t u s = (Inr None, s') \<and> same_tables s s')
   \<and> (prof_update_item (t, u) (iso clk) upd s = (Inl e, s') \<longrightarrow>
        update_user_profile num clk t u pd s = (Inr False, s') \<and> same_tables s s')
   \<and> (1 \<le> n \<and> prof_query t (nat n) s = (Inl e, s') \<longrightarrow>
        list_user_profiles t n s = (Inr [], s') \<and> same_tables s s')
   \<and> (ev_put_item k eitem s = (Inl e, s') \<longrightarrow>
        track_campaign_event num clk t c u ty pd s = (Inr False, s') \<and> same_tables s s')
   \<and> (ev_query_campaign t c lo hi s = (Inl e, s') \<longrightarrow>
        get_campaign_metrics t c lo hi s = (Inr (MetricsError c (err_text e)), s')
        \<and> same_tables s s')
   \<and> (1 \<le> n \<and> ev_query_user t u (nat n) s = (Inl e, s') \<longrightarrow>
        get_user_campaign_history num t u n s = (Inr [], s') \<and> same_tables s s')
   \<and> (rec_query_expired t now s = (Inl e, s') \<longrightarrow>
        cleanup_expired_items clk t s = (CleanupError (err_text e), s') \<and> same_tables s s')
   \<and> (rec_query_expired t now s = (Inr items, s1) \<and> delete_expired items 0 s1 = (Inl e, s') \<longrightarrow>
        cleanup_expired_items clk t s = (CleanupError (err_text e), s')
        \<and> (\<exists>j sj. j < length items \<and> delete_expired (take j items) 0 s1 = (Inr j, sj)
              \<and> rec_delete_item (fst (items ! j)) sj = (Inl e, s') \<and> same_tables sj s'))
   \<and> (rec_query_expired t now s = (Inr items, s1) \<and> delete_expired items 0 s1 = (Inr m, s2)
        \<and> ev_count_expired t now s2 = (Inl e, s') \<longrightarrow>
        cleanup_expired_items clk t s = (CleanupError (err_text e), s') \<and> same_tables s2 s')
   \<and> \<not> isl (fst (get_cached_recommendations num clk t u s))
   \<and> \<not> isl (fst (invalidate_recommendations_cache t u s))
   \<and> \<not> isl (fst (get_user_profile num t u s))
   \<and> \<not> isl (fst (update_user_profile num clk t u pd s))
   \<and> \<not> isl (fst (track_campaign_event num clk t c u ty pd s))
   \<and> \<not> isl (fst (get_campaign_metrics t c lo hi s))
   \<and> (1 \<le> n \<longrightarrow> \<not> isl (fst (list_user_profiles t n s))
                \<and> \<not> isl (fst (get_user_campaign_history num t u n s)))"
proof -
  have 1: "rec_put_item (t, u) ritem s = (Inl e, s') \<longrightarrow>
        cache_recommendations num clk t u recs h s
          = (Inl (Exception (''Recommendations caching failed: '' @ err_text e)), s')
        \<and> same_tables s s'"
    (is "?A \<longrightarrow> ?B")
  proof (intro impI)
    assume a: ?A
    have call: "kv_call s = (Some e, s')"
      using a by (simp add: rec_put_item_Inl)
    show ?B
      using kv_call_Some[OF call] by (simp add: cache_recommendations_def rec_put_item_def Let_def call)
  qed
  have 2: "prof_put_item (t, u) pitem s = (Inl e, s') \<longrightarrow>
        create_user_profile num clk t u pd s
          = (Inl (Exception (''User profile creation failed: '' @ err_text e)), s')
        \<and> same_tables s s'"
    (is "?A \<longrightarrow> ?B")
  proof (intro impI)
    assume a: ?A
    have call: "kv_call s = (Some e, s')"
      using a by (simp add: prof_put_item_Inl)
    show ?B
      using kv_call_Some[OF call] by (simp add: create_user_profile_def prof_put_item_def Let_def call)
  qed
  have 3: "rec_get_item (t, u) s = (Inl e, s') \<longrightarrow>
        get_cached_recommendations num clk t u s = (Inr None, s') \<and> same_tables s s'"
    (is "?A \<longrightarrow> ?B")
  proof (intro impI)
    assume a: ?A
    have call: "kv_call s = (Some e, s')"
      using a by (simp add: rec_get_item_Inl)
    show ?B
      using kv_call_Some[OF call] by (simp add: get_cached_recommendations_def rec_get_item_def call)
  qed
  have 4: "rec_get_item (t, u) s = (Inr (Some ritem), s1) \<and> ttl_or_zero ritem < now
        \<and> rec_delete_item (t, u) s1 = (Inl e, s') \<longrightarrow>
        get_cached_recommendations num clk t u s = (Inr None, s') \<and> same_tables s s'"
  proof (intro impI, elim conjE)
    assume g: "rec_get_item (t, u) s = (Inr (Some ritem), s1)" and old: "ttl_or_zero ritem < now"
      and d: "rec_delete_item (t, u) s1 = (Inl e, s')"
    have t1: "same_tables s s1" using rec_get_item_Inr[OF g] .
    have t2: "same_tables s1 s'" using d kv_call_Some by (simp add: rec_delete_item_Inl)
    have "get_cached_recommendations num clk t u s = (Inr None, s')"
      using old by (simp add: get_cached_recommendations_def g d now_def ttl_or_zero_def Let_def)
    then show "get_cached_recommendations num clk t u s = (Inr None, s') \<and> same_tables s s'"
      using t1 t2 by (simp add: same_tables_def)
  qed
  have 5: "rec_delete_item (t, u) s = (Inl e, s') \<longrightarrow>
        invalidate_recommendations_cache t u s = (Inr False, s') \<and> same_tables s s'"
    (is "?A \<longrightarrow> ?B")
  proof (intro impI)
    assume a: ?A
    have call: "kv_call s = (Some e, s')"
      using a by (simp add: rec_delete_item_Inl)
    show ?B
      using kv_call_Some[OF call] by (simp add: invalidate_recommendations_cache_def rec_delete_item_def call)
  qed
  have 6: "prof_get_item (t, u) s = (Inl e, s') \<longrightarrow>
        get_user_profile num t u s = (Inr None, s') \<and> same_tables s s'"
    (is "?A \<longrightarrow> ?B")
  proof (intro impI)
    assume a: ?A
    have call: "kv_call s = (Some e, s')"
      using a by (simp add: prof_get_item_Inl)
    show ?B
      using kv_call_Some[OF call] by (simp add: get_user_profile_def prof_get_item_def call)
  qed
  have 7: "prof_update_item (t, u) (iso clk) upd s = (Inl e, s') \<longrightarrow>
        update_user_profile num clk t u pd s = (Inr False, s') \<and> same_tables s s'"
    using prof_update_item_Inl[of "(t, u)" "iso clk" upd s e s']
    by (simp add: update_user_profile_def upd_def Let_def)
  have 8: "1 \<le> n \<and> prof_query t (nat n) s = (Inl e, s') \<longrightarrow>
        list_user_profiles t n s = (Inr [], s') \<and> same_tables s s'"
    (is "?A \<longrightarrow> ?B")
  proof (intro impI)
    assume a: ?A
    have call: "kv_call s = (Some e, s')"
      using a by (simp add: prof_query_Inl)
    show ?B
      using kv_call_Some[OF call] a by (simp add: list_user_profiles_def validate_limit_def prof_query_def call)
  qed
  have 9: "ev_put_item k eitem s = (Inl e, s') \<longrightarrow>
        track_campaign_event num clk t c u ty pd s = (Inr False, s') \<and> same_tables s s'"
    (is "?A \<longrightarrow> ?B")
  proof (intro impI)
    assume a: ?A
    have call: "kv_call s = (Some e, s')"
      using a by (simp add: ev_put_item_Inl)
    show ?B
      using kv_call_Some[OF call] by (simp add: track_campaign_event_def ev_put_item_def Let_def call)
  qed
  have 10: "ev_query_campaign t c lo hi s = (Inl e, s') \<longrightarrow>
        get_campaign_metrics t c lo hi s = (Inr (MetricsError c (err_text e)), s')
        \<and> same_tables s s'"
    (is "?A \<longrightarrow> ?B")
  proof (intro impI)
    assume a: ?A
    have call: "kv_call s = (Some e, s')"
      using a by (simp add: ev_query_campaign_Inl)
    show ?B
      using kv_call_Some[OF call] by (simp add: get_campaign_metrics_def ev_query_campaign_def call)
  qed
  have 11: "1 \<le> n \<and> ev_query_user t u (nat n) s = (Inl e, s') \<longrightarrow>
        get_user_campaign_history num t u n s = (Inr [], s') \<and> same_tables s s'"
    (is "?A \<longrightarrow> ?B")
  proof (intro impI)
    assume a: ?A
    have call: "kv_call s = (Some e, s')"
      using a by (simp add: ev_query_user_Inl)
    show ?B
      using kv_call_Some[OF call] a by (simp add: get_user_campaign_history_def validate_limit_def ev_query_user_def call)
  qed
  have 12: "rec_query_expired t now s = (Inl e, s') \<longrightarrow>
        cleanup_expired_items clk t s = (CleanupError (err_text e), s') \<and> same_tables s s'"
    (is "?A \<longrightarrow> ?B")
  proof (intro impI)
    assume a: ?A
    have call: "kv_call s = (Some e, s')"
      using a by (simp add: rec_query_expired_Inl)
    show ?B
      using kv_call_Some[OF call] by (simp add: cleanup_expired_items_def rec_query_expired_def now_def Let_def call)
  qed
  have 13: "rec_query_expired t now s = (Inr items, s1) \<and> delete_expired items 0 s1 = (Inl e, s') \<longrightarrow>
        cleanup_expired_items clk t s = (CleanupError (err_text e), s')
        \<and> (\<exists>j sj. j < length items \<and> delete_expired (take j items) 0 s1 = (Inr j, sj)
              \<and> rec_delete_item (fst (items ! j)) sj = (Inl e, s') \<and> same_tables sj s')"
  proof (intro impI, elim conjE)
    assume q: "rec_query_expired t now s = (Inr items, s1)"
      and d: "delete_expired items 0 s1 = (Inl e, s')"
    have r: "cleanup_expired_items clk t s = (CleanupError (err_text e), s')"
      using q d by (simp add: cleanup_expired_items_def now_def Let_def)
    obtain j sj where j: "j < length items"
      and dj: "delete_expired (take j items) 0 s1 = (Inr (0 + j), sj)"
      and fj: "rec_delete_item (fst (items ! j)) sj = (Inl e, s')"
      using delete_expired_error[OF d] by blast
    have "same_tables sj s'"
      using fj kv_call_Some by (simp add: rec_delete_item_Inl)
    then show "cleanup_expired_items clk t s = (CleanupError (err_text e), s')
        \<and> (\<exists>j sj. j < length items \<and> delete_expired (take j items) 0 s1 = (Inr j, sj)
              \<and> rec_delete_item (fst (items ! j)) sj = (Inl e, s') \<and> same_tables sj s')"
      using r j dj fj by auto
  qed
  have 14: "rec_query_expired t now s = (Inr items, s1) \<and> delete_expired items 0 s1 = (Inr m, s2)
        \<and> ev_count_expired t now s2 = (Inl e, s') \<longrightarrow>
        cleanup_expired_items clk t s = (CleanupError (err_text e), s') \<and> same_tables s2 s'"
  proof (intro impI, elim conjE)
    assume q: "rec_query_expired t now s = (Inr items, s1)"
      and d: "delete_expired items 0 s1 = (Inr m, s2)"
      and c: "ev_count_expired t now s2 = (Inl e, s')"
    have "same_tables s2 s'"
      using c kv_call_Some by (simp add: ev_count_expired_Inl)
    then show "cleanup_expired_items clk t s = (CleanupError (err_text e), s') \<and> same_tables s2 s'"
      using q d c by (simp add: cleanup_expired_items_def now_def Let_def)
  qed
  have 15: "\<not> isl (fst (get_cached_recommendations num clk t u s))"
    by (simp add: get_cached_recommendations_def Let_def split: prod.splits sum.splits option.splits)
  have 16: "\<not> isl (fst (invalidate_recommendations_cache t u s))"
    by (simp add: invalidate_recommendations_cache_def split: prod.splits sum.splits)
  have 17: "\<not> isl (fst (get_user_profile num t u s))"
    by (simp add: get_user_profile_def Let_def split: prod.splits sum.splits option.splits)
  have 18: "\<not> isl (fst (update_user_profile num clk t u pd s))"
    by (simp add: update_user_profile_def Let_def split: prod.splits sum.splits)
  have 19: "\<not> isl (fst (track_campaign_event num clk t c u ty pd s))"
    by (simp add: track_campaign_event_def Let_def split: prod.splits sum.splits)
  have 20: "\<not> isl (fst (get_campaign_metrics t c lo hi s))"
    by (simp add: get_campaign_metrics_def campaign_metrics_of_eq split: prod.splits sum.splits)
  have 21: "1 \<le> n \<longrightarrow> \<not> isl (fst (list_user_profiles t n s))
                \<and> \<not> isl (fst (get_user_campaign_history num t u n s))"
    by (simp add: list_user_profiles_def get_user_campaign_history_def validate_limit_def
        split: prod.splits sum.splits)
  show ?thesis
    using 1 2 3 4 5 6 7 8 9 10 11 12 13 14 15 16 17 18 19 20 21 by (intro conjI)
qed

text \<open>
  The claim as stated says that every operation raises.  With the store failing,
  \<open>get_cached_recommendations\<close> returns \<open>None\<close> and \<open>track_campaign_event\<close> returns
  \<open>False\<close>.
\<close>

theorem store_error_handling_counterexample:
  "kv_faults kv_down = [Some (ClientError ''InternalServerError'' ''Internal server error'')]
   \<and> fst (get_cached_recommendations num0 (clock_at 1700000060) ''t1'' ''u1'' kv_down) = Inr None
   \<and> fst (track_campaign_event num0 (clock_at 1700000060) ''t1'' ''c1'' ''u1'' ''sent'' [] kv_down)
       = Inr False"
  by (simp add: kv_down_def get_cached_recommendations_def rec_get_item_def
      track_campaign_event_def ev_put_item_def kv_call_def Let_def)

lemma kv_stale_query:
  "rec_query_expired ''t1'' 1700086400 kv_stale
     = (Inr (recommendations_table kv_stale),
        kv_stale\<lparr>kv_faults := [None, Some (ClientError ''ProvisionedThroughputExceededException''
                                        ''Rate exceeded'')]\<rparr>)"
  by (simp add: rec_query_expired_def kv_call_def kv_stale_def kv_empty_def)

lemma kv_stale_delete:
  "delete_expired (recommendations_table kv_stale) 0
       (kv_stale\<lparr>kv_faults := [None, Some (ClientError ''ProvisionedThroughputExceededException''
                                        ''Rate exceeded'')]\<rparr>)
     = (Inl (ClientError ''ProvisionedThroughputExceededException'' ''Rate exceeded''),
        kv_stale\<lparr>recommendations_table :=
            [((''t1'', ''u2''), \<lparr>rec_recommendations = [], rec_cached_at = ''2023-11-14T22:13:20'',
                                 rec_ttl = Some 1700000000\<rparr>)],
          kv_faults := []\<rparr>)"
  by (simp add: rec_delete_item_def kv_call_def kv_stale_def kv_empty_def)

theorem store_error_handling_witness:
  "kv_faults kv_down = [Some (ClientError ''InternalServerError'' ''Internal server error'')]
   \<and> rec_put_item (''t1'', ''u1'') \<lparr>rec_recommendations = [], rec_cached_at = [], rec_ttl = None\<rparr> kv_down
       = (Inl (ClientError ''InternalServerError'' ''Internal server error''), kv_cached)
   \<and> cache_recommendations num0 (clock_at 1700000060) ''t1'' ''u1'' recs0 24 kv_down
       = (Inl (Exception ''Recommendations caching failed: Internal server error''), kv_cached)
   \<and> rec_get_item (''t1'', ''u1'') kv_down
       = (Inl (ClientError ''InternalServerError'' ''Internal server error''), kv_cached)
   \<and> get_cached_recommendations num0 (clock_at 1700000060) ''t1'' ''u1'' kv_down = (Inr None, kv_cached)
   \<and> same_tables kv_down kv_cached
   \<and> length (recommendations_table kv_stale) = 2
   \<and> cleanup_expired_items (clock_at 1700086400) ''t1'' kv_stale
       = (CleanupError ''Rate exceeded'',
          kv_stale\<lparr>recommendations_table :=
              [((''t1'', ''u2''), \<lparr>rec_recommendations = [], rec_cached_at = ''2023-11-14T22:13:20'',
                                   rec_ttl = Some 1700000000\<rparr>)],
            kv_faults := []\<rparr>)"
proof -
  let ?e = "ClientError ''InternalServerError'' ''Internal server error''"
  let ?ritem = "\<lparr>rec_recommendations = [], rec_cached_at = [], rec_ttl = None\<rparr> :: (rat, rat) rec_item"
  have f: "kv_faults kv_down = [Some ?e]"
    by (simp add: kv_down_def)
  have p: "rec_put_item (''t1'', ''u1'') ?ritem kv_down = (Inl ?e, kv_cached)"
    by (simp add: rec_put_item_def kv_call_def kv_down_def kv_cached_eq)
  have g: "rec_get_item (''t1'', ''u1'') kv_down = (Inl ?e, kv_cached)"
    by (simp add: rec_get_item_def kv_call_def kv_down_def kv_cached_eq)
  note down = store_error_handling[where s = kv_down and num = num0 and clk = "clock_at 1700000060"
      and t = "''t1''" and u = "''u1''" and recs = recs0 and h = 24 and e = ?e and s' = kv_cached
      and ritem = ?ritem]
  have c: "cache_recommendations num0 (clock_at 1700000060) ''t1'' ''u1'' recs0 24 kv_down
       = (Inl (Exception ''Recommendations caching failed: Internal server error''), kv_cached)
       \<and> same_tables kv_down kv_cached"
    using down p by simp
  have r: "get_cached_recommendations num0 (clock_at 1700000060) ''t1'' ''u1'' kv_down = (Inr None, kv_cached)"
    using down g by blast
  have now: "py_int (posix (clock_at 1700086400)) = 1700086400"
    by (simp add: py_int_def clock_at_def)
  note stale = store_error_handling[where s = kv_stale and clk = "clock_at 1700086400"
      and t = "''t1''" and items = "recommendations_table kv_stale"
      and e = "ClientError ''ProvisionedThroughputExceededException'' ''Rate exceeded''",
      unfolded now]
  have l: "length (recommendations_table kv_stale) = 2"
    by (simp add: kv_stale_def)
  have cl: "cleanup_expired_items (clock_at 1700086400) ''t1'' kv_stale
       = (CleanupError (err_text (ClientError ''ProvisionedThroughputExceededException'' ''Rate exceeded'')),
          kv_stale\<lparr>recommendations_table :=
              [((''t1'', ''u2''), \<lparr>rec_recommendations = [], rec_cached_at = ''2023-11-14T22:13:20'',
                                   rec_ttl = Some 1700000000\<rparr>)],
            kv_faults := []\<rparr>)"
    using stale kv_stale_query kv_stale_delete by blast
  show ?thesis
    using f p c g r l cl by simp
qed

section \<open>Properties of the object-store adapter and of the upload route\<close>

lemma s3_call_no_fault: "s3_faults s = [] \<Longrightarrow> s3_call s = (None, s)"
  by (simp add: s3_call_def)

lemma s3_call_objects: "objects (snd (s3_call s)) = objects s"
  by (simp add: s3_call_def split: list.splits)

lemma starts_with_append: "starts_with p (p @ rest)"
  by (simp add: starts_with_def)

lemma starts_with_split: "starts_with p k \<Longrightarrow> k = p @ drop (length p) k"
  unfolding starts_with_def by (metis append_take_drop_id)

lemma replace_first_prefix:
  assumes "old \<noteq> []"
  shows "replace_first old new (old @ rest) = new @ rest"
proof (cases "old @ rest")
  case Nil
  then show ?thesis using assms by simp
next
  case (Cons a l)
  have sw: "starts_with old (a # l)"
    using starts_with_append[of old rest] Cons by simp
  have dr: "drop (length old) (a # l) = rest"
    using Cons by (metis append_eq_conv_conj)
  have "replace_first old new (a # l) = new @ rest"
    using sw dr by simp
  then show ?thesis by (simp add: Cons)
qed

lemma strip_tenant: "replace_first (t @ ''/'') [] (t @ ''/'' @ k) = k"
  using replace_first_prefix[of "t @ ''/''" "[]" k] by simp

lemma listed_key:
  assumes "starts_with (t @ ''/'' @ pfx) key"
  shows "t @ ''/'' @ replace_first (t @ ''/'') [] key = key \<and> starts_with pfx (replace_first (t @ ''/'') [] key)"
proof -
  obtain rest where k: "key = t @ ''/'' @ pfx @ rest"
    using starts_with_split[OF assms] by (metis append.assoc)
  have "replace_first (t @ ''/'') [] key = pfx @ rest"
    unfolding k by (rule strip_tenant)
  then show ?thesis
    by (simp add: k starts_with_append)
qed

lemma list_files_run:
  "s3_faults s = [] \<Longrightarrow>
   list_files cfg pfx t n s
     = (Inr (map (file_entry t)
               (take n (filter (\<lambda>(k, obj). starts_with (t @ ''/'' @ pfx) k) (objects s)))), s)"
  by (simp add: list_files_def client_list_objects_v2_def s3_call_no_fault Let_def)

lemma list_files_listed:
  assumes "fst (list_files cfg pfx t n s) = Inr fs" and "f \<in> set fs"
  shows "map_of (objects s) (t @ ''/'' @ fi_key f) \<noteq> None \<and> starts_with pfx (fi_key f)"
proof -
  obtain e s' where c: "s3_call s = (e, s')" by (cases "s3_call s")
  have obj: "objects s' = objects s"
    using s3_call_objects[of s] c by simp
  have none: "e = None"
    using assms(1) c by (cases e) (simp_all add: list_files_def client_list_objects_v2_def Let_def)
  let ?contents = "take n (filter (\<lambda>(k, obj). starts_with (t @ ''/'' @ pfx) k) (objects s))"
  have fs: "fs = map (file_entry t) ?contents"
    using assms(1) c none obj
    by (simp add: list_files_def client_list_objects_v2_def Let_def)
  obtain key ob where ko: "(key, ob) \<in> set ?contents" and fk: "fi_key f = replace_first (t @ ''/'') [] key"
    using assms(2) unfolding fs by (auto simp: file_entry_def)
  have mem: "(key, ob) \<in> set (objects s)" and sw: "starts_with (t @ ''/'' @ pfx) key"
    using ko by (auto dest: in_set_takeD)
  have "key \<in> fst ` set (objects s)"
    using mem by force
  then have "map_of (objects s) key \<noteq> None"
    by (simp add: map_of_eq_None_iff)
  then show ?thesis
    using listed_key[OF sw] by (simp add: fk)
qed

lemma update_length: "length (AList.update k v al) \<le> Suc (length al)"
  by (induction al) auto

lemma upload_file_ok:
  assumes "s3_faults s = []"
  shows "\<exists>info obj. upload_file cfg clk content k t ct md s
           = (Inr info, s\<lparr>objects := AList.update (t @ ''/'' @ k) obj (objects s)\<rparr>)
         \<and> up_key info = t @ ''/'' @ k
         \<and> up_url info = ''s3://'' @ s3_bucket_name cfg @ ''/'' @ t @ ''/'' @ k"
  using assms
  apply (simp add: upload_file_def client_put_object_def s3_call_no_fault Let_def)
  apply (rule exI)
  apply (rule refl)
  done

lemma list_after_upload:
  assumes nf: "s3_faults s = []" and n: "length (objects s) < n"
  shows "\<exists>fs. fst (list_files cfg [] t n (snd (upload_file cfg clk content k t ct md s))) = Inr fs
           \<and> k \<in> fi_key ` set fs"
proof -
  obtain info obj where up: "upload_file cfg clk content k t ct md s
           = (Inr info, s\<lparr>objects := AList.update (t @ ''/'' @ k) obj (objects s)\<rparr>)"
    using upload_file_ok[OF nf] by blast
  let ?objs = "AList.update (t @ ''/'' @ k) obj (objects s)"
  let ?s1 = "s\<lparr>objects := ?objs\<rparr>"
  let ?sel = "filter (\<lambda>(key, ob). starts_with (t @ ''/'' @ []) key) (objects ?s1)"
  have nf1: "s3_faults ?s1 = []" using nf by simp
  have len: "length ?objs \<le> n"
    using n update_length[of "t @ ''/'' @ k" obj "objects s"] by simp
  have "length ?sel \<le> n"
    using len by (simp add: le_trans[OF length_filter_le])
  then have page: "take n ?sel = ?sel" by simp
  have "map_of ?objs (t @ ''/'' @ k) = Some obj"
    by (simp add: update_conv')
  then have "(t @ ''/'' @ k, obj) \<in> set ?objs"
    by (rule map_of_SomeD)
  then have sel: "(t @ ''/'' @ k, obj) \<in> set ?sel"
    using starts_with_append[of "t @ ''/''" k] by simp
  have run: "fst (list_files cfg [] t n ?s1) = Inr (map (file_entry t) ?sel)"
    using list_files_run[OF nf1, of cfg "[]" t n] page by simp
  have "fi_key (file_entry t (t @ ''/'' @ k, obj)) = k"
    using strip_tenant[of t k] by (simp add: file_entry_def)
  then have "k \<in> fi_key ` set (map (file_entry t) ?sel)"
    using sel by force
  then show ?thesis
    using run by (simp add: up)
qed

text \<open>
  C7, as the code has it.  An upload that the store accepts puts the object under
  \<open>{tenant_id}/{key}\<close> and reports that key.  Every key that \<open>list_files\<close> returns for a
  tenant is a stored key with its one leading \<open>{tenant_id}/\<close> removed, and starts with the
  prefix asked for; and after an upload, a listing with the same tenant and an empty prefix
  (and room for every object) contains the caller's key as the caller gave it.
\<close>

theorem tenant_prefix:
  fixes cfg :: settings and s :: s3 and t :: string and k :: string
  defines "up \<equiv> \<lambda>clk content ct md. upload_file cfg clk content k t ct md s"
  shows "(s3_faults s = [] \<longrightarrow>
            (\<exists>info. fst (up clk content ct md) = Inr info
               \<and> up_key info = t @ ''/'' @ k
               \<and> up_url info = ''s3://'' @ s3_bucket_name cfg @ ''/'' @ t @ ''/'' @ k)
            \<and> map_of (objects (snd (up clk content ct md))) (t @ ''/'' @ k) \<noteq> None)
       \<and> (\<forall>pfx n fs f. fst (list_files cfg pfx t n s) = Inr fs \<and> f \<in> set fs
             \<longrightarrow> map_of (objects s) (t @ ''/'' @ fi_key f) \<noteq> None \<and> starts_with pfx (fi_key f))
       \<and> (\<forall>n. s3_faults s = [] \<and> length (objects s) < n
             \<longrightarrow> (\<exists>fs. fst (list_files cfg [] t n (snd (up clk content ct md))) = Inr fs
                    \<and> k \<in> fi_key ` set fs))"
proof (intro conjI impI allI)
  assume nf: "s3_faults s = []"
  obtain info obj where u: "upload_file cfg clk content k t ct md s
           = (Inr info, s\<lparr>objects := AList.update (t @ ''/'' @ k) obj (objects s)\<rparr>)"
         and key: "up_key info = t @ ''/'' @ k"
         and url: "up_url info = ''s3://'' @ s3_bucket_name cfg @ ''/'' @ t @ ''/'' @ k"
    using upload_file_ok[OF nf] by blast
  show "\<exists>info. fst (up clk content ct md) = Inr info
               \<and> up_key info = t @ ''/'' @ k
               \<and> up_url info = ''s3://'' @ s3_bucket_name cfg @ ''/'' @ t @ ''/'' @ k"
    unfolding up_def using u key url by simp
  show "map_of (objects (snd (up clk content ct md))) (t @ ''/'' @ k) \<noteq> None"
    unfolding up_def by (simp add: u update_conv')
next
  fix pfx n fs f
  assume "fst (list_files cfg pfx t n s) = Inr fs \<and> f \<in> set fs"
  then show "map_of (objects s) (t @ ''/'' @ fi_key f) \<noteq> None"
    and "starts_with pfx (fi_key f)"
    using list_files_listed[of cfg pfx t n s fs f] by simp_all
next
  fix n
  assume "s3_faults s = [] \<and> length (objects s) < n"
  then show "\<exists>fs. fst (list_files cfg [] t n (snd (up clk content ct md))) = Inr fs
                    \<and> k \<in> fi_key ` set fs"
    unfolding up_def using list_after_upload[of s n cfg t clk content k ct md] by simp
qed

lemma upload_x_csv:
  "upload_file cfg0 (clock_at 1700000000) (StrContent ''a,b'') ''x.csv'' ''t1'' ''text/csv'' None s3_empty
     = (Inr \<lparr>up_bucket = ''bucket'', up_key = ''t1/x.csv'', up_etag = ''a1'', up_version_id = None,
             up_size = 3, up_url = ''s3://bucket/t1/x.csv''\<rparr>,
        s3_empty\<lparr>objects := [(''t1/x.csv'',
           \<lparr>obj_body = ''a,b'', obj_content_type = ''text/csv'',
            obj_metadata = [(''tenant_id'', ''t1''), (''uploaded_at'', ''2023-11-14T22:13:20''),
                            (''content_type'', ''text/csv'')],
            obj_etag = [CHR 0x22, CHR ''a'', CHR ''1'', CHR 0x22],
            obj_last_modified = ''2023-11-14T22:13:20'', obj_storage_class = None\<rparr>)]\<rparr>)"
  by (simp add: upload_file_def client_put_object_def s3_call_def s3_empty_def cfg0_def clock_at_def
      encode_utf8_def utf8_char_def py_strip_def Let_def)

text \<open>
  Tenant \<open>t1\<close> and key \<open>x.csv\<close> on an empty bucket: stored as \<open>t1/x.csv\<close>, listed as
  \<open>x.csv\<close>.
\<close>

theorem tenant_prefix_witness:
  "s3_faults s3_empty = [] \<and> length (objects s3_empty) < 1000
   \<and> (\<exists>info. fst (upload_file cfg0 (clock_at 1700000000) (StrContent ''a,b'') ''x.csv'' ''t1''
                      ''text/csv'' None s3_empty) = Inr info
          \<and> up_key info = ''t1/x.csv'')
   \<and> map fi_key (projr (fst (list_files cfg0 [] ''t1'' 1000
        (snd (upload_file cfg0 (clock_at 1700000000) (StrContent ''a,b'') ''x.csv'' ''t1''
               ''text/csv'' None s3_empty))))) = [''x.csv'']"
proof -
  have nf: "s3_faults s3_empty = []" and len: "length (objects s3_empty) < 1000"
    by (simp_all add: s3_empty_def)
  have key: "\<exists>info. fst (upload_file cfg0 (clock_at 1700000000) (StrContent ''a,b'') ''x.csv'' ''t1''
                      ''text/csv'' None s3_empty) = Inr info
          \<and> up_key info = ''t1'' @ ''/'' @ ''x.csv''"
    using tenant_prefix[where s = s3_empty and cfg = cfg0 and k = "''x.csv''" and t = "''t1''"
        and clk = "clock_at 1700000000" and content = "StrContent ''a,b''" and ct = "''text/csv''"
        and md = None] nf
    by blast
  have listed: "map fi_key (projr (fst (list_files cfg0 [] ''t1'' 1000
        (snd (upload_file cfg0 (clock_at 1700000000) (StrContent ''a,b'') ''x.csv'' ''t1''
               ''text/csv'' None s3_empty))))) = [''x.csv'']"
    unfolding upload_x_csv
    by (simp add: list_files_def client_list_objects_v2_def s3_call_def s3_empty_def
        starts_with_def file_entry_def Let_def)
  show ?thesis
    using nf len key listed by simp
qed

text \<open>
  The claim as stated ends with: no returned key has a leading tenant segment.  The caller
  chooses the key, and the listing gives it back unchanged: the key \<open>t1/x.csv\<close> of tenant
  \<open>t1\<close> is stored as \<open>t1/t1/x.csv\<close> and listed as \<open>t1/x.csv\<close>.
\<close>

theorem tenant_prefix_counterexample:
  "map fi_key (projr (fst (list_files cfg0 [] ''t1'' 1000
        (snd (upload_file cfg0 (clock_at 1700000000) (StrContent ''a,b'') ''t1/x.csv'' ''t1''
               ''text/csv'' None s3_empty))))) = [''t1/x.csv'']
   \<and> starts_with ''t1/'' ''t1/x.csv''"
  by (simp add: upload_file_def client_put_object_def list_files_def client_list_objects_v2_def
      s3_call_def s3_empty_def starts_with_def file_entry_def Let_def)

lemma upload_dataset_fails:
  "upload_dataset cfg clk filename file dataset_type tenant_id s
     = (Inl (HTTPException 500 (''Upload failed: '' @
          (if ends_with ''.csv'' filename
           then ''upload_file() missing 1 required positional argument: tenant_id''
           else ''400: Only CSV files are supported''))), s)"
  by (simp add: upload_dataset_def upload_dataset_body_def upload_file_call_def str_exception_def
      Let_def)

text \<open>
  C8.  The route builds the key \<open>datasets/{tenant}/{dataset_type}/{filename}\<close> and then calls
  \<open>upload_file(file, s3_key)\<close> without the tenant argument that the method requires: the call
  raises before the method's body runs, the route answers 500, and the bucket is unchanged.
  No upload through the route stores an object.
\<close>

theorem upload_route_stores_nothing:
  "upload_dataset cfg0 (clock_at 1700000000) ''x.csv'' ''a,b'' ''interactions'' ''t1'' s3_empty
     = (Inl (HTTPException 500
          ''Upload failed: upload_file() missing 1 required positional argument: tenant_id''),
        s3_empty)
   \<and> map_of (objects (snd (upload_dataset cfg0 (clock_at 1700000000) ''x.csv'' ''a,b''
                              ''interactions'' ''t1'' s3_empty)))
        ''datasets/t1/interactions/x.csv'' = None"
  by (simp add: upload_dataset_fails ends_with_def s3_empty_def)

section \<open>Properties of the messaging adapter\<close>

lemma append_blocks_eq:
  "append_blocks fmt rs html
     = (case blocks_of fmt rs of Inl ex \<Rightarrow> Inl ex | Inr bs \<Rightarrow> Inr (html @ concat bs))"
  by (induction rs arbitrary: html) (auto split: sum.splits)

lemma blocks_of_length: "blocks_of fmt rs = Inr bs \<Longrightarrow> length bs = length rs"
  by (induction rs arbitrary: bs) (auto split: sum.splits)

lemma email_html_eq:
  "email_html fmt recs
     = (case blocks_of fmt (take 5 recs) of
          Inl ex \<Rightarrow> Inl ex | Inr bs \<Rightarrow> Inr (html_head @ concat bs @ html_tail))"
  by (simp add: email_html_def append_blocks_eq split: sum.splits)

lemma send_unsupported:
  "channel \<noteq> ''email'' \<Longrightarrow> channel \<noteq> ''sms'' \<Longrightarrow>
   send_personalized_recommendations cfg fmt t u recs channel s
     = (Inl (ValueError (''Unsupported channel: '' @ channel)), s)"
  by (simp add: send_personalized_recommendations_def Let_def)

lemma send_email:
  "email_html fmt recs = Inr html \<Longrightarrow>
   pp_calls (snd (send_personalized_recommendations cfg fmt t u recs ''email'' s))
     = pp_calls s @ [\<lparr>sc_application_id = pinpoint_application_id cfg,
                      sc_configuration = EmailMessage (pinpoint_from_address cfg) html
                          ''Personalized Recommendations Just for You!'',
                      sc_user_id = u\<rparr>]"
  by (simp add: send_personalized_recommendations_def client_send_messages_def Let_def
      split: list.splits option.splits)

text \<open>
  C9.  For every channel other than \<open>email\<close> and \<open>sms\<close>,
  \<open>send_personalized_recommendations\<close> raises \<open>ValueError\<close> naming the channel and leaves
  the messaging client untouched: no \<open>send_messages\<close> call is issued.  For the email channel
  the HTML depends on the first five recommendations only: it is the head of the template, one
  block for each of the first \<open>min 5 n\<close> recommendations, and the tail, and it is the body of
  the one message that is sent.
\<close>

theorem personalized_send:
  fixes cfg :: pinpoint_settings and fmt :: "('f, 'd) formatter" and s :: pinpoint
  shows "(channel \<noteq> ''email'' \<and> channel \<noteq> ''sms''
            \<longrightarrow> send_personalized_recommendations cfg fmt t u recs channel s
                  = (Inl (ValueError (''Unsupported channel: '' @ channel)), s))
       \<and> email_html fmt recs = email_html fmt (take 5 recs)
       \<and> (\<forall>html. email_html fmt recs = Inr html
            \<longrightarrow> (\<exists>bs. blocks_of fmt (take 5 recs) = Inr bs \<and> length bs = min 5 (length recs)
                      \<and> length bs \<le> 5 \<and> html = html_head @ concat bs @ html_tail)
                \<and> pp_calls (snd (send_personalized_recommendations cfg fmt t u recs ''email'' s))
                     = pp_calls s @ [\<lparr>sc_application_id = pinpoint_application_id cfg,
                          sc_configuration = EmailMessage (pinpoint_from_address cfg) html
                              ''Personalized Recommendations Just for You!'',
                          sc_user_id = u\<rparr>])"
proof (intro conjI impI allI)
  assume "channel \<noteq> ''email'' \<and> channel \<noteq> ''sms''"
  then show "send_personalized_recommendations cfg fmt t u recs channel s
                  = (Inl (ValueError (''Unsupported channel: '' @ channel)), s)"
    using send_unsupported by blast
next
  show "email_html fmt recs = email_html fmt (take 5 recs)"
    by (simp add: email_html_def)
next
  fix html assume h: "email_html fmt recs = Inr html"
  then obtain bs where bs: "blocks_of fmt (take 5 recs) = Inr bs"
      and html: "html = html_head @ concat bs @ html_tail"
    by (auto simp: email_html_eq split: sum.splits)
  have len: "length bs = min 5 (length recs)"
    using blocks_of_length[OF bs] by (simp add: min.commute)
  show "\<exists>bs. blocks_of fmt (take 5 recs) = Inr bs \<and> length bs = min 5 (length recs)
                      \<and> length bs \<le> 5 \<and> html = html_head @ concat bs @ html_tail"
    using bs html len by auto
  show "pp_calls (snd (send_personalized_recommendations cfg fmt t u recs ''email'' s))
                     = pp_calls s @ [\<lparr>sc_application_id = pinpoint_application_id cfg,
                          sc_configuration = EmailMessage (pinpoint_from_address cfg) html
                              ''Personalized Recommendations Just for You!'',
                          sc_user_id = u\<rparr>]"
    using send_email[OF h] .
qed

theorem personalized_send_witness:
  "send_personalized_recommendations pp_cfg0 fmt0 ''t1'' ''u1'' seven_recs ''push'' pp_idle
     = (Inl (ValueError ''Unsupported channel: push''), pp_idle)
   \<and> pp_calls (snd (send_personalized_recommendations pp_cfg0 fmt0 ''t1'' ''u1'' seven_recs ''push'' pp_idle)) = []
   \<and> email_html fmt0 seven_recs = email_html fmt0 (map titled [''a'', ''b'', ''c'', ''d'', ''e''])
   \<and> length (projr (blocks_of fmt0 (take 5 seven_recs))) = 5"
  using personalized_send[where cfg = pp_cfg0 and fmt = fmt0 and t = "''t1''" and u = "''u1''"
      and recs = seven_recs and channel = "''push''" and s = pp_idle]
  by (simp add: seven_recs_def pp_idle_def email_block_def fmt0_def titled_def rec_get_def Let_def)

end
